(* ===== verification/Prelude.thy ===== *)
theory Prelude
  imports Complex_Main "HOL-Library.Sublist"
begin

text \<open>
  Shared vocabulary of the development: the collections of rewrite rules the component
  theories feed, the list operations JavaScript's \<open>Array.prototype.join\<close> and a
  throwing \<open>Array.prototype.map\<close> are built from, decimal printing of numbers, and
  the generic lemmas on lists and prefixes the component proofs share.
\<close>

named_theorems js_simps "evaluation rules of the JavaScript runtime model"
named_theorems loop_simps "unfolding rules of the agent loop, one per branch"
named_theorems io_simps "the console and the library calls of a script's state"

subsection \<open>Gluing a list of strings with a separator\<close>

text \<open>
  \<open>join_with sep xs\<close> is the string \<open>xs.join(sep)\<close> once every element is a string:
  the elements in order with \<open>sep\<close> between two neighbours, nothing around them.
\<close>

fun join_with :: "'a list \<Rightarrow> 'a list list \<Rightarrow> 'a list" where
  "join_with sep [] = []"
| "join_with sep [x] = x"
| "join_with sep (x # y # zs) = x @ sep @ join_with sep (y # zs)"

lemma join_with_Cons [simp]:
  "join_with sep (x # xs) = (if xs = [] then x else x @ sep @ join_with sep xs)"
  by (cases xs) simp_all

declare join_with.simps(3) [simp del]

lemma join_with_append:
  "xs \<noteq> [] \<Longrightarrow> ys \<noteq> [] \<Longrightarrow>
   join_with sep (xs @ ys) = join_with sep xs @ sep @ join_with sep ys"
  by (induction xs) auto

lemma length_join_with:
  "xs \<noteq> [] \<Longrightarrow>
   length (join_with sep xs) = sum_list (map length xs) + (length xs - 1) * length sep"
  by (induction sep xs rule: join_with.induct) (simp_all add: join_with.simps(3) algebra_simps)

lemma join_with_empty_sep [simp]: "join_with [] xs = concat xs"
  by (induction xs) auto

subsection \<open>Mapping a function that may throw\<close>

text \<open>
  \<open>map_throw f xs\<close> is \<open>xs.map(f)\<close> for an \<open>f\<close> that may throw: the first
  element on which \<open>f\<close> throws ends the map with that exception (\<open>Inl\<close>).
\<close>

fun map_throw :: "('a \<Rightarrow> 'e + 'b) \<Rightarrow> 'a list \<Rightarrow> 'e + 'b list" where
  "map_throw f [] = Inr []"
| "map_throw f (x # xs) =
     (case f x of
        Inl e \<Rightarrow> Inl e
      | Inr y \<Rightarrow> (case map_throw f xs of Inl e \<Rightarrow> Inl e | Inr ys \<Rightarrow> Inr (y # ys)))"

lemma map_throw_Inl_ex:
  "map_throw f xs = Inl e \<Longrightarrow> \<exists>x \<in> set xs. f x = Inl e"
  by (induction xs) (auto split: sum.splits)

lemma map_throw_Inr_iff:
  "map_throw f xs = Inr ys \<longleftrightarrow> (\<forall>x \<in> set xs. \<exists>y. f x = Inr y) \<and> ys = map (\<lambda>x. projr (f x)) xs"
proof (induction xs arbitrary: ys)
  case Nil
  then show ?case by auto
next
  case (Cons x xs)
  show ?case
  proof (cases "map_throw f xs")
    case (Inl e)
    then obtain z where "z \<in> set xs" "f z = Inl e" by (blast dest: map_throw_Inl_ex)
    with Inl show ?thesis by (auto split: sum.splits) (metis Inl_Inr_False)
  next
    case (Inr zs)
    with Cons.IH [of zs] show ?thesis by (auto split: sum.splits)
  qed
qed

lemma map_throw_all_Inr [simp]:
  "map_throw (\<lambda>x. Inr (g x)) xs = Inr (map g xs)"
  by (induction xs) auto

subsection \<open>Decimal printing\<close>

definition digit_char :: "nat \<Rightarrow> char" where
  "digit_char d = ''0123456789'' ! d"

fun string_of_nat :: "nat \<Rightarrow> string" where
  "string_of_nat n =
     (if n < 10 then [digit_char n] else string_of_nat (n div 10) @ [digit_char (n mod 10)])"

declare string_of_nat.simps [simp del]

definition string_of_int :: "int \<Rightarrow> string" where
  "string_of_int i =
     (if i < 0 then CHR ''-'' # string_of_nat (nat (- i)) else string_of_nat (nat i))"

lemma string_of_nat_nonempty [simp]: "string_of_nat n \<noteq> []"
  by (subst string_of_nat.simps) simp

lemma string_of_nat_digits:
  "c \<in> set (string_of_nat n) \<Longrightarrow> c \<in> digit_char ` {0..<10}"
proof (induction n rule: string_of_nat.induct)
  case (1 n)
  show ?case
  proof (cases "n < 10")
    case True
    with "1.prems" show ?thesis by (simp add: string_of_nat.simps [of n])
  next
    case False
    with "1.prems" "1.IH" show ?thesis by (auto simp: string_of_nat.simps [of n])
  qed
qed

subsection \<open>Reading decimal digits back\<close>

definition digit_value :: "char \<Rightarrow> nat" where
  "digit_value c = of_char c - 48"

definition nat_of_digits :: "string \<Rightarrow> nat" where
  "nat_of_digits s = foldl (\<lambda>acc c. acc * 10 + digit_value c) 0 s"

lemma digit_value_digit_char [simp]: "d < 10 \<Longrightarrow> digit_value (digit_char d) = d"
proof -
  assume "d < 10"
  then have "d = 0 \<or> d = 1 \<or> d = 2 \<or> d = 3 \<or> d = 4 \<or> d = 5 \<or> d = 6 \<or> d = 7 \<or> d = 8 \<or> d = 9"
    by arith
  then show ?thesis by (auto simp: digit_value_def digit_char_def)
qed

lemma nat_of_digits_snoc [simp]: "nat_of_digits (s @ [c]) = nat_of_digits s * 10 + digit_value c"
  by (simp add: nat_of_digits_def)

lemma nat_of_digits_append:
  "nat_of_digits (s @ t) = nat_of_digits s * 10 ^ length t + nat_of_digits t"
proof (induction t rule: rev_induct)
  case Nil
  then show ?case by (simp add: nat_of_digits_def)
next
  case (snoc c t)
  then show ?case by (simp add: append_assoc [symmetric] algebra_simps del: append_assoc)
qed

lemma nat_of_digits_zeros [simp]: "nat_of_digits (replicate k (CHR ''0'') @ s) = nat_of_digits s"
  by (induction k) (simp_all add: nat_of_digits_def digit_value_def)

lemma nat_of_digits_string_of_nat [simp]: "nat_of_digits (string_of_nat n) = n"
proof (induction n rule: string_of_nat.induct)
  case (1 n)
  show ?case
  proof (cases "n < 10")
    case True
    then show ?thesis by (simp add: string_of_nat.simps [of n] nat_of_digits_def)
  next
    case False
    with "1.IH" show ?thesis by (simp add: string_of_nat.simps [of n])
  qed
qed

lemma length_string_of_nat_le:
  "n < 10 ^ k \<Longrightarrow> 0 < k \<Longrightarrow> length (string_of_nat n) \<le> k"
proof (induction n arbitrary: k rule: string_of_nat.induct)
  case (1 n)
  show ?case
  proof (cases "n < 10")
    case True
    with "1.prems" show ?thesis by (simp add: string_of_nat.simps [of n])
  next
    case False
    then obtain k' where k: "k = Suc k'" using "1.prems" by (cases k) auto
    with False "1.prems" have "0 < k'" by (cases k') auto
    moreover from "1.prems" k have "n div 10 < 10 ^ k'" by (simp add: less_mult_imp_div_less mult.commute)
    ultimately have "length (string_of_nat (n div 10)) \<le> k'" using False "1.IH" by simp
    with False k show ?thesis by (simp add: string_of_nat.simps [of n])
  qed
qed

lemma set_string_of_nat_digits: "c \<in> set (string_of_nat n) \<Longrightarrow> c \<noteq> CHR ''.'' \<and> c \<noteq> CHR ''-''"
  using string_of_nat_digits [of c n] by (auto simp: digit_char_def less_Suc_eq numeral_eq_Suc)

definition is_digit :: "char \<Rightarrow> bool" where
  "is_digit c \<longleftrightarrow> c \<in> set ''0123456789''"

lemma is_digit_string_of_nat: "c \<in> set (string_of_nat n) \<Longrightarrow> is_digit c"
proof -
  assume "c \<in> set (string_of_nat n)"
  then obtain d where "d < 10" "c = digit_char d"
    using string_of_nat_digits [of c n] by auto
  then have "c = ''0123456789'' ! d" "d < length ''0123456789''"
    by (simp_all add: digit_char_def)
  then show ?thesis unfolding is_digit_def by (metis nth_mem)
qed

subsection \<open>Searching a list\<close>

lemma find_append: "find P (xs @ ys) = (case find P xs of None \<Rightarrow> find P ys | Some x \<Rightarrow> Some x)"
  by (induction xs) auto

subsection \<open>Histories that only grow\<close>

lemma prefix_append_right [intro]: "prefix xs ys \<Longrightarrow> prefix xs (ys @ zs)"
  by (metis prefix_append prefix_prefix)

subsection \<open>Deterministic transition relations\<close>

text \<open>
  In a deterministic relation, a state reaches at most one state without a successor:
  the final state of a run does not depend on how the run is found.
\<close>

lemma deterministic_final_unique:
  assumes det: "\<And>x y z. r x y \<Longrightarrow> r x z \<Longrightarrow> y = z"
    and run1: "r\<^sup>*\<^sup>* s t1" and stop1: "\<And>u. \<not> r t1 u"
    and run2: "r\<^sup>*\<^sup>* s t2" and stop2: "\<And>u. \<not> r t2 u"
  shows "t1 = t2"
  using run1 run2 stop2
proof (induction arbitrary: t2 rule: converse_rtranclp_induct)
  case base
  from base.prems(1) show ?case
    by (cases rule: converse_rtranclpE) (auto simp: stop1)
next
  case (step s y)
  from step.prems(1) show ?case
  proof (cases rule: converse_rtranclpE)
    case base
    with step.hyps(1) step.prems(2) show ?thesis by blast
  next
    case (step y')
    with det [OF \<open>r s y\<close>] have "r\<^sup>*\<^sup>* y t2" by blast
    from step.IH [OF this] step.prems(2) show ?thesis by blast
  qed
qed

subsection \<open>Splitting at a separator\<close>

text \<open>
  \<open>split_on sep s\<close> is \<open>s.split(sep)\<close> for a non-empty separator: the pieces between
  the leftmost non-overlapping occurrences of \<open>sep\<close>, scanning from the left.
\<close>

function split_on :: "'a list \<Rightarrow> 'a list \<Rightarrow> 'a list list" where
  "split_on sep [] = [[]]"
| "split_on sep (c # cs) =
     (if sep \<noteq> [] \<and> prefix sep (c # cs) then [] # split_on sep (drop (length sep) (c # cs))
      else (case split_on sep cs of p # ps \<Rightarrow> (c # p) # ps | [] \<Rightarrow> [[c]]))"
  by pat_completeness auto
termination
  by (relation "measure (\<lambda>(sep, s). length s)") auto

lemma split_on_no_sep:
  "\<not> sublist sep s \<Longrightarrow> split_on sep s = [s]"
proof (induction s)
  case Nil
  then show ?case by simp
next
  case (Cons c cs)
  then have "\<not> prefix sep (c # cs)" "\<not> sublist sep cs"
    by (auto simp: sublist_Cons_right)
  with Cons.IH show ?case by simp
qed

text \<open>
  A piece is read back when the separator does not occur in it, not even across its end
  into the separator that follows it.
\<close>

lemma prefix_short_append:
  "prefix xs (ys @ zs) \<Longrightarrow> length xs \<le> length ys \<Longrightarrow> prefix xs ys"
  by (auto simp: prefix_append)

lemma split_on_piece:
  assumes "sep \<noteq> []" "\<not> sublist sep (x @ butlast sep)"
  shows "split_on sep (x @ sep @ rest) = x # split_on sep rest"
  using assms(2)
proof (induction x)
  case Nil
  from assms(1) obtain c cs where "sep = c # cs" by (cases sep) auto
  then show ?case by simp
next
  case (Cons c x)
  have split: "(c # x) @ sep @ rest = ((c # x) @ butlast sep) @ [last sep] @ rest"
    using assms(1) by simp
  have "\<not> prefix sep ((c # x) @ sep @ rest)"
  proof
    assume "prefix sep ((c # x) @ sep @ rest)"
    then have "prefix sep (((c # x) @ butlast sep) @ [last sep] @ rest)"
      by (simp only: split)
    moreover have "length sep \<le> length ((c # x) @ butlast sep)"
      using assms(1) by simp
    ultimately have "prefix sep ((c # x) @ butlast sep)"
      by (rule prefix_short_append)
    with Cons.prems show False by auto
  qed
  moreover from Cons.prems have "\<not> sublist sep (x @ butlast sep)"
    by (simp add: sublist_Cons_right)
  ultimately show ?case using Cons.IH by simp
qed

lemma split_on_join_with:
  assumes "sep \<noteq> []" "xs \<noteq> []" "\<forall>x \<in> set xs. \<not> sublist sep (x @ butlast sep)"
  shows "split_on sep (join_with sep xs) = xs"
  using assms(2,3)
proof (induction xs)
  case Nil
  then show ?case by simp
next
  case (Cons x xs)
  then have x: "\<not> sublist sep (x @ butlast sep)" by simp
  show ?case
  proof (cases xs)
    case Nil
    from x have "\<not> sublist sep x" by (auto intro: sublist_order.order.trans)
    with Nil show ?thesis by (simp add: split_on_no_sep)
  next
    case (Cons y ys)
    with Cons.IH Cons.prems split_on_piece [OF assms(1) x] show ?thesis by simp
  qed
qed

text \<open>An occurrence of a list that starts with \<open>x\<close> lies after any prefix without \<open>x\<close>.\<close>

lemma sublist_skip:
  "sublist (x # xs) (a @ b) \<Longrightarrow> x \<notin> set a \<Longrightarrow> sublist (x # xs) b"
  by (induction a) (auto simp: sublist_Cons_right)

lemma those_map_Some [simp]: "those (map Some xs) = Some xs"
  by (induction xs) simp_all

end
