(* ===== verification/JS_Values.thy ===== *)
theory JS_Values
  imports Prelude
begin

text \<open>
  The part of the JavaScript runtime the scripts rely on: dynamically typed values, the
  truthiness test of \<open>&&\<close> and \<open>if\<close>, property reads (which throw a
  \<open>TypeError\<close> on \<open>null\<close> and \<open>undefined\<close>), \<open>String(v)\<close> as used by \<open>+\<close> and
  template literals, \<open>Array.prototype.join\<close>, strict equality and \<open>JSON.stringify\<close>.
  These are ECMAScript built-ins, modelled from the language specification; numbers are
  the integers (the values the scripts exchange are JSON objects, strings and integers).
\<close>

datatype jsval =
    JUndef
  | JNull
  | JBool bool
  | JNum int
  | JStr string
  | JArr "jsval list"
  | JObj "(string \<times> jsval) list"

text \<open>
  An exception is a \<open>TypeError\<close> raised by the runtime or a value thrown by an external
  collaborator (the chat model, a tool server). \<open>'a outcome\<close> is the completion of a
  JavaScript call: it returns normally or throws.
\<close>

datatype js_error = TypeError | Thrown jsval

datatype 'a outcome = Ok 'a | Exc js_error

subsection \<open>Truthiness and types\<close>

fun truthy :: "jsval \<Rightarrow> bool" where
  "truthy JUndef = False"
| "truthy JNull = False"
| "truthy (JBool b) = b"
| "truthy (JNum n) = (n \<noteq> 0)"
| "truthy (JStr s) = (s \<noteq> [])"
| "truthy (JArr xs) = True"
| "truthy (JObj kvs) = True"

fun nullish :: "jsval \<Rightarrow> bool" where
  "nullish JUndef = True"
| "nullish JNull = True"
| "nullish _ = False"

fun is_string :: "jsval \<Rightarrow> bool" where
  "is_string (JStr s) = True"
| "is_string _ = False"

text \<open>\<open>Array.isArray\<close>.\<close>

fun is_array :: "jsval \<Rightarrow> bool" where
  "is_array (JArr xs) = True"
| "is_array _ = False"

fun array_elems :: "jsval \<Rightarrow> jsval list" where
  "array_elems (JArr xs) = xs"
| "array_elems _ = []"

lemma truthy_not_nullish [js_simps]: "truthy v \<Longrightarrow> \<not> nullish v"
  by (cases v) auto

subsection \<open>Property reads\<close>

text \<open>
  \<open>prop_of v k\<close> is \<open>v[k]\<close> for a value that is not \<open>null\<close> or \<open>undefined\<close>: an own
  property of an object, \<open>undefined\<close> when there is none. The names the scripts read
  (\<open>content\<close>, \<open>text\<close>, \<open>type\<close>, \<open>uri\<close>) are no property of a string, number,
  boolean or array. \<open>get_prop\<close> adds the \<open>TypeError\<close> of reading a property of
  \<open>null\<close> or \<open>undefined\<close>.
\<close>

fun prop_of :: "jsval \<Rightarrow> string \<Rightarrow> jsval" where
  "prop_of (JObj kvs) k = (case map_of kvs k of Some v \<Rightarrow> v | None \<Rightarrow> JUndef)"
| "prop_of _ k = JUndef"

definition get_prop :: "jsval \<Rightarrow> string \<Rightarrow> js_error + jsval" where
  "get_prop v k = (if nullish v then Inl TypeError else Inr (prop_of v k))"

text \<open>\<open>v[i]\<close> for an array index: \<open>undefined\<close> beyond the end, as JavaScript has it.\<close>

definition js_index :: "jsval \<Rightarrow> nat \<Rightarrow> js_error + jsval" where
  "js_index v i =
     (if nullish v then Inl TypeError
      else case v of JArr xs \<Rightarrow> Inr (if i < length xs then xs ! i else JUndef) | _ \<Rightarrow> Inr JUndef)"

lemma get_prop_Inr [js_simps]: "\<not> nullish v \<Longrightarrow> get_prop v k = Inr (prop_of v k)"
  by (simp add: get_prop_def)

lemma get_prop_nullish [js_simps]: "nullish v \<Longrightarrow> get_prop v k = Inl TypeError"
  by (simp add: get_prop_def)

subsection \<open>\<open>String.prototype.length\<close>\<close>

text \<open>
  The UTF-16 code units a UTF-8 byte contributes: none for a continuation byte, two for
  the lead byte of a four-byte sequence (a character outside the basic plane, written as
  a surrogate pair), one otherwise.
\<close>

definition utf16_units :: "char \<Rightarrow> nat" where
  "utf16_units b =
     (let n = of_char b :: nat in if 128 \<le> n \<and> n < 192 then 0 else if 240 \<le> n then 2 else 1)"

definition js_length :: "string \<Rightarrow> nat" where
  "js_length s = sum_list (map utf16_units s)"

lemma js_length_append [simp]: "js_length (s @ t) = js_length s + js_length t"
  by (simp add: js_length_def)

lemma js_length_ascii:
  "\<forall>c \<in> set s. of_char c < (128::nat) \<Longrightarrow> js_length s = length s"
  by (induction s) (simp_all add: js_length_def utf16_units_def Let_def)

text \<open>
  \<open>Object.keys(v)\<close> for a value that is not \<open>null\<close> or \<open>undefined\<close>: the own keys of
  an object, the indices of an array or of a string (one per UTF-16 code unit), none for a
  number or a boolean.
\<close>

fun js_keys :: "jsval \<Rightarrow> string list" where
  "js_keys (JObj kvs) = map fst kvs"
| "js_keys (JArr xs) = map string_of_nat [0..<length xs]"
| "js_keys (JStr s) = map string_of_nat [0..<js_length s]"
| "js_keys _ = []"

subsection \<open>Conversion to string and \<open>Array.prototype.join\<close>\<close>

text \<open>
  \<open>to_str v\<close> is \<open>String(v)\<close>, the conversion of \<open>s + v\<close> and of a template literal.
  An array converts as \<open>join(",")\<close>, and \<open>join\<close> turns \<open>null\<close> and \<open>undefined\<close>
  elements into the empty string (unlike \<open>String\<close>, which gives \<open>"undefined"\<close>).
\<close>

fun to_str :: "jsval \<Rightarrow> string" where
  "to_str JUndef = ''undefined''"
| "to_str JNull = ''null''"
| "to_str (JBool b) = (if b then ''true'' else ''false'')"
| "to_str (JNum n) = string_of_int n"
| "to_str (JStr s) = s"
| "to_str (JArr xs) = join_with '','' (map (\<lambda>x. if nullish x then [] else to_str x) xs)"
| "to_str (JObj kvs) = ''[object Object]''"

definition join_elem :: "jsval \<Rightarrow> string" where
  "join_elem x = (if nullish x then [] else to_str x)"

definition js_join :: "string \<Rightarrow> jsval list \<Rightarrow> string" where
  "js_join sep xs = join_with sep (map join_elem xs)"

lemma to_str_JArr [js_simps]: "to_str (JArr xs) = js_join '','' xs"
  by (simp add: js_join_def join_elem_def [abs_def])

lemma js_join_strings [js_simps]: "js_join sep (map JStr ss) = join_with sep ss"
  by (simp add: js_join_def join_elem_def comp_def)

text \<open>The line feed of the string literal \<open>"\n"\<close>.\<close>

definition newline :: string where
  "newline = [CHR 0x0A]"

subsection \<open>\<open>JSON.stringify\<close>\<close>

text \<open>
  String literals are quoted with the escapes of \<open>QuoteJSONString\<close>: quote and backslash
  are escaped, \<open>\b \f \n \r \t\<close> get their short forms and the other control
  characters \<open>\u00XX\<close> in lower-case hexadecimal; every other character is kept.
\<close>

definition hex_char :: "nat \<Rightarrow> char" where
  "hex_char d = ''0123456789abcdef'' ! d"

definition dquote :: char where
  "dquote = CHR 0x22"

definition backslash :: char where
  "backslash = CHR 0x5C"

definition json_escape :: "char \<Rightarrow> string" where
  "json_escape c =
     (let n = of_char c :: nat in
      if c = dquote then [backslash, dquote]
      else if c = backslash then [backslash, backslash]
      else if n = 8 then [backslash, CHR ''b'']
      else if n = 12 then [backslash, CHR ''f'']
      else if n = 10 then [backslash, CHR ''n'']
      else if n = 13 then [backslash, CHR ''r'']
      else if n = 9 then [backslash, CHR ''t'']
      else if n < 32 then backslash # ''u00'' @ [hex_char (n div 16), hex_char (n mod 16)]
      else [c])"

definition json_quote :: "string \<Rightarrow> string" where
  "json_quote s = dquote # concat (map json_escape s) @ [dquote]"

text \<open>
  \<open>json_stringify v\<close> is \<open>None\<close> where \<open>JSON.stringify(v)\<close> returns
  \<open>undefined\<close>, which among these values is \<open>undefined\<close> itself. Inside an array an
  \<open>undefined\<close> element is written \<open>null\<close>; inside an object a property whose value is
  \<open>undefined\<close> is left out.
\<close>

fun json_stringify :: "jsval \<Rightarrow> string option" where
  "json_stringify JUndef = None"
| "json_stringify JNull = Some ''null''"
| "json_stringify (JBool b) = Some (if b then ''true'' else ''false'')"
| "json_stringify (JNum n) = Some (string_of_int n)"
| "json_stringify (JStr s) = Some (json_quote s)"
| "json_stringify (JArr xs) =
     Some (''['' @ join_with '','' (map (\<lambda>x. case json_stringify x of None \<Rightarrow> ''null'' | Some s \<Rightarrow> s) xs)
           @ '']'')"
| "json_stringify (JObj kvs) =
     Some (''{'' @ join_with '',''
             (concat (map (\<lambda>(k, x). case json_stringify x of
                                        None \<Rightarrow> []
                                      | Some s \<Rightarrow> [json_quote k @ '':'' @ s]) kvs))
           @ ''}'')"

lemma json_stringify_None_iff [js_simps]: "json_stringify v = None \<longleftrightarrow> v = JUndef"
  by (cases v) auto

subsection \<open>\<open>Number.prototype.toFixed\<close>\<close>

text \<open>
  \<open>x.toFixed(f)\<close> for a finite \<open>x\<close> below \<open>10^21\<close> in magnitude: the sign, then the
  integer \<open>n\<close> nearest to \<open>|x| * 10^f\<close> (the larger one on a tie) printed with \<open>f\<close>
  digits after the point, padded with zeros. Numbers are exact rationals here: the
  rounding of binary floating point before \<open>toFixed\<close> is not modelled.
\<close>

definition fixed_digits :: "nat \<Rightarrow> nat \<Rightarrow> string" where
  "fixed_digits f n =
     (if f = 0 then string_of_nat n
      else string_of_nat (n div 10 ^ f) @ CHR ''.'' #
             (let m = string_of_nat (n mod 10 ^ f) in replicate (f - length m) (CHR ''0'') @ m))"

definition to_fixed :: "nat \<Rightarrow> rat \<Rightarrow> string" where
  "to_fixed f x =
     (let n = nat \<lfloor>\<bar>x\<bar> * 10 ^ f + 1 / 2\<rfloor> in
      (if x < 0 then ''-'' else []) @ fixed_digits f n)"

text \<open>Reading such a string back: an optional minus, digits, a point and \<open>f\<close> digits.\<close>

definition unsigned_value :: "nat \<Rightarrow> string \<Rightarrow> rat option" where
  "unsigned_value f s =
     (let ip = takeWhile (\<lambda>c. c \<noteq> CHR ''.'') s; rest = dropWhile (\<lambda>c. c \<noteq> CHR ''.'') s in
      case rest of
        [] \<Rightarrow> None
      | _ # fp \<Rightarrow>
          (if ip \<noteq> [] \<and> length fp = f
           then Some (of_nat (nat_of_digits ip) + of_nat (nat_of_digits fp) / 10 ^ f) else None))"

definition decimal_value :: "nat \<Rightarrow> string \<Rightarrow> rat option" where
  "decimal_value f s =
     (if s \<noteq> [] \<and> hd s = CHR ''-'' then map_option uminus (unsigned_value f (tl s)) else unsigned_value f s)"

lemma length_fraction_digits:
  "0 < f \<Longrightarrow> length (replicate (f - length (string_of_nat (n mod 10 ^ f))) (CHR ''0'') @ string_of_nat (n mod 10 ^ f)) = f"
  using length_string_of_nat_le [of "n mod 10 ^ f" f] by simp

lemma unsigned_value_fixed_digits:
  assumes "0 < f"
  shows "unsigned_value f (fixed_digits f n) = Some (of_nat n / 10 ^ f)"
proof -
  let ?d = "string_of_nat (n div 10 ^ f)"
  let ?m = "string_of_nat (n mod 10 ^ f)"
  let ?p = "replicate (f - length ?m) (CHR ''0'') @ ?m"
  have nodot: "\<forall>c \<in> set ?d. c \<noteq> CHR ''.''" using set_string_of_nat_digits by blast
  have tw: "takeWhile (\<lambda>c. c \<noteq> CHR ''.'') (?d @ CHR ''.'' # ?p) = ?d"
    using nodot by (simp add: takeWhile_append2)
  have dw: "dropWhile (\<lambda>c. c \<noteq> CHR ''.'') (?d @ CHR ''.'' # ?p) = CHR ''.'' # ?p"
    using nodot by (simp add: dropWhile_append2)
  have len: "length ?p = f" using length_fraction_digits [OF assms] .
  have "of_nat (n div 10 ^ f) + of_nat (n mod 10 ^ f) / 10 ^ f = (of_nat n / 10 ^ f :: rat)"
  proof -
    have "n = n div 10 ^ f * 10 ^ f + n mod 10 ^ f" by (rule div_mult_mod_eq [symmetric])
    then have "(of_nat n :: rat) = of_nat (n div 10 ^ f) * 10 ^ f + of_nat (n mod 10 ^ f)"
      by (metis of_nat_add of_nat_mult of_nat_numeral of_nat_power)
    then show ?thesis by (simp add: field_simps)
  qed
  with assms tw dw len show ?thesis
    by (simp add: fixed_digits_def unsigned_value_def Let_def)
qed


lemma fixed_digits_not_minus: "0 < f \<Longrightarrow> fixed_digits f n \<noteq> [] \<and> hd (fixed_digits f n) \<noteq> CHR ''-''"
proof -
  assume "0 < f"
  moreover obtain c cs where "string_of_nat (n div 10 ^ f) = c # cs"
    by (cases "string_of_nat (n div 10 ^ f)") auto
  moreover have "c \<noteq> CHR ''-''"
    using set_string_of_nat_digits [of c "n div 10 ^ f"] calculation(2) by simp
  ultimately show ?thesis by (simp add: fixed_digits_def)
qed


lemma round_half_up_bound:
  fixes a :: rat
  assumes "0 \<le> a"
  shows "\<bar>of_nat (nat \<lfloor>a * 10 ^ f + 1 / 2\<rfloor>) / 10 ^ f - a\<bar> \<le> 1 / (2 * 10 ^ f)"
proof -
  define b :: rat where "b = 10 ^ f"
  have b: "0 < b" by (simp add: b_def)
  define k where "k = \<lfloor>a * b + 1 / 2\<rfloor>"
  have "0 \<le> k" using assms b by (simp add: k_def)
  then have n: "(of_nat (nat k) :: rat) = of_int k" by simp
  have "of_int k \<le> a * b + 1 / 2" "a * b + 1 / 2 < of_int k + 1"
    unfolding k_def by (rule of_int_floor_le, rule floor_correct [THEN conjunct2, simplified])
  then have half: "\<bar>of_int k - a * b\<bar> \<le> 1 / 2" unfolding abs_le_iff by linarith
  have "of_int k / b - a = (of_int k - a * b) / b" using b by (simp add: diff_divide_distrib)
  then have "\<bar>of_int k / b - a\<bar> = \<bar>of_int k - a * b\<bar> / b" using b by (simp add: abs_divide)
  also have "\<dots> \<le> (1 / 2) / b" using half b by (intro divide_right_mono) auto
  finally have "\<bar>of_int k / b - a\<bar> \<le> 1 / (2 * b)" by simp
  then show ?thesis using n by (simp add: k_def b_def)
qed

text \<open>
  What \<open>toFixed\<close> prints reads back as a value within half a unit of the last digit of
  the number printed.
\<close>

lemma to_fixed_decimal_value:
  assumes "0 < f"
  shows "\<exists>v. decimal_value f (to_fixed f x) = Some v \<and> \<bar>v - x\<bar> \<le> 1 / (2 * 10 ^ f)"
proof -
  define n where "n = nat \<lfloor>\<bar>x\<bar> * 10 ^ f + 1 / 2\<rfloor>"
  have u: "unsigned_value f (fixed_digits f n) = Some (of_nat n / 10 ^ f)"
    using assms by (rule unsigned_value_fixed_digits)
  have b: "\<bar>of_nat n / 10 ^ f - \<bar>x\<bar>\<bar> \<le> 1 / (2 * 10 ^ f)"
    unfolding n_def by (rule round_half_up_bound) simp
  from fixed_digits_not_minus [OF assms, of n] have nm:
    "fixed_digits f n \<noteq> []" "hd (fixed_digits f n) \<noteq> CHR ''-''" by auto
  have t: "to_fixed f x = (if x < 0 then ''-'' else []) @ fixed_digits f n"
    by (simp add: to_fixed_def n_def Let_def)
  show ?thesis
  proof (cases "x < 0")
    case True
    then have "decimal_value f (to_fixed f x) = Some (- (of_nat n / 10 ^ f))"
      using u t by (simp add: decimal_value_def)
    moreover have "\<bar>- (of_nat n / 10 ^ f) - x\<bar> \<le> 1 / (2 * 10 ^ f)"
      using b True by (simp add: abs_minus_commute)
    ultimately show ?thesis by blast
  next
    case False
    then have "decimal_value f (to_fixed f x) = Some (of_nat n / 10 ^ f)"
      using u nm t by (simp add: decimal_value_def)
    moreover have "\<bar>of_nat n / 10 ^ f - x\<bar> \<le> 1 / (2 * 10 ^ f)"
      using b False by simp
    ultimately show ?thesis by blast
  qed
qed


subsection \<open>The console and the state of a script\<close>

text \<open>
  The state of a script is the external world its library calls act on (servers, files,
  the network) together with what it has written to the console: one entry per call of
  \<open>console.log\<close> (standard output) or \<open>console.warn\<close> (standard error), holding the
  arguments of the call. Turning the arguments into text (\<open>util.format\<close>, and
  \<open>util.inspect\<close> for objects) is library code of the console: the transcript keeps the
  values. Library calls act on the world only.
\<close>

datatype stream = Stdout | Stderr

type_synonym console_out = "(stream \<times> jsval list) list"

record 'w io =
  io_world :: 'w
  io_out :: console_out

text \<open>A script starts with nothing printed.\<close>

definition script_start :: "'w \<Rightarrow> 'w io" where
  "script_start w = \<lparr>io_world = w, io_out = []\<rparr>"

text \<open>Consecutive calls of \<open>console.log\<close>, one argument list per call.\<close>

definition console_logs :: "jsval list list \<Rightarrow> 'w io \<Rightarrow> 'w io" where
  "console_logs argss s = s\<lparr>io_out := io_out s @ map (Pair Stdout) argss\<rparr>"

text \<open>
  \<open>console.assert(b)\<close> without a message: when \<open>b\<close> is false it calls
  \<open>console.warn("Assertion failed")\<close>, and in either case the script goes on.
\<close>

definition console_assert :: "bool \<Rightarrow> 'w io \<Rightarrow> 'w io" where
  "console_assert b s = (if b then s else s\<lparr>io_out := io_out s @ [(Stderr, [JStr ''Assertion failed''])]\<rparr>)"

text \<open>An awaited library call: it acts on the world and leaves the console alone.\<close>

definition io_call :: "('w \<Rightarrow> 'r \<times> 'w) \<Rightarrow> 'w io \<Rightarrow> 'r \<times> 'w io" where
  "io_call f s = (case f (io_world s) of (r, w) \<Rightarrow> (r, s\<lparr>io_world := w\<rparr>))"

declare console_logs_def [io_simps] console_assert_def [io_simps] io_call_def [io_simps]

lemma console_logs_Nil [simp]: "console_logs [] s = s"
  by (simp add: console_logs_def)

lemma console_logs_console_logs [simp]: "console_logs b (console_logs a s) = console_logs (a @ b) s"
  by (simp add: console_logs_def)

lemma io_world_console_logs [simp]: "io_world (console_logs a s) = io_world s"
  by (simp add: console_logs_def)

lemma io_call_Pair:
  "f (io_world s) = (r, w) \<Longrightarrow> io_call f s = (r, s\<lparr>io_world := w\<rparr>)"
  by (simp add: io_call_def)

end
