(* ===== verification/Tool_Result.thy ===== *)
theory Tool_Result
  imports JS_Values
begin

text \<open>
  The conversion of a tool's raw result into the content of a tool message, in the body
  of \<open>runWithTools\<close> (src/tool-test/src/mcp-test.mjs, lines 79--95): a string is kept;
  an object whose \<open>content\<close> is an array becomes the \<open>text\<close> of its \<open>"text"\<close> parts
  joined by newlines, every other part contributing an empty line; an object with a
  truthy \<open>text\<close> gives that \<open>text\<close>; anything else is serialised by
  \<open>JSON.stringify\<close>. The lemmas give the value of each branch, the exceptions the
  conversion can raise, and the shapes of result that are not strings.
\<close>

text \<open>The callback \<open>(c) => (c.type === "text" ? c.text : "")\<close> of line 89.\<close>

definition text_part :: "jsval \<Rightarrow> js_error + jsval" where
  "text_part c =
     (case get_prop c ''type'' of
        Inl e \<Rightarrow> Inl e
      | Inr t \<Rightarrow> (if t = JStr ''text'' then get_prop c ''text'' else Inr (JStr [])))"

text \<open>
  Lines 80--95. The \<open>&&\<close> chains read \<open>toolResult.content\<close> and
  \<open>toolResult.text\<close> only once \<open>toolResult\<close> is known truthy, so those reads cannot
  throw; the reads inside the \<open>map\<close> callback can, on a \<open>null\<close> or \<open>undefined\<close> part.
\<close>

definition normalize_result :: "jsval \<Rightarrow> js_error + jsval" where
  "normalize_result r =
     (if is_string r then Inr r
      else if truthy r \<and> truthy (prop_of r ''content'') \<and> is_array (prop_of r ''content'')
      then (case map_throw text_part (array_elems (prop_of r ''content'')) of
              Inl e \<Rightarrow> Inl e
            | Inr parts \<Rightarrow> Inr (JStr (js_join newline parts)))
      else if truthy r \<and> truthy (prop_of r ''text'') then Inr (prop_of r ''text'')
      else Inr (case json_stringify r of None \<Rightarrow> JUndef | Some s \<Rightarrow> JStr s))"

subsection \<open>The text a part contributes\<close>

text \<open>
  What an object part contributes to the joined string: its \<open>text\<close> converted as
  \<open>join\<close> converts it when its \<open>type\<close> is \<open>"text"\<close>, the empty string otherwise.
\<close>

definition part_text :: "jsval \<Rightarrow> string" where
  "part_text c = (if prop_of c ''type'' = JStr ''text'' then join_elem (prop_of c ''text'') else [])"

lemma text_part_ok:
  "\<not> nullish c \<Longrightarrow> text_part c = Inr (if prop_of c ''type'' = JStr ''text'' then prop_of c ''text'' else JStr [])"
  by (simp add: text_part_def js_simps)

lemma text_part_nullish: "nullish c \<Longrightarrow> text_part c = Inl TypeError"
  by (simp add: text_part_def js_simps)

lemma join_elem_text_part:
  "\<not> nullish c \<Longrightarrow> join_elem (projr (text_part c)) = part_text c"
  by (simp add: text_part_ok part_text_def join_elem_def)

lemma map_throw_text_part_ok:
  assumes "\<forall>c \<in> set cs. \<not> nullish c"
  shows "\<exists>parts. map_throw text_part cs = Inr parts \<and> map join_elem parts = map part_text cs"
proof -
  have "\<forall>c \<in> set cs. \<exists>y. text_part c = Inr y"
    using assms by (simp add: text_part_ok)
  then have "map_throw text_part cs = Inr (map (\<lambda>c. projr (text_part c)) cs)"
    by (simp add: map_throw_Inr_iff)
  moreover have "map join_elem (map (\<lambda>c. projr (text_part c)) cs) = map part_text cs"
    using assms by (simp add: join_elem_text_part)
  ultimately show ?thesis by blast
qed

lemma map_throw_text_part_error:
  "map_throw text_part cs = Inl e \<Longrightarrow> e = TypeError \<and> (\<exists>c \<in> set cs. nullish c)"
proof -
  assume "map_throw text_part cs = Inl e"
  then obtain c where "c \<in> set cs" "text_part c = Inl e"
    by (blast dest: map_throw_Inl_ex)
  then show ?thesis
    by (cases "nullish c") (auto simp: text_part_nullish text_part_ok)
qed

subsection \<open>Branches of the conversion\<close>

lemma normalize_content_branch:
  assumes "\<not> is_string r" "truthy r" "prop_of r ''content'' = JArr cs"
  shows "normalize_result r =
           (case map_throw text_part cs of
              Inl e \<Rightarrow> Inl e | Inr parts \<Rightarrow> Inr (JStr (js_join newline parts)))"
  using assms by (simp add: normalize_result_def)

lemma normalize_result_Inl:
  "normalize_result r = Inl e \<Longrightarrow>
   \<exists>cs. prop_of r ''content'' = JArr cs \<and> map_throw text_part cs = Inl e"
  by (auto simp: normalize_result_def split: if_splits sum.splits elim!: is_array.elims)

subsection \<open>Properties of the conversion\<close>

text \<open>
  C11. A result object whose \<open>content\<close> is an array of parts becomes the string of the
  parts' contributions joined by newlines: the \<open>text\<close> of each part typed \<open>"text"\<close>,
  and an empty string (still followed or preceded by a newline) for every other part.
\<close>

theorem normalize_content_parts:
  assumes "\<not> is_string r" "truthy r" "prop_of r ''content'' = JArr cs" "\<forall>c \<in> set cs. \<not> nullish c"
  shows "normalize_result r = Inr (JStr (join_with newline (map part_text cs)))"
proof -
  from map_throw_text_part_ok [OF assms(4)] obtain parts where
    "map_throw text_part cs = Inr parts" "map join_elem parts = map part_text cs"
    by blast
  with normalize_content_branch [OF assms(1-3)] show ?thesis
    by (simp add: js_join_def)
qed

theorem normalize_content_parts_witness:
  "\<not> is_string (JObj [(''content'', JArr [JObj [(''type'', JStr ''text''), (''text'', JStr ''A'')], JObj [(''type'', JStr ''text''), (''text'', JStr ''B'')]])])
   \<and> truthy (JObj [(''content'', JArr [JObj [(''type'', JStr ''text''), (''text'', JStr ''A'')], JObj [(''type'', JStr ''text''), (''text'', JStr ''B'')]])])
   \<and> prop_of (JObj [(''content'', JArr [JObj [(''type'', JStr ''text''), (''text'', JStr ''A'')], JObj [(''type'', JStr ''text''), (''text'', JStr ''B'')]])]) ''content''
       = JArr [JObj [(''type'', JStr ''text''), (''text'', JStr ''A'')], JObj [(''type'', JStr ''text''), (''text'', JStr ''B'')]]
   \<and> normalize_result (JObj [(''content'', JArr [JObj [(''type'', JStr ''text''), (''text'', JStr ''A'')], JObj [(''type'', JStr ''text''), (''text'', JStr ''B'')]])])
       = Inr (JStr (''A'' @ newline @ ''B''))"
proof -
  let ?cs = "[JObj [(''type'', JStr ''text''), (''text'', JStr ''A'')], JObj [(''type'', JStr ''text''), (''text'', JStr ''B'')]]"
  have h: "\<not> is_string (JObj [(''content'', JArr ?cs)])" "truthy (JObj [(''content'', JArr ?cs)])"
    "prop_of (JObj [(''content'', JArr ?cs)]) ''content'' = JArr ?cs" "\<forall>c \<in> set ?cs. \<not> nullish c"
    by simp_all
  show ?thesis
    using h normalize_content_parts [OF h] by (simp add: part_text_def join_elem_def)
qed


text \<open>
  C13. The conversion can throw, and only in one way: a \<open>TypeError\<close> when the
  \<open>content\<close> array holds a \<open>null\<close> or \<open>undefined\<close> part.
\<close>

theorem normalize_error:
  assumes "normalize_result r = Inl e"
  shows "e = TypeError \<and> (\<exists>cs. prop_of r ''content'' = JArr cs \<and> (\<exists>c \<in> set cs. nullish c))"
  using normalize_result_Inl [OF assms] map_throw_text_part_error by blast

theorem normalize_error_witness:
  "normalize_result (JObj [(''content'', JArr [JNull])]) = Inl TypeError
   \<and> TypeError = TypeError \<and> (\<exists>cs. prop_of (JObj [(''content'', JArr [JNull])]) ''content'' = JArr cs \<and> (\<exists>c \<in> set cs. nullish c))"
proof -
  have h: "normalize_result (JObj [(''content'', JArr [JNull])]) = Inl TypeError"
    by (simp add: normalize_result_def text_part_def get_prop_def)
  show ?thesis using h normalize_error [OF h] by simp
qed

text \<open>
  C14. Despite the comment on line 79 ("make sure content is a string"), the converted
  content is a string except in two cases: a result that is \<open>undefined\<close> (for which
  \<open>JSON.stringify\<close> returns \<open>undefined\<close>) and an object whose truthy \<open>text\<close>
  property is not a string, which is passed on unchanged.
\<close>

theorem normalize_non_string:
  assumes "normalize_result r = Inr v" "\<not> is_string v"
  shows "r = JUndef \<or> (truthy r \<and> v = prop_of r ''text'' \<and> truthy v)"
  using assms
  by (auto simp: normalize_result_def json_stringify_None_iff split: if_splits sum.splits option.splits)

theorem normalize_non_string_witness:
  "normalize_result (JObj [(''text'', JNum 5)]) = Inr (JNum 5) \<and> \<not> is_string (JNum 5)
   \<and> (JObj [(''text'', JNum 5)] = JUndef \<or>
      (truthy (JObj [(''text'', JNum 5)]) \<and> JNum 5 = prop_of (JObj [(''text'', JNum 5)]) ''text'' \<and> truthy (JNum 5)))"
proof -
  have h: "normalize_result (JObj [(''text'', JNum 5)]) = Inr (JNum 5)" "\<not> is_string (JNum 5)"
    by (simp_all add: normalize_result_def)
  show ?thesis using h normalize_non_string [OF h] by simp
qed

text \<open>
  C15. An object with neither an array \<open>content\<close> nor a truthy \<open>text\<close> is serialised by
  \<open>JSON.stringify\<close>; in particular an object whose \<open>text\<close> is the empty string is not
  treated as text but serialised whole.
\<close>

theorem normalize_fallback:
  assumes "\<not> is_string r" "r \<noteq> JUndef" "\<not> is_array (prop_of r ''content'')" "\<not> truthy (prop_of r ''text'')"
  shows "normalize_result r = Inr (JStr (the (json_stringify r)))"
  using assms by (auto simp: normalize_result_def json_stringify_None_iff split: option.splits)

theorem normalize_fallback_witness:
  "\<not> is_string (JObj [(''text'', JStr [])]) \<and> JObj [(''text'', JStr [])] \<noteq> JUndef
   \<and> \<not> is_array (prop_of (JObj [(''text'', JStr [])]) ''content'')
   \<and> \<not> truthy (prop_of (JObj [(''text'', JStr [])]) ''text'')
   \<and> normalize_result (JObj [(''text'', JStr [])]) =
       Inr (JStr (''{'' @ [dquote] @ ''text'' @ [dquote] @ '':'' @ [dquote, dquote] @ ''}''))"
proof -
  have h: "\<not> is_string (JObj [(''text'', JStr [])])" "JObj [(''text'', JStr [])] \<noteq> JUndef"
    "\<not> is_array (prop_of (JObj [(''text'', JStr [])]) ''content'')"
    "\<not> truthy (prop_of (JObj [(''text'', JStr [])]) ''text'')"
    by simp_all
  have j: "json_stringify (JObj [(''text'', JStr [])]) =
             Some (''{'' @ [dquote] @ ''text'' @ [dquote] @ '':'' @ [dquote, dquote] @ ''}'')"
    by (simp add: json_quote_def json_escape_def dquote_def backslash_def)
  show ?thesis using h j normalize_fallback [OF h] by simp
qed

end
