(* ===== verification/Agent_Loop.thy ===== *)
theory Agent_Loop
  imports Tool_Result
begin

text \<open>
  The tool-calling loop \<open>runWithTools\<close> of src/tool-test/src/mcp-test.mjs (lines 51--104).
  The conversation is a list of LangChain messages that only grows. Each iteration sends
  the whole history to the chat model, appends the answer, and either returns its content
  (no tool calls) or runs the requested tools one after the other, appending one tool
  message per call whose tool exists. After \<open>maxIterations\<close> iterations the content of
  the last message is returned.

  The chat model and the tools are external services. They are parameters here: a model is
  a function of the history it is sent and of an external world \<open>'w\<close> (the servers, the
  file system, the browser), and it answers or throws and may change the world; a tool is
  a name and such a function of its arguments. The loop state also records, as a ghost
  component, the external calls in the order they are made, and the console output of
  the loop: a waiting notice before every model call, the final reply, and two notices
  before the tools of a round run.
\<close>

subsection \<open>Messages\<close>

record tool_call =
  tc_name :: string
  tc_args :: jsval
  tc_id :: string

text \<open>
  An assistant message: its \<open>content\<close> and its \<open>tool_calls\<close>, which may be absent
  (\<open>undefined\<close>, here \<open>None\<close>).
\<close>

record ai_message =
  ai_content :: jsval
  tool_calls :: "tool_call list option"

datatype message =
    SystemMessage jsval
  | HumanMessage jsval
  | AIMessage ai_message
  | ToolMessage jsval string

fun msg_content :: "message \<Rightarrow> jsval" where
  "msg_content (SystemMessage c) = c"
| "msg_content (HumanMessage c) = c"
| "msg_content (AIMessage r) = ai_content r"
| "msg_content (ToolMessage c i) = c"

fun tool_msg_id :: "message \<Rightarrow> string option" where
  "tool_msg_id (ToolMessage c i) = Some i"
| "tool_msg_id _ = None"

subsection \<open>External collaborators and the loop state\<close>

record 'w tool =
  tname :: string
  invoke :: "jsval \<Rightarrow> 'w \<Rightarrow> (js_error + jsval) \<times> 'w"

type_synonym 'w chat_model = "message list \<Rightarrow> 'w \<Rightarrow> (js_error + ai_message) \<times> 'w"

datatype ext_call = ModelCall "message list" | ToolCall string jsval

record 'w loop_state =
  history :: "message list"
  world :: 'w
  calls :: "ext_call list"
  out :: console_out

fun is_model_call :: "ext_call \<Rightarrow> bool" where
  "is_model_call (ModelCall h) = True"
| "is_model_call (ToolCall n a) = False"

subsection \<open>What the loop prints (lines 55, 61, 65--71)\<close>

text \<open>
  \<open>chalk.bgGreen\<close> and \<open>chalk.bgBlue\<close>. Whether they wrap a string in the terminal's
  colour codes or return it unchanged depends on the colour support of the terminal the
  script writes to (and on the version of chalk, which the repository does not pin): the
  two styles are a parameter of the loop.
\<close>

record chalk =
  bg_green :: "string \<Rightarrow> string"
  bg_blue :: "string \<Rightarrow> string"

text \<open>chalk on a terminal without colour support (level 0): both styles return their argument.\<close>

definition plain_chalk :: chalk where
  "plain_chalk = \<lparr>bg_green = id, bg_blue = id\<rparr>"

text \<open>Line 55 (an hourglass, ``waiting for the AI to think...'').\<close>

definition waiting_notice :: string where
  "waiting_notice =
     [CHR 0xE2, CHR 0x8F, CHR 0xB3, CHR 0x20, CHR 0xE6, CHR 0xAD, CHR 0xA3, CHR 0xE5,
      CHR 0x9C, CHR 0xA8, CHR 0xE7, CHR 0xAD, CHR 0x89, CHR 0xE5, CHR 0xBE, CHR 0x85,
      CHR 0x20, CHR 0x41, CHR 0x49, CHR 0x20, CHR 0xE6, CHR 0x80, CHR 0x9D, CHR 0xE8,
      CHR 0x80, CHR 0x83, CHR 0x2E, CHR 0x2E, CHR 0x2E]"

text \<open>Line 61 before the content (a line break, a sparkle, ``AI final reply:'', a line break).\<close>

definition final_head :: string where
  "final_head =
     [CHR 0x0A, CHR 0xE2, CHR 0x9C, CHR 0xA8, CHR 0x20, CHR 0x41, CHR 0x49, CHR 0x20,
      CHR 0xE6, CHR 0x9C, CHR 0x80, CHR 0xE7, CHR 0xBB, CHR 0x88, CHR 0xE5, CHR 0x9B,
      CHR 0x9E, CHR 0xE5, CHR 0xA4, CHR 0x8D, CHR 0x3A, CHR 0x0A]"

text \<open>Line 66 before the number of calls (a magnifier, ``detected'', a no-break space).\<close>

definition calls_count_head :: string where
  "calls_count_head =
     [CHR 0xF0, CHR 0x9F, CHR 0x94, CHR 0x8D, CHR 0x20, CHR 0xE6, CHR 0xA3, CHR 0x80,
      CHR 0xE6, CHR 0xB5, CHR 0x8B, CHR 0xE5, CHR 0x88, CHR 0xB0, CHR 0xC2, CHR 0xA0]"

text \<open>Line 66 after the number (a no-break space, ``tool calls'').\<close>

definition calls_count_tail :: string where
  "calls_count_tail =
     [CHR 0xC2, CHR 0xA0, CHR 0xE4, CHR 0xB8, CHR 0xAA, CHR 0xE5, CHR 0xB7, CHR 0xA5,
      CHR 0xE5, CHR 0x85, CHR 0xB7, CHR 0xE8, CHR 0xB0, CHR 0x83, CHR 0xE7, CHR 0x94,
      CHR 0xA8]"

text \<open>Line 70 before the names (a magnifier, ``tool calls:'', a space).\<close>

definition calls_names_head :: string where
  "calls_names_head =
     [CHR 0xF0, CHR 0x9F, CHR 0x94, CHR 0x8D, CHR 0x20, CHR 0xE5, CHR 0xB7, CHR 0xA5,
      CHR 0xE5, CHR 0x85, CHR 0xB7, CHR 0xE8, CHR 0xB0, CHR 0x83, CHR 0xE7, CHR 0x94,
      CHR 0xA8, CHR 0x3A, CHR 0x20]"

text \<open>Line 55: the notice printed before every call of the model, styled by \<open>chalk.bgGreen\<close>.\<close>

definition waiting_line :: "chalk \<Rightarrow> stream \<times> jsval list" where
  "waiting_line ch = (Stdout, [JStr (bg_green ch waiting_notice)])"

text \<open>
  Line 61: the heading, the content converted by \<open>String\<close> (the template literal), a line
  break.
\<close>

definition reply_line :: "jsval \<Rightarrow> stream \<times> jsval list" where
  "reply_line c = (Stdout, [JStr (final_head @ to_str c @ newline)])"

text \<open>
  Lines 65--71: the number of requested calls and their names joined by \<open>", "\<close>, each
  line styled by \<open>chalk.bgBlue\<close>.
\<close>

definition tool_call_notices :: "chalk \<Rightarrow> tool_call list \<Rightarrow> (stream \<times> jsval list) list" where
  "tool_call_notices ch cs =
     [(Stdout, [JStr (bg_blue ch (calls_count_head @ string_of_nat (length cs) @ calls_count_tail))]),
      (Stdout, [JStr (bg_blue ch (calls_names_head @ join_with '', '' (map tc_name cs)))])]"

subsection \<open>Running the requested tools (lines 75--100)\<close>

text \<open>\<open>tools.find((t) => t.name === toolCall.name)\<close>, line 76.\<close>

definition find_tool :: "'w tool list \<Rightarrow> tool_call \<Rightarrow> 'w tool option" where
  "find_tool tools tc = find (\<lambda>t. tname t = tc_name tc) tools"

definition tool_known :: "'w tool list \<Rightarrow> tool_call \<Rightarrow> bool" where
  "tool_known tools tc = (\<exists>t \<in> set tools. tname t = tc_name tc)"

text \<open>
  One pass of the inner \<open>for\<close> loop (lines 76--99): a call whose tool is not found is
  skipped; otherwise the tool is invoked (and may throw), its result converted (which may
  throw) and a tool message with the call's id appended. \<open>None\<close> is normal completion,
  \<open>Some e\<close> the exception that leaves the loop.
\<close>

definition run_tool_call :: "'w tool list \<Rightarrow> tool_call \<Rightarrow> 'w loop_state \<Rightarrow> js_error option \<times> 'w loop_state" where
  "run_tool_call tools tc s =
     (case find_tool tools tc of
        None \<Rightarrow> (None, s)
      | Some t \<Rightarrow>
          (let s1 = s\<lparr>calls := calls s @ [ToolCall (tc_name tc) (tc_args tc)]\<rparr> in
           case invoke t (tc_args tc) (world s1) of
             (res, w) \<Rightarrow>
               (let s2 = s1\<lparr>world := w\<rparr> in
                case res of
                  Inl e \<Rightarrow> (Some e, s2)
                | Inr r \<Rightarrow>
                    (case normalize_result r of
                       Inl e \<Rightarrow> (Some e, s2)
                     | Inr c \<Rightarrow> (None, s2\<lparr>history := history s2 @ [ToolMessage c (tc_id tc)]\<rparr>)))))"

fun run_tool_calls :: "'w tool list \<Rightarrow> tool_call list \<Rightarrow> 'w loop_state \<Rightarrow> js_error option \<times> 'w loop_state" where
  "run_tool_calls tools [] s = (None, s)"
| "run_tool_calls tools (tc # tcs) s =
     (case run_tool_call tools tc s of
        (Some e, s') \<Rightarrow> (Some e, s')
      | (None, s') \<Rightarrow> run_tool_calls tools tcs s')"

subsection \<open>One iteration of the outer loop (lines 55--100)\<close>

text \<open>\<open>!response.tool_calls || response.tool_calls.length === 0\<close>, line 60.\<close>

definition no_tool_calls :: "ai_message \<Rightarrow> bool" where
  "no_tool_calls r = (case tool_calls r of None \<Rightarrow> True | Some cs \<Rightarrow> cs = [])"

definition requested_calls :: "ai_message \<Rightarrow> tool_call list" where
  "requested_calls r = (case tool_calls r of None \<Rightarrow> [] | Some cs \<Rightarrow> cs)"

datatype iter_result = Next | Done jsval | Failed js_error

definition iteration :: "chalk \<Rightarrow> 'w chat_model \<Rightarrow> 'w tool list \<Rightarrow> 'w loop_state \<Rightarrow> iter_result \<times> 'w loop_state" where
  "iteration ch model tools s =
     (let h = history s;
          s1 = s\<lparr>calls := calls s @ [ModelCall h], out := out s @ [waiting_line ch]\<rparr> in
      case model h (world s1) of
        (Inl e, w) \<Rightarrow> (Failed e, s1\<lparr>world := w\<rparr>)
      | (Inr resp, w) \<Rightarrow>
          (let s2 = s1\<lparr>world := w, history := history s1 @ [AIMessage resp]\<rparr> in
           if no_tool_calls resp
           then (Done (ai_content resp), s2\<lparr>out := out s2 @ [reply_line (ai_content resp)]\<rparr>)
           else (case run_tool_calls tools (requested_calls resp)
                        (s2\<lparr>out := out s2 @ tool_call_notices ch (requested_calls resp)\<rparr>) of
                   (Some e, s3) \<Rightarrow> (Failed e, s3)
                 | (None, s3) \<Rightarrow> (Next, s3))))"

subsection \<open>The bounded loop (lines 51--54, 101--104)\<close>

text \<open>
  \<open>message[message.length - 1].content\<close> on an empty history would read a property of
  \<open>undefined\<close>; the history is never empty, but the model says what the code would do.
\<close>

definition last_content :: "message list \<Rightarrow> jsval outcome" where
  "last_content ms = (if ms = [] then Exc TypeError else Ok (msg_content (last ms)))"

function run_loop ::
  "chalk \<Rightarrow> 'w chat_model \<Rightarrow> 'w tool list \<Rightarrow> int \<Rightarrow> nat \<Rightarrow> 'w loop_state \<Rightarrow> jsval outcome \<times> 'w loop_state" where
  "run_loop ch model tools max_iter i s =
     (if int i < max_iter then
        (case iteration ch model tools s of
           (Next, s') \<Rightarrow> run_loop ch model tools max_iter (Suc i) s'
         | (Done v, s') \<Rightarrow> (Ok v, s')
         | (Failed e, s') \<Rightarrow> (Exc e, s'))
      else (last_content (history s), s))"
  by pat_completeness auto
termination
  by (relation "measure (\<lambda>(ch, model, tools, max_iter, i, s). nat (max_iter - int i))") auto

declare run_loop.simps [simp del]

definition init_history :: "string \<Rightarrow> string \<Rightarrow> message list" where
  "init_history resource_content query = [SystemMessage (JStr resource_content), HumanMessage (JStr query)]"

definition init_state :: "string \<Rightarrow> string \<Rightarrow> 'w \<Rightarrow> 'w loop_state" where
  "init_state resource_content query w = \<lparr>history = init_history resource_content query, world = w, calls = [], out = []\<rparr>"

definition runWithTools ::
  "chalk \<Rightarrow> 'w chat_model \<Rightarrow> 'w tool list \<Rightarrow> string \<Rightarrow> string \<Rightarrow> int \<Rightarrow> 'w \<Rightarrow> jsval outcome \<times> 'w loop_state" where
  "runWithTools ch model tools resource_content query max_iterations w =
     run_loop ch model tools max_iterations 0 (init_state resource_content query w)"

text \<open>The default \<open>maxIterations = 30\<close> of line 51.\<close>

definition default_max_iterations :: int where
  "default_max_iterations = 30"


subsection \<open>Running the requested tools\<close>

lemma find_tool_None_iff: "find_tool tools tc = None \<longleftrightarrow> \<not> tool_known tools tc"
  by (auto simp: find_tool_def tool_known_def find_None_iff)

lemma find_tool_Some: "find_tool tools tc = Some t \<Longrightarrow> t \<in> set tools \<and> tname t = tc_name tc"
  by (auto simp: find_tool_def dest: find_Some_iff [THEN iffD1])

lemma run_tool_call_unknown [loop_simps]:
  "\<not> tool_known tools tc \<Longrightarrow> run_tool_call tools tc s = (None, s)"
  by (simp add: run_tool_call_def find_tool_None_iff [symmetric])

text \<open>
  The shape of every outcome of one call: the history grows by at most the one tool
  message answering this call, and the trace by at most the one invocation of its tool.
\<close>

lemma run_tool_call_shape:
  assumes "run_tool_call tools tc s = (r, s')"
  shows "(\<exists>ms. history s' = history s @ ms \<and>
            map tool_msg_id ms = (if r = None \<and> tool_known tools tc then [Some (tc_id tc)] else []))
         \<and> calls s' = calls s @ (if tool_known tools tc then [ToolCall (tc_name tc) (tc_args tc)] else [])
         \<and> (r \<noteq> None \<longrightarrow> tool_known tools tc)"
proof (cases "find_tool tools tc")
  case None
  with assms show ?thesis by (simp add: run_tool_call_def find_tool_None_iff)
next
  case (Some t)
  then have known: "tool_known tools tc" by (auto simp: tool_known_def dest: find_tool_Some)
  with Some assms show ?thesis
    by (auto simp: run_tool_call_def Let_def split: prod.splits sum.splits)
qed

lemma run_tool_calls_None:
  "run_tool_calls tools tcs s = (None, s') \<Longrightarrow>
   \<exists>ms. history s' = history s @ ms \<and> map tool_msg_id ms = map (Some \<circ> tc_id) (filter (tool_known tools) tcs)"
proof (induction tcs arbitrary: s)
  case Nil
  then show ?case by simp
next
  case (Cons tc tcs)
  obtain r s1 where step: "run_tool_call tools tc s = (r, s1)" by fastforce
  with Cons.prems have r: "r = None" and rest: "run_tool_calls tools tcs s1 = (None, s')"
    by (auto split: option.splits)
  from run_tool_call_shape [OF step] r obtain ms1 where
    "history s1 = history s @ ms1"
    "map tool_msg_id ms1 = (if tool_known tools tc then [Some (tc_id tc)] else [])"
    by auto
  moreover from Cons.IH [OF rest] obtain ms2 where
    "history s' = history s1 @ ms2"
    "map tool_msg_id ms2 = map (Some \<circ> tc_id) (filter (tool_known tools) tcs)"
    by blast
  ultimately show ?case
    by (intro exI [of _ "ms1 @ ms2"]) auto
qed

lemma run_tool_calls_extends:
  "run_tool_calls tools tcs s = (r, s') \<Longrightarrow>
   prefix (history s) (history s') \<and> (\<exists>cs. calls s' = calls s @ cs \<and> \<not> list_ex is_model_call cs)"
proof (induction tcs arbitrary: s)
  case Nil
  then show ?case by simp
next
  case (Cons tc tcs)
  obtain r1 s1 where step: "run_tool_call tools tc s = (r1, s1)" by fastforce
  from run_tool_call_shape [OF step] have
    h1: "prefix (history s) (history s1)" and
    c1: "\<exists>cs. calls s1 = calls s @ cs \<and> \<not> list_ex is_model_call cs"
    by (auto simp: prefix_def)
  show ?case
  proof (cases r1)
    case None
    with Cons.prems step have "run_tool_calls tools tcs s1 = (r, s')" by simp
    from Cons.IH [OF this] h1 c1 show ?thesis
      by (auto intro: prefix_order.trans)
  next
    case (Some e)
    with Cons.prems step have "s' = s1" by simp
    with h1 c1 show ?thesis by simp
  qed
qed

subsection \<open>Unfolding the loop, one branch at a time\<close>

lemma run_loop_stop [loop_simps]:
  "\<not> int i < max_iter \<Longrightarrow> run_loop ch model tools max_iter i s = (last_content (history s), s)"
  by (simp add: run_loop.simps)

lemma run_loop_next [loop_simps]:
  "int i < max_iter \<Longrightarrow> iteration ch model tools s = (Next, s') \<Longrightarrow>
   run_loop ch model tools max_iter i s = run_loop ch model tools max_iter (Suc i) s'"
  by (simp add: run_loop.simps)

lemma run_loop_done [loop_simps]:
  "int i < max_iter \<Longrightarrow> iteration ch model tools s = (Done v, s') \<Longrightarrow>
   run_loop ch model tools max_iter i s = (Ok v, s')"
  by (simp add: run_loop.simps)

lemma run_loop_failed [loop_simps]:
  "int i < max_iter \<Longrightarrow> iteration ch model tools s = (Failed e, s') \<Longrightarrow>
   run_loop ch model tools max_iter i s = (Exc e, s')"
  by (simp add: run_loop.simps)


subsection \<open>One iteration\<close>

lemma iteration_model_error [loop_simps]:
  "model (history s) (world s) = (Inl e, w) \<Longrightarrow>
   iteration ch model tools s =
     (Failed e, s\<lparr>calls := calls s @ [ModelCall (history s)], world := w, out := out s @ [waiting_line ch]\<rparr>)"
  by (simp add: iteration_def Let_def)

lemma iteration_final_answer [loop_simps]:
  "model (history s) (world s) = (Inr r, w) \<Longrightarrow> no_tool_calls r \<Longrightarrow>
   iteration ch model tools s =
     (Done (ai_content r),
      s\<lparr>calls := calls s @ [ModelCall (history s)], world := w, history := history s @ [AIMessage r],
        out := out s @ [waiting_line ch, reply_line (ai_content r)]\<rparr>)"
  by (simp add: iteration_def Let_def)

lemma iteration_tool_round [loop_simps]:
  "model (history s) (world s) = (Inr r, w) \<Longrightarrow> \<not> no_tool_calls r \<Longrightarrow>
   iteration ch model tools s =
     (case run_tool_calls tools (requested_calls r)
             (s\<lparr>calls := calls s @ [ModelCall (history s)], world := w, history := history s @ [AIMessage r],
                out := out s @ waiting_line ch # tool_call_notices ch (requested_calls r)\<rparr>) of
        (Some e, s3) \<Rightarrow> (Failed e, s3)
      | (None, s3) \<Rightarrow> (Next, s3))"
  by (simp add: iteration_def Let_def)

lemma iteration_cases:
  obtains (model_error) e w where "model (history s) (world s) = (Inl e, w)"
  | (answer) r w where "model (history s) (world s) = (Inr r, w)"
  by (metis old.prod.exhaust sum.exhaust)

text \<open>An iteration that goes on appended the answer and one tool message per known call.\<close>

lemma iteration_Next:
  assumes "iteration ch model tools s = (Next, s')"
  shows "\<exists>r w ms. model (history s) (world s) = (Inr r, w) \<and> \<not> no_tool_calls r \<and>
           history s' = history s @ AIMessage r # ms \<and>
           map tool_msg_id ms = map (Some \<circ> tc_id) (filter (tool_known tools) (requested_calls r))"
proof (cases rule: iteration_cases [of model s])
  case (model_error e w)
  with assms show ?thesis by (simp add: iteration_model_error)
next
  case (answer r w)
  let ?s2 = "s\<lparr>calls := calls s @ [ModelCall (history s)], world := w, history := history s @ [AIMessage r],
               out := out s @ waiting_line ch # tool_call_notices ch (requested_calls r)\<rparr>"
  have nt: "\<not> no_tool_calls r"
    using assms answer by (auto simp: iteration_final_answer)
  with assms answer have "run_tool_calls tools (requested_calls r) ?s2 = (None, s')"
    by (auto simp: iteration_tool_round split: prod.splits option.splits)
  from run_tool_calls_None [OF this] nt answer show ?thesis by auto
qed

text \<open>
  Every iteration extends the history and records exactly one model call, made on the
  history it started from, followed by tool invocations only.
\<close>

lemma iteration_extends:
  assumes "iteration ch model tools s = (x, s')"
  shows "prefix (history s) (history s') \<and>
         (\<exists>cs. calls s' = calls s @ ModelCall (history s) # cs \<and> \<not> list_ex is_model_call cs)"
proof (cases rule: iteration_cases [of model s])
  case (model_error e w)
  with assms show ?thesis by (auto simp: iteration_model_error)
next
  case (answer r w)
  let ?s2 = "s\<lparr>calls := calls s @ [ModelCall (history s)], world := w, history := history s @ [AIMessage r],
               out := out s @ waiting_line ch # tool_call_notices ch (requested_calls r)\<rparr>"
  show ?thesis
  proof (cases "no_tool_calls r")
    case True
    with assms answer show ?thesis by (auto simp: iteration_final_answer)
  next
    case False
    obtain y s3 where rt: "run_tool_calls tools (requested_calls r) ?s2 = (y, s3)" by fastforce
    with assms answer False have "s' = s3"
      by (auto simp: iteration_tool_round split: option.splits)
    with run_tool_calls_extends [OF rt] show ?thesis
      by (auto intro: prefix_order.trans)
  qed
qed

subsection \<open>The loop\<close>

text \<open>Whatever every iteration preserves holds of the state the loop ends in.\<close>

lemma run_loop_invariant:
  assumes step: "\<And>s x s'. P s \<Longrightarrow> iteration ch model tools s = (x, s') \<Longrightarrow> P s'"
  shows "P s \<Longrightarrow> P (snd (run_loop ch model tools max_iter i s))"
proof (induction "nat (max_iter - int i)" arbitrary: i s rule: less_induct)
  case less
  show ?case
  proof (cases "int i < max_iter")
    case False
    with less.prems show ?thesis by (simp add: run_loop_stop)
  next
    case True
    obtain x s' where it: "iteration ch model tools s = (x, s')" by fastforce
    have P': "P s'" by (rule step [OF less.prems it])
    show ?thesis
    proof (cases x)
      case Next
      have "nat (max_iter - int (Suc i)) < nat (max_iter - int i)" using True by simp
      from less.hyps [OF this P'] True it Next show ?thesis by (simp add: run_loop_next)
    next
      case (Done v)
      with True it P' show ?thesis by (simp add: run_loop_done)
    next
      case (Failed e)
      with True it P' show ?thesis by (simp add: run_loop_failed)
    qed
  qed
qed

lemma run_loop_extends:
  "prefix (history s) (history (snd (run_loop ch model tools max_iter i s))) \<and>
   prefix (calls s) (calls (snd (run_loop ch model tools max_iter i s)))"
proof (rule run_loop_invariant [where P = "\<lambda>s'. prefix (history s) (history s') \<and> prefix (calls s) (calls s')"])
  fix s1 x s2
  assume "prefix (history s) (history s1) \<and> prefix (calls s) (calls s1)"
    and "iteration ch model tools s1 = (x, s2)"
  with iteration_extends [of ch model tools s1 x s2] show "prefix (history s) (history s2) \<and> prefix (calls s) (calls s2)"
    by (auto intro: prefix_order.trans)
qed simp

text \<open>
  What the model is shown: every recorded model call was made on a history that extends
  \<open>h0\<close> and that the current history extends.
\<close>

definition sees_history :: "message list \<Rightarrow> 'w loop_state \<Rightarrow> bool" where
  "sees_history h0 s \<longleftrightarrow>
     prefix h0 (history s) \<and> (\<forall>h. ModelCall h \<in> set (calls s) \<longrightarrow> prefix h0 h \<and> prefix h (history s))"

lemma iteration_sees_history:
  assumes "sees_history h0 s" "iteration ch model tools s = (x, s')"
  shows "sees_history h0 s'"
proof -
  from iteration_extends [OF assms(2)] obtain cs where
    hp: "prefix (history s) (history s')" and
    cs: "calls s' = calls s @ ModelCall (history s) # cs" "\<not> list_ex is_model_call cs"
    by blast
  have "ModelCall h \<notin> set cs" for h
    using cs(2) by (auto simp: list_ex_iff)
  with assms(1) hp cs(1) show ?thesis
    by (auto simp: sees_history_def intro: prefix_order.trans)
qed

lemma run_loop_sees_history:
  "sees_history h0 s \<Longrightarrow> sees_history h0 (snd (run_loop ch model tools max_iter i s))"
  by (rule run_loop_invariant) (rule iteration_sees_history)

lemma run_loop_model_calls:
  "length (filter is_model_call (calls (snd (run_loop ch model tools max_iter i s))))
     \<le> length (filter is_model_call (calls s)) + nat (max_iter - int i)"
proof (induction "nat (max_iter - int i)" arbitrary: i s rule: less_induct)
  case less
  show ?case
  proof (cases "int i < max_iter")
    case False
    then show ?thesis by (simp add: run_loop_stop)
  next
    case True
    obtain x s' where it: "iteration ch model tools s = (x, s')" by fastforce
    from iteration_extends [OF it] obtain cs where
      "calls s' = calls s @ ModelCall (history s) # cs" "\<not> list_ex is_model_call cs"
      by blast
    then have count: "length (filter is_model_call (calls s')) = Suc (length (filter is_model_call (calls s)))"
      by (simp add: filter_empty_conv list_ex_iff)
    show ?thesis
    proof (cases x)
      case Next
      have "nat (max_iter - int (Suc i)) < nat (max_iter - int i)" using True by simp
      from less.hyps [OF this, of s'] True it Next count show ?thesis
        by (simp add: run_loop_next)
    next
      case (Done v)
      with True it count show ?thesis by (simp add: run_loop_done)
    next
      case (Failed e)
      with True it count show ?thesis by (simp add: run_loop_failed)
    qed
  qed
qed

lemma run_tool_calls_append:
  "run_tool_calls tools (xs @ ys) s =
     (case run_tool_calls tools xs s of (Some e, s') \<Rightarrow> (Some e, s') | (None, s') \<Rightarrow> run_tool_calls tools ys s')"
  by (induction xs arbitrary: s) (auto split: prod.splits option.splits)

lemma run_tool_calls_unknown:
  "\<forall>tc \<in> set tcs. \<not> tool_known tools tc \<Longrightarrow> run_tool_calls tools tcs s = (None, s)"
  by (induction tcs) (auto simp: run_tool_call_unknown)

lemma runWithTools_first_step:
  "0 < max_iterations \<Longrightarrow>
   runWithTools ch model tools rc q max_iterations w =
     (case iteration ch model tools (init_state rc q w) of
        (Next, s') \<Rightarrow> run_loop ch model tools max_iterations 1 s'
      | (Done v, s') \<Rightarrow> (Ok v, s')
      | (Failed e, s') \<Rightarrow> (Exc e, s'))"
  by (simp add: runWithTools_def run_loop.simps [of ch model tools max_iterations 0] split: prod.splits iter_result.splits)

subsection \<open>What the loop prints\<close>

text \<open>
  A history is answered when its last message is an answer without tool calls: the only
  way \<open>runWithTools\<close> returns from inside the loop (line 62).
\<close>

definition answered :: "message list \<Rightarrow> bool" where
  "answered h \<longleftrightarrow> h \<noteq> [] \<and> (case last h of AIMessage a \<Rightarrow> no_tool_calls a | _ \<Rightarrow> False)"

lemma run_tool_call_out: "run_tool_call tools tc s = (r, s') \<Longrightarrow> out s' = out s"
  by (auto simp: run_tool_call_def Let_def split: option.splits prod.splits sum.splits)

lemma tool_msg_id_Some: "tool_msg_id m = Some i \<Longrightarrow> \<exists>c. m = ToolMessage c i"
  by (cases m) auto

text \<open>The tools print nothing and only append tool messages.\<close>

lemma run_tool_calls_out:
  "run_tool_calls tools tcs s = (r, s') \<Longrightarrow>
   out s' = out s \<and> (\<exists>ms. history s' = history s @ ms \<and> (\<forall>m \<in> set ms. \<exists>c i. m = ToolMessage c i))"
proof (induction tcs arbitrary: s)
  case Nil
  then show ?case by simp
next
  case (Cons tc tcs)
  obtain r1 s1 where step: "run_tool_call tools tc s = (r1, s1)" by fastforce
  from run_tool_call_shape [OF step] obtain ms1 where
    h1: "history s1 = history s @ ms1" "\<forall>m \<in> set ms1. \<exists>c i. m = ToolMessage c i"
    by (auto dest: tool_msg_id_Some split: if_splits)
  have o1: "out s1 = out s" by (rule run_tool_call_out [OF step])
  show ?case
  proof (cases r1)
    case None
    with Cons.prems step have "run_tool_calls tools tcs s1 = (r, s')" by simp
    from Cons.IH [OF this] h1 o1 show ?thesis
      by (metis Un_iff append.assoc set_append)
  next
    case (Some e)
    with Cons.prems step have "s' = s1" by simp
    with h1 o1 show ?thesis by blast
  qed
qed

lemma not_answered_tool_round:
  "\<not> no_tool_calls r \<Longrightarrow> \<forall>m \<in> set ms. \<exists>c i. m = ToolMessage c i \<Longrightarrow> \<not> answered (h @ AIMessage r # ms)"
  by (cases ms rule: rev_cases) (auto simp: answered_def)

text \<open>
  One iteration from a state whose history is not answered: it either prints the
  waiting notice and the reply to an answer it appends, or prints only the waiting
  notice and the tool-call notices and leaves the history unanswered.
\<close>

lemma iteration_out:
  assumes "iteration ch model tools s = (x, s')" "\<not> answered (history s)"
  shows "(\<exists>a. x = Done (ai_content a) \<and> no_tool_calls a \<and> history s' = history s @ [AIMessage a] \<and>
              out s' = out s @ [waiting_line ch, reply_line (ai_content a)]) \<or>
         ((\<forall>v. x \<noteq> Done v) \<and> \<not> answered (history s') \<and>
          (\<exists>ls. out s' = out s @ ls \<and>
                (\<forall>l \<in> set ls. l = waiting_line ch \<or> (\<exists>cs. l \<in> set (tool_call_notices ch cs)))))"
proof (cases rule: iteration_cases [of model s])
  case (model_error e w)
  with assms show ?thesis by (auto simp: iteration_model_error)
next
  case (answer r w)
  let ?s2 = "s\<lparr>calls := calls s @ [ModelCall (history s)], world := w, history := history s @ [AIMessage r],
               out := out s @ waiting_line ch # tool_call_notices ch (requested_calls r)\<rparr>"
  show ?thesis
  proof (cases "no_tool_calls r")
    case True
    with assms(1) answer show ?thesis by (auto simp: iteration_final_answer)
  next
    case False
    obtain y s3 where rt: "run_tool_calls tools (requested_calls r) ?s2 = (y, s3)" by fastforce
    with assms(1) answer False have x: "s' = s3" "\<forall>v. x \<noteq> Done v"
      by (auto simp: iteration_tool_round split: option.splits)
    from run_tool_calls_out [OF rt] obtain ms where
      "out s3 = out ?s2" "history s3 = history ?s2 @ ms" "\<forall>m \<in> set ms. \<exists>c i. m = ToolMessage c i"
      by blast
    with x False show ?thesis
      by (auto simp: not_answered_tool_round intro!: exI [of _ "waiting_line ch # tool_call_notices ch (requested_calls r)"])
  qed
qed

text \<open>The same for the whole loop, by induction on the budget left.\<close>

lemma run_loop_out:
  assumes "\<not> answered (history s)"
  shows "(answered (history (snd (run_loop ch model tools mi i s))) \<longrightarrow>
            (\<exists>a ls. last (history (snd (run_loop ch model tools mi i s))) = AIMessage a \<and>
                    fst (run_loop ch model tools mi i s) = Ok (ai_content a) \<and>
                    out (snd (run_loop ch model tools mi i s)) = out s @ ls @ [reply_line (ai_content a)])) \<and>
         (\<not> answered (history (snd (run_loop ch model tools mi i s))) \<longrightarrow>
            (\<exists>ls. out (snd (run_loop ch model tools mi i s)) = out s @ ls \<and>
                  (\<forall>l \<in> set ls. l = waiting_line ch \<or> (\<exists>cs. l \<in> set (tool_call_notices ch cs)))))"
  using assms
proof (induction "nat (mi - int i)" arbitrary: i s rule: less_induct)
  case less
  show ?case
  proof (cases "int i < mi")
    case False
    with less.prems show ?thesis by (auto simp: run_loop_stop intro: exI [of _ "[]"])
  next
    case True
    obtain x s' where it: "iteration ch model tools s = (x, s')" by fastforce
    from iteration_out [OF it less.prems] show ?thesis
    proof (elim disjE exE conjE)
      fix a
      assume "x = Done (ai_content a)" "no_tool_calls a" "history s' = history s @ [AIMessage a]"
        "out s' = out s @ [waiting_line ch, reply_line (ai_content a)]"
      with True it show ?thesis
        by (auto simp: run_loop_done answered_def intro: exI [of _ "[waiting_line ch]"])
    next
      fix ls
      assume nd: "\<forall>v. x \<noteq> Done v" and na: "\<not> answered (history s')"
        and o: "out s' = out s @ ls"
        and ls: "\<forall>l \<in> set ls. l = waiting_line ch \<or> (\<exists>cs. l \<in> set (tool_call_notices ch cs))"
      show ?thesis
      proof (cases x)
        case Next
        have "nat (mi - int (Suc i)) < nat (mi - int i)" using True by simp
        note ih = less.hyps [OF this na]
        from True it Next have "run_loop ch model tools mi i s = run_loop ch model tools mi (Suc i) s'"
          by (simp add: run_loop_next)
        with ih o ls show ?thesis
          by (auto 0 3 intro: exI [of _ "ls @ _"])
      next
        case (Failed e)
        with True it na o ls show ?thesis by (auto simp: run_loop_failed)
      qed (use nd in simp)
    qed
  qed
qed

subsection \<open>Sample collaborators\<close>

text \<open>
  Small collaborators that make the hypotheses of the theorems below hold: a model that
  answers at once, one that always asks for the tool \<open>lookup\<close>, a tool of that name, and
  a tool that throws. The world is \<open>unit\<close>: these collaborators have no effects.
\<close>

definition answering_model :: "unit chat_model" where
  "answering_model h w = (Inr \<lparr>ai_content = JStr ''done'', tool_calls = None\<rparr>, w)"

definition lookup_call :: tool_call where
  "lookup_call = \<lparr>tc_name = ''lookup'', tc_args = JObj [], tc_id = ''call_1''\<rparr>"

definition tool_requesting_model :: "unit chat_model" where
  "tool_requesting_model h w = (Inr \<lparr>ai_content = JStr ''thinking'', tool_calls = Some [lookup_call]\<rparr>, w)"

definition lookup_tool :: "unit tool" where
  "lookup_tool = \<lparr>tname = ''lookup'', invoke = (\<lambda>a w. (Inr (JStr ''found''), w))\<rparr>"

definition failing_tool :: "unit tool" where
  "failing_tool = \<lparr>tname = ''lookup'', invoke = (\<lambda>a w. (Inl (Thrown (JStr ''boom'')), w))\<rparr>"

lemmas sample_defs = answering_model_def tool_requesting_model_def lookup_call_def
  lookup_tool_def failing_tool_def

subsection \<open>Properties of the loop\<close>

text \<open>
  C1. If the model's first answer carries no tool call, the loop calls the model exactly
  once, on the two initial messages, appends that answer and returns its content verbatim.
\<close>

theorem runWithTools_first_answer:
  assumes "0 < max_iterations" "model (init_history rc q) w = (Inr r, w')" "no_tool_calls r"
  shows "runWithTools ch model tools rc q max_iterations w =
           (Ok (ai_content r),
            \<lparr>history = init_history rc q @ [AIMessage r], world = w', calls = [ModelCall (init_history rc q)],
             out = [waiting_line ch, reply_line (ai_content r)]\<rparr>)"
  using assms
  by (simp add: runWithTools_first_step iteration_final_answer init_state_def)

theorem runWithTools_first_answer_witness:
  "0 < default_max_iterations \<and> answering_model (init_history '''' ''hi'') () = (Inr \<lparr>ai_content = JStr ''done'', tool_calls = None\<rparr>, ())
   \<and> no_tool_calls \<lparr>ai_content = JStr ''done'', tool_calls = None\<rparr>
   \<and> runWithTools plain_chalk answering_model [] '''' ''hi'' default_max_iterations () =
       (Ok (JStr ''done''),
        \<lparr>history = init_history '''' ''hi'' @ [AIMessage \<lparr>ai_content = JStr ''done'', tool_calls = None\<rparr>],
         world = (), calls = [ModelCall (init_history '''' ''hi'')],
         out = [waiting_line plain_chalk, reply_line (JStr ''done'')]\<rparr>)"
proof -
  have h: "0 < default_max_iterations"
    "answering_model (init_history '''' ''hi'') () = (Inr \<lparr>ai_content = JStr ''done'', tool_calls = None\<rparr>, ())"
    "no_tool_calls \<lparr>ai_content = JStr ''done'', tool_calls = None\<rparr>"
    by (simp_all add: default_max_iterations_def answering_model_def no_tool_calls_def)
  show ?thesis using h runWithTools_first_answer [where ch = plain_chalk and model = answering_model and tools = "[]", OF h] by simp
qed

text \<open>
  C2. The loop ends after at most \<open>maxIterations\<close> model invocations, whatever the model
  and the tools do (and after none when \<open>maxIterations \<le> 0\<close>).
\<close>

theorem runWithTools_model_call_bound:
  "length (filter is_model_call (calls (snd (runWithTools ch model tools rc q max_iterations w))))
     \<le> nat max_iterations"
  using run_loop_model_calls [of ch model tools max_iterations 0 "init_state rc q w"]
  by (simp add: runWithTools_def init_state_def)

text \<open>
  C3. An iteration that continues appended the model's answer, which requests tools, and
  then exactly one tool message per requested call whose tool is in the registry, carrying
  that call's id, in the order of the calls; calls to unknown tools get no message.
\<close>

theorem iteration_appends_answers:
  assumes "iteration ch model tools s = (Next, s')"
  shows "\<exists>r w ms. model (history s) (world s) = (Inr r, w) \<and> \<not> no_tool_calls r \<and>
           history s' = history s @ AIMessage r # ms \<and>
           map tool_msg_id ms = map (Some \<circ> tc_id) (filter (tool_known tools) (requested_calls r))"
proof (cases rule: iteration_cases [of model s])
  case (model_error e w)
  with assms show ?thesis by (simp add: iteration_model_error)
next
  case (answer r w)
  let ?s2 = "s\<lparr>calls := calls s @ [ModelCall (history s)], world := w, history := history s @ [AIMessage r],
               out := out s @ waiting_line ch # tool_call_notices ch (requested_calls r)\<rparr>"
  have nt: "\<not> no_tool_calls r"
    using assms answer by (auto simp: iteration_final_answer)
  with assms answer have "run_tool_calls tools (requested_calls r) ?s2 = (None, s')"
    by (auto simp: iteration_tool_round split: prod.splits option.splits)
  from run_tool_calls_None [OF this] nt answer show ?thesis by auto
qed

theorem iteration_appends_answers_witness:
  "iteration plain_chalk tool_requesting_model [lookup_tool] (init_state '''' ''q'' ()) = (Next,
     \<lparr>history = init_history '''' ''q'' @
        [AIMessage \<lparr>ai_content = JStr ''thinking'', tool_calls = Some [lookup_call]\<rparr>,
         ToolMessage (JStr ''found'') ''call_1''],
      world = (),
      calls = [ModelCall (init_history '''' ''q''), ToolCall ''lookup'' (JObj [])],
      out = waiting_line plain_chalk # tool_call_notices plain_chalk [lookup_call]\<rparr>)
   \<and> (\<exists>r w ms. tool_requesting_model (init_history '''' ''q'') () = (Inr r, w) \<and> \<not> no_tool_calls r \<and>
        init_history '''' ''q'' @
          [AIMessage \<lparr>ai_content = JStr ''thinking'', tool_calls = Some [lookup_call]\<rparr>,
           ToolMessage (JStr ''found'') ''call_1''] = init_history '''' ''q'' @ AIMessage r # ms \<and>
        map tool_msg_id ms = map (Some \<circ> tc_id) (filter (tool_known [lookup_tool]) (requested_calls r)))"
proof -
  have it: "iteration plain_chalk tool_requesting_model [lookup_tool] (init_state '''' ''q'' ()) = (Next,
     \<lparr>history = init_history '''' ''q'' @
        [AIMessage \<lparr>ai_content = JStr ''thinking'', tool_calls = Some [lookup_call]\<rparr>,
         ToolMessage (JStr ''found'') ''call_1''],
      world = (),
      calls = [ModelCall (init_history '''' ''q''), ToolCall ''lookup'' (JObj [])],
      out = waiting_line plain_chalk # tool_call_notices plain_chalk [lookup_call]\<rparr>)"
    by (simp add: iteration_def Let_def init_state_def sample_defs no_tool_calls_def requested_calls_def
        run_tool_call_def find_tool_def normalize_result_def)
  show ?thesis
    using it iteration_appends_answers [OF it] by (simp add: init_state_def)
qed

definition failing_model :: "unit chat_model" where
  "failing_model h w = (Inl (Thrown (JStr ''rate limited'')), w)"



text \<open>
  C5. A response whose tool calls all name tools missing from the registry appends only
  the response itself: no tool runs, no tool message is appended, and the loop goes on.
\<close>

theorem iteration_unknown_tools:
  assumes "model (history s) (world s) = (Inr r, w)" "\<not> no_tool_calls r"
    and "\<forall>tc \<in> set (requested_calls r). \<not> tool_known tools tc"
  shows "iteration ch model tools s =
           (Next, s\<lparr>calls := calls s @ [ModelCall (history s)], world := w, history := history s @ [AIMessage r],
                    out := out s @ waiting_line ch # tool_call_notices ch (requested_calls r)\<rparr>)"
  using assms by (simp add: iteration_tool_round run_tool_calls_unknown)

theorem iteration_unknown_tools_witness:
  "tool_requesting_model [] () = (Inr \<lparr>ai_content = JStr ''thinking'', tool_calls = Some [lookup_call]\<rparr>, ())
   \<and> \<not> no_tool_calls \<lparr>ai_content = JStr ''thinking'', tool_calls = Some [lookup_call]\<rparr>
   \<and> iteration plain_chalk tool_requesting_model [] \<lparr>history = [], world = (), calls = [], out = []\<rparr> =
       (Next, \<lparr>history = [AIMessage \<lparr>ai_content = JStr ''thinking'', tool_calls = Some [lookup_call]\<rparr>],
               world = (), calls = [ModelCall []],
               out = waiting_line plain_chalk # tool_call_notices plain_chalk [lookup_call]\<rparr>)"
proof -
  have h: "tool_requesting_model (history \<lparr>history = [], world = (), calls = [], out = []\<rparr>) (world \<lparr>history = [], world = (), calls = [], out = []\<rparr>)
             = (Inr \<lparr>ai_content = JStr ''thinking'', tool_calls = Some [lookup_call]\<rparr>, ())"
    "\<not> no_tool_calls \<lparr>ai_content = JStr ''thinking'', tool_calls = Some [lookup_call]\<rparr>"
    "\<forall>tc \<in> set (requested_calls \<lparr>ai_content = JStr ''thinking'', tool_calls = Some [lookup_call]\<rparr>).
        \<not> tool_known ([] :: unit tool list) tc"
    by (simp_all add: tool_requesting_model_def no_tool_calls_def requested_calls_def tool_known_def)
  show ?thesis
    using h iteration_unknown_tools [where ch = plain_chalk and model = tool_requesting_model and tools = "[]", OF h]
    by (simp add: tool_requesting_model_def requested_calls_def)
qed

text \<open>
  C6. An exception thrown by the model propagates out of the loop: the first failing
  model call ends the run with that exception, and nothing is appended to the history.
\<close>

theorem runWithTools_model_error:
  assumes "0 < max_iterations" "model (init_history rc q) w = (Inl e, w')"
  shows "runWithTools ch model tools rc q max_iterations w =
           (Exc e, \<lparr>history = init_history rc q, world = w', calls = [ModelCall (init_history rc q)],
                    out = [waiting_line ch]\<rparr>)"
  using assms by (simp add: runWithTools_first_step iteration_model_error init_state_def)

theorem runWithTools_model_error_witness:
  "0 < default_max_iterations \<and> failing_model (init_history '''' ''q'') () = (Inl (Thrown (JStr ''rate limited'')), ())
   \<and> runWithTools plain_chalk failing_model [] '''' ''q'' default_max_iterations () =
       (Exc (Thrown (JStr ''rate limited'')),
        \<lparr>history = init_history '''' ''q'', world = (), calls = [ModelCall (init_history '''' ''q'')],
         out = [waiting_line plain_chalk]\<rparr>)"
proof -
  have h: "0 < default_max_iterations"
    "failing_model (init_history '''' ''q'') () = (Inl (Thrown (JStr ''rate limited'')), ())"
    by (simp_all add: default_max_iterations_def failing_model_def)
  show ?thesis using h runWithTools_model_error [where ch = plain_chalk and model = failing_model and tools = "[]", OF h] by simp
qed

text \<open>
  C7. Tool calls run strictly in order and a failure aborts the rest of the turn: once a
  call throws, the calls after it are never run, whatever they are.
\<close>

theorem run_tool_calls_abort:
  assumes "run_tool_calls tools before s = (None, s1)" "run_tool_call tools tc s1 = (Some e, s2)"
  shows "run_tool_calls tools (before @ tc # after) s = (Some e, s2)"
  using assms by (simp add: run_tool_calls_append)

theorem run_tool_calls_abort_witness:
  "run_tool_calls [failing_tool] [] \<lparr>history = [], world = (), calls = [], out = []\<rparr> = (None, \<lparr>history = [], world = (), calls = [], out = []\<rparr>)
   \<and> run_tool_call [failing_tool] lookup_call \<lparr>history = [], world = (), calls = [], out = []\<rparr> =
       (Some (Thrown (JStr ''boom'')), \<lparr>history = [], world = (), calls = [ToolCall ''lookup'' (JObj [])], out = []\<rparr>)
   \<and> run_tool_calls [failing_tool] [lookup_call, lookup_call] \<lparr>history = [], world = (), calls = [], out = []\<rparr> =
       (Some (Thrown (JStr ''boom'')), \<lparr>history = [], world = (), calls = [ToolCall ''lookup'' (JObj [])], out = []\<rparr>)"
proof -
  have h: "run_tool_calls [failing_tool] [] \<lparr>history = [], world = (), calls = [], out = []\<rparr> = (None, \<lparr>history = [], world = (), calls = [], out = []\<rparr>)"
    "run_tool_call [failing_tool] lookup_call \<lparr>history = [], world = (), calls = [], out = []\<rparr> =
       (Some (Thrown (JStr ''boom'')), \<lparr>history = [], world = (), calls = [ToolCall ''lookup'' (JObj [])], out = []\<rparr>)"
    by (simp_all add: run_tool_call_def find_tool_def sample_defs)
  show ?thesis using h run_tool_calls_abort [OF h, of "[lookup_call]"] by simp
qed


text \<open>
  Budget exhaustion when the requested tool is not registered: nothing follows the
  assistant messages, so after two invocations the second assistant content is returned.
\<close>

lemma budget_exhausted_unknown_tool:
  "fst (runWithTools plain_chalk tool_requesting_model [] '''' ''q'' 2 ()) = Ok (JStr ''thinking'')
   \<and> length (filter is_model_call (calls (snd (runWithTools plain_chalk tool_requesting_model [] '''' ''q'' 2 ())))) = 2"
  by (simp add: runWithTools_def init_state_def run_loop.simps iteration_def Let_def sample_defs no_tool_calls_def
      requested_calls_def run_tool_call_def find_tool_def last_content_def)

text \<open>
  C10. With a budget that is not positive the model is never called and the loop returns
  the content of the last initial message: the user's query itself.
\<close>

theorem runWithTools_nonpositive_budget:
  assumes "max_iterations \<le> 0"
  shows "runWithTools ch model tools rc q max_iterations w = (Ok (JStr q), init_state rc q w)"
  using assms
  by (simp add: runWithTools_def run_loop_stop init_state_def init_history_def last_content_def)

theorem runWithTools_nonpositive_budget_witness:
  "(0::int) \<le> 0 \<and> runWithTools plain_chalk answering_model [] ''ctx'' ''q'' 0 () = (Ok (JStr ''q''), init_state ''ctx'' ''q'' ())"
  using runWithTools_nonpositive_budget [of 0 plain_chalk answering_model "[]" "''ctx''" "''q''" "()"] by simp


text \<open>
  C21. The final reply is printed exactly when the run ends with an answer that requests
  no tool: it is then the last line printed and its content is the value returned. When
  the budget runs out, or the model or a tool throws, the console holds only the waiting
  notices and the tool-call notices: the content the loop returns on exhaustion is never
  printed, and the script's top level (line 109) discards it.
\<close>

theorem runWithTools_reply_printed:
  assumes "runWithTools ch model tools rc q mi w = (r, s)"
  shows "(answered (history s) \<longrightarrow>
            (\<exists>a ls. last (history s) = AIMessage a \<and> r = Ok (ai_content a) \<and>
                    out s = ls @ [reply_line (ai_content a)])) \<and>
         (\<not> answered (history s) \<longrightarrow>
            (\<forall>l \<in> set (out s). l = waiting_line ch \<or> (\<exists>cs. l \<in> set (tool_call_notices ch cs))))"
proof -
  have "\<not> answered (history (init_state rc q w))"
    by (simp add: answered_def init_state_def init_history_def)
  note run = run_loop_out [OF this, where ch = ch and model = model and tools = tools and mi = mi and i = 0]
  from assms have "run_loop ch model tools mi 0 (init_state rc q w) = (r, s)"
    by (simp add: runWithTools_def)
  with run show ?thesis by (auto simp: init_state_def)
qed

theorem runWithTools_reply_printed_witness:
  "fst (runWithTools plain_chalk tool_requesting_model [lookup_tool] '''' ''q'' 2 ()) = Ok (JStr ''found'')
   \<and> \<not> answered (history (snd (runWithTools plain_chalk tool_requesting_model [lookup_tool] '''' ''q'' 2 ())))
   \<and> reply_line (JStr ''found'') \<notin> set (out (snd (runWithTools plain_chalk tool_requesting_model [lookup_tool] '''' ''q'' 2 ())))"
proof -
  let ?run = "runWithTools plain_chalk tool_requesting_model [lookup_tool] '''' ''q'' 2 ()"
  have r: "fst ?run = Ok (JStr ''found'')" and na: "\<not> answered (history (snd ?run))"
    by (simp_all add: runWithTools_def init_state_def run_loop.simps iteration_def Let_def sample_defs
        no_tool_calls_def requested_calls_def run_tool_call_def find_tool_def normalize_result_def
        last_content_def answered_def)
  have "\<forall>l \<in> set (out (snd ?run)). l = waiting_line plain_chalk \<or> (\<exists>cs. l \<in> set (tool_call_notices plain_chalk cs))"
    using runWithTools_reply_printed [of plain_chalk tool_requesting_model "[lookup_tool]" "''''" "''q''" 2 "()"
        "fst ?run" "snd ?run"] na
    by simp
  moreover have "reply_line (JStr ''found'') \<noteq> waiting_line plain_chalk"
    "\<And>cs. reply_line (JStr ''found'') \<notin> set (tool_call_notices plain_chalk cs)"
    by (simp_all add: reply_line_def waiting_line_def tool_call_notices_def plain_chalk_def final_head_def
        waiting_notice_def calls_count_head_def calls_names_head_def)
  ultimately show ?thesis using r na by blast
qed

end
