(* ===== verification/Config.thy ===== *)
theory Config
  imports JS_Values
begin

text \<open>
  The configuration the scripts build before they call a library: the chat-model and
  embedding clients (model name, key and endpoint taken from environment variables, with
  the \<open>||\<close> fallback of src/tool-test/src/hello-langchain.mjs), the four MCP servers of
  src/tool-test/src/mcp-test.mjs (one of whose URLs embeds an environment variable through
  a template literal) and the chunking parameters of the three text splitters. The
  environment is a partial map from variable names to strings: \<open>process.env.X\<close> is
  \<open>undefined\<close> where the variable is not set.
\<close>

type_synonym env = "string \<Rightarrow> string option"

definition env_val :: "env \<Rightarrow> string \<Rightarrow> jsval" where
  "env_val env k = (case env k of None \<Rightarrow> JUndef | Some s \<Rightarrow> JStr s)"

text \<open>\<open>a || b\<close>: the first operand when it is truthy, the second otherwise.\<close>

definition js_or :: "jsval \<Rightarrow> jsval \<Rightarrow> jsval" where
  "js_or a b = (if truthy a then a else b)"

subsection \<open>Chat-model and embedding clients\<close>

record client_config =
  model_name :: jsval
  api_key :: jsval
  base_url :: jsval
  temperature :: jsval

text \<open>hello-langchain.mjs, lines 6--12.\<close>

definition hello_model_config :: "env \<Rightarrow> client_config" where
  "hello_model_config env =
     \<lparr>model_name = js_or (env_val env ''MODEL_NAME'') (JStr ''qwen-coder-turbo''),
      api_key = env_val env ''OPENAI_API_KEY'',
      base_url = env_val env ''OPENAI_BASE_URL'',
      temperature = JUndef\<rparr>"

text \<open>mcp-test.mjs, lines 11--17.\<close>

definition mcp_model_config :: "env \<Rightarrow> client_config" where
  "mcp_model_config env =
     \<lparr>model_name = JStr ''qwen-plus'',
      api_key = env_val env ''OPENAI_API_KEY'',
      base_url = env_val env ''OPENAI_BASE_URL'',
      temperature = JUndef\<rparr>"

text \<open>loader-and-splitter.mjs, lines 26--33 (chat model) and 35--41 (embeddings).\<close>

definition rag_model_config :: "env \<Rightarrow> client_config" where
  "rag_model_config env =
     \<lparr>model_name = JStr ''qwen-plus'',
      api_key = env_val env ''OPENAI_API_KEY'',
      base_url = env_val env ''OPENAI_BASE_URL'',
      temperature = JNum 0\<rparr>"

definition rag_embeddings_config :: "env \<Rightarrow> client_config" where
  "rag_embeddings_config env =
     \<lparr>model_name = JStr ''text-embedding-v3'',
      api_key = env_val env ''OPENAI_API_KEY'',
      base_url = env_val env ''OPENAI_BASE_URL'',
      temperature = JUndef\<rparr>"

subsection \<open>MCP servers (mcp-test.mjs, lines 19--37)\<close>

datatype server_config = Stdio string "string list" | Http string

text \<open>
  The \<open>amap\<close> URL is a template literal: \<open>${process.env.AMAP_API_KEY}\<close> converts the
  value with \<open>String\<close>, so an unset variable becomes the text \<open>undefined\<close>.
\<close>

definition mcp_servers :: "env \<Rightarrow> (string \<times> server_config) list" where
  "mcp_servers env =
     [(''my-mcp-server'', Stdio ''node'' [''./src/my-mcp-server.mjs'']),
      (''amap-maps-streamableHTTP'', Http (''https://mcp.amap.com/mcp?key='' @ to_str (env_val env ''AMAP_API_KEY''))),
      (''filesystem'', Stdio ''npx'' [''-y'', ''@modelcontextprotocol/server-filesystem'', ''./'']),
      (''chrome-devtools'', Stdio ''npx'' [''-y'', ''chrome-devtools-mcp@latest''])]"

subsection \<open>Text splitters\<close>

record splitter_config =
  chunk_size :: nat
  chunk_overlap :: nat
  separators :: "string list option"

text \<open>
  The separators of loader-and-splitter.mjs (line 20) are the full-width punctuation
  marks U+3002, U+FF01 and U+FF1F, written here as their UTF-8 bytes.
\<close>

definition cjk_full_stop :: string where
  "cjk_full_stop = [CHR 0xE3, CHR 0x80, CHR 0x82]"

definition cjk_exclamation :: string where
  "cjk_exclamation = [CHR 0xEF, CHR 0xBC, CHR 0x81]"

definition cjk_question :: string where
  "cjk_question = [CHR 0xEF, CHR 0xBC, CHR 0x9F]"

definition rag_splitter :: splitter_config where
  "rag_splitter = \<lparr>chunk_size = 400, chunk_overlap = 50,
                   separators = Some [cjk_full_stop, cjk_exclamation, cjk_question]\<rparr>"

definition latex_splitter :: splitter_config where
  "latex_splitter = \<lparr>chunk_size = 200, chunk_overlap = 40, separators = None\<rparr>"

definition markdown_splitter :: splitter_config where
  "markdown_splitter = \<lparr>chunk_size = 400, chunk_overlap = 80, separators = None\<rparr>"

text \<open>
  The splitters refuse a configuration whose overlap is not smaller than the chunk size;
  this is the condition the scripts' constants must meet.
\<close>

definition splitter_ok :: "splitter_config \<Rightarrow> bool" where
  "splitter_ok c \<longleftrightarrow> chunk_overlap c < chunk_size c \<and> separators c \<noteq> Some []"

subsection \<open>Properties of the configuration\<close>



text \<open>
  The hello script uses \<open>MODEL_NAME\<close> when it is set to a non-empty string and
  falls back to \<open>qwen-coder-turbo\<close> when it is unset or empty.
\<close>

lemma hello_model_name:
  "model_name (hello_model_config env) =
     (case env ''MODEL_NAME'' of
        Some s \<Rightarrow> (if s = [] then JStr ''qwen-coder-turbo'' else JStr s)
      | None \<Rightarrow> JStr ''qwen-coder-turbo'')"
  by (simp add: hello_model_config_def js_or_def env_val_def split: option.splits)

text \<open>
  The three splitter configurations are accepted by the splitters: each overlap is smaller
  than its chunk size and the custom separator list is not empty.
\<close>

theorem splitter_configs_ok:
  "splitter_ok rag_splitter \<and> splitter_ok latex_splitter \<and> splitter_ok markdown_splitter"
  by (simp add: splitter_ok_def rag_splitter_def latex_splitter_def markdown_splitter_def)

end
