(* ===== verification/MCP_Script.thy ===== *)
theory MCP_Script
  imports Agent_Loop Config
begin

text \<open>
  The top level of src/tool-test/src/mcp-test.mjs: the MCP client lists the resources of
  every server and the script concatenates the \<open>text\<close> of the first content item of each
  into \<open>resourceContent\<close> (lines 39--46), fetches the tools (line 48), binds them to the
  model (line 49), runs \<open>runWithTools\<close> on the query (lines 109--111) and closes the
  client (line 112). The client is a record of its four operations on the external world;
  every \<open>await\<close> may reject, and a rejection at top level ends the script.
\<close>

record 'w mcp_client =
  list_resources :: "'w \<Rightarrow> (js_error + (string \<times> jsval list) list) \<times> 'w"
  read_resource :: "string \<Rightarrow> jsval \<Rightarrow> 'w \<Rightarrow> (js_error + jsval) \<times> 'w"
  get_tools :: "'w \<Rightarrow> (js_error + 'w tool list) \<times> 'w"
  close_client :: "'w \<Rightarrow> (js_error + unit) \<times> 'w"

subsection \<open>Collecting the resources into the system context (lines 39--46)\<close>

text \<open>\<open>content[0].text\<close> of line 44: both reads throw on \<open>null\<close>/\<open>undefined\<close>.\<close>

definition first_text :: "jsval \<Rightarrow> js_error + jsval" where
  "first_text content = (case js_index content 0 of Inl e \<Rightarrow> Inl e | Inr c0 \<Rightarrow> get_prop c0 ''text'')"

text \<open>The inner loop over the resources of one server (lines 42--45).\<close>

fun read_server_resources ::
  "'w mcp_client \<Rightarrow> string \<Rightarrow> jsval list \<Rightarrow> string \<Rightarrow> 'w \<Rightarrow> (js_error + string) \<times> 'w" where
  "read_server_resources c srv [] acc w = (Inr acc, w)"
| "read_server_resources c srv (r # rs) acc w =
     (case get_prop r ''uri'' of
        Inl e \<Rightarrow> (Inl e, w)
      | Inr uri \<Rightarrow>
          (case read_resource c srv uri w of
             (Inl e, w') \<Rightarrow> (Inl e, w')
           | (Inr content, w') \<Rightarrow>
               (case first_text content of
                  Inl e \<Rightarrow> (Inl e, w')
                | Inr t \<Rightarrow> read_server_resources c srv rs (acc @ to_str t) w')))"

text \<open>The outer loop over \<open>Object.entries(res)\<close> (lines 41--46).\<close>

fun read_all_resources ::
  "'w mcp_client \<Rightarrow> (string \<times> jsval list) list \<Rightarrow> string \<Rightarrow> 'w \<Rightarrow> (js_error + string) \<times> 'w" where
  "read_all_resources c [] acc w = (Inr acc, w)"
| "read_all_resources c ((srv, rs) # servers) acc w =
     (case read_server_resources c srv rs acc w of
        (Inl e, w') \<Rightarrow> (Inl e, w')
      | (Inr acc', w') \<Rightarrow> read_all_resources c servers acc' w')"

definition collect_resource_content :: "'w mcp_client \<Rightarrow> 'w \<Rightarrow> (js_error + string) \<times> 'w" where
  "collect_resource_content c w =
     (case list_resources c w of
        (Inl e, w') \<Rightarrow> (Inl e, w')
      | (Inr res, w') \<Rightarrow> read_all_resources c res [] w')"

text \<open>
  The body of the inner loop on its own (lines 43--44): read one resource of a server and
  return the text it contributes.
\<close>

definition read_one :: "'w mcp_client \<Rightarrow> string \<Rightarrow> jsval \<Rightarrow> 'w \<Rightarrow> (js_error + string) \<times> 'w" where
  "read_one c srv r w =
     (case get_prop r ''uri'' of
        Inl e \<Rightarrow> (Inl e, w)
      | Inr uri \<Rightarrow>
          (case read_resource c srv uri w of
             (Inl e, w') \<Rightarrow> (Inl e, w')
           | (Inr content, w') \<Rightarrow>
               (case first_text content of
                  Inl e \<Rightarrow> (Inl e, w')
                | Inr t \<Rightarrow> (Inr (to_str t), w'))))"

text \<open>
  The reference the accumulation is compared with: read every (server, resource) pair in
  turn, threading the world and stopping at the first exception, and keep the texts as a
  list.
\<close>

fun read_each :: "'w mcp_client \<Rightarrow> (string \<times> jsval) list \<Rightarrow> 'w \<Rightarrow> (js_error + string list) \<times> 'w" where
  "read_each c [] w = (Inr [], w)"
| "read_each c ((srv, r) # ps) w =
     (case read_one c srv r w of
        (Inl e, w') \<Rightarrow> (Inl e, w')
      | (Inr t, w') \<Rightarrow>
          (case read_each c ps w' of
             (Inl e, w'') \<Rightarrow> (Inl e, w'')
           | (Inr ts, w'') \<Rightarrow> (Inr (t # ts), w'')))"

text \<open>The pairs \<open>Object.entries(res)\<close> and the inner \<open>for\<close> visit, in order.\<close>

definition resource_pairs :: "(string \<times> jsval list) list \<Rightarrow> (string \<times> jsval) list" where
  "resource_pairs servers = concat (map (\<lambda>(srv, rs). map (Pair srv) rs) servers)"

subsection \<open>The script (lines 39--49 and 106--112)\<close>

text \<open>
  The result of the script: how it ended, the world it left, whether \<open>mcpClient.close()\<close> was
  called, the external calls \<open>runWithTools\<close> made and what it printed (the only output of
  the script; none if the loop was not reached). \<open>bind_tools\<close> is \<open>model.bindTools\<close>: the model that offers the given tools.
\<close>

record 'w script_end =
  script_outcome :: "unit outcome"
  script_world :: 'w
  close_called :: bool
  loop_calls :: "ext_call list"
  script_out :: console_out

definition mcp_main ::
  "chalk \<Rightarrow> 'w mcp_client \<Rightarrow> ('w tool list \<Rightarrow> 'w chat_model) \<Rightarrow> string \<Rightarrow> 'w \<Rightarrow> 'w script_end" where
  "mcp_main ch c bind_tools query w =
     (case collect_resource_content c w of
        (Inl e, w1) \<Rightarrow> \<lparr>script_outcome = Exc e, script_world = w1, close_called = False, loop_calls = [], script_out = []\<rparr>
      | (Inr resource_content, w1) \<Rightarrow>
          (case get_tools c w1 of
             (Inl e, w2) \<Rightarrow> \<lparr>script_outcome = Exc e, script_world = w2, close_called = False, loop_calls = [], script_out = []\<rparr>
           | (Inr tools, w2) \<Rightarrow>
               (case runWithTools ch (bind_tools tools) tools resource_content query default_max_iterations w2 of
                  (Exc e, s) \<Rightarrow>
                    \<lparr>script_outcome = Exc e, script_world = world s, close_called = False, loop_calls = calls s, script_out = out s\<rparr>
                | (Ok v, s) \<Rightarrow>
                    (case close_client c (world s) of
                       (Inl e, w4) \<Rightarrow>
                         \<lparr>script_outcome = Exc e, script_world = w4, close_called = True, loop_calls = calls s, script_out = out s\<rparr>
                     | (Inr u, w4) \<Rightarrow>
                         \<lparr>script_outcome = Ok (), script_world = w4, close_called = True, loop_calls = calls s, script_out = out s\<rparr>))))"

subsection \<open>Reading the resources\<close>

text \<open>
  What a resource contributes when its contents can be read: \<open>String\<close> of the
  \<open>text\<close> of the first content item. \<open>readable rd srv r\<close> says that the resource is
  an object and that reading its \<open>uri\<close> gives a non-empty array whose first item is an
  object, so that no read on line 44 throws.
\<close>

definition resource_text :: "(string \<Rightarrow> jsval \<Rightarrow> jsval) \<Rightarrow> string \<Rightarrow> jsval \<Rightarrow> string" where
  "resource_text rd srv r = to_str (prop_of (hd (array_elems (rd srv (prop_of r ''uri'')))) ''text'')"

definition readable :: "(string \<Rightarrow> jsval \<Rightarrow> jsval) \<Rightarrow> string \<Rightarrow> jsval \<Rightarrow> bool" where
  "readable rd srv r \<longleftrightarrow>
     \<not> nullish r \<and> (\<exists>c0 cs. rd srv (prop_of r ''uri'') = JArr (c0 # cs) \<and> \<not> nullish c0)"

lemma first_text_readable:
  "readable rd srv r \<Longrightarrow>
   first_text (rd srv (prop_of r ''uri'')) = Inr (prop_of (hd (array_elems (rd srv (prop_of r ''uri'')))) ''text'')"
  by (auto simp: readable_def first_text_def js_index_def get_prop_def)

lemma read_server_resources_pure:
  assumes rd: "\<And>uri w. read_resource c srv uri w = (Inr (rd srv uri), w)"
    and ok: "\<forall>r \<in> set rs. readable rd srv r"
  shows "read_server_resources c srv rs acc w = (Inr (acc @ concat (map (resource_text rd srv) rs)), w)"
  using ok
proof (induction rs arbitrary: acc)
  case Nil
  then show ?case by simp
next
  case (Cons r rs)
  then have "readable rd srv r" by simp
  then have "\<not> nullish r" by (simp add: readable_def)
  with Cons \<open>readable rd srv r\<close> show ?case
    by (simp add: rd get_prop_def first_text_readable resource_text_def)
qed

lemma read_all_resources_pure:
  assumes rd: "\<And>srv uri w. read_resource c srv uri w = (Inr (rd srv uri), w)"
    and ok: "\<forall>(srv, rs) \<in> set servers. \<forall>r \<in> set rs. readable rd srv r"
  shows "read_all_resources c servers acc w =
           (Inr (acc @ concat (map (\<lambda>(srv, rs). concat (map (resource_text rd srv) rs)) servers)), w)"
  using ok
proof (induction servers arbitrary: acc)
  case Nil
  then show ?case by simp
next
  case (Cons sv servers)
  obtain srv rs where sv: "sv = (srv, rs)" by fastforce
  with Cons.prems have "\<forall>r \<in> set rs. readable rd srv r" by simp
  from read_server_resources_pure [OF rd this] Cons sv show ?case by simp
qed

lemma read_server_resources_first_error:
  "get_prop r ''uri'' = Inr uri \<Longrightarrow> read_resource c srv uri w = (Inr content, w') \<Longrightarrow>
   first_text content = Inl e \<Longrightarrow> read_server_resources c srv (r # rs) acc w = (Inl e, w')"
  by simp

text \<open>
  The accumulator of \<open>resourceContent +=\<close>, generalised: the loops add to whatever text
  they start from the concatenation of what the reference reads.
\<close>

lemma read_server_resources_Cons:
  "read_server_resources c srv (r # rs) acc w =
     (case read_one c srv r w of
        (Inl e, w') \<Rightarrow> (Inl e, w')
      | (Inr t, w') \<Rightarrow> read_server_resources c srv rs (acc @ t) w')"
  by (simp add: read_one_def split: sum.splits prod.splits)

lemma read_each_append:
  "read_each c (xs @ ys) w =
     (case read_each c xs w of
        (Inl e, w') \<Rightarrow> (Inl e, w')
      | (Inr ts, w') \<Rightarrow>
          (case read_each c ys w' of
             (Inl e, w'') \<Rightarrow> (Inl e, w'')
           | (Inr us, w'') \<Rightarrow> (Inr (ts @ us), w'')))"
  by (induction c xs w rule: read_each.induct) (auto split: prod.splits sum.splits)

lemma read_server_resources_acc:
  "read_server_resources c srv rs acc w =
     (case read_each c (map (Pair srv) rs) w of
        (Inl e, w') \<Rightarrow> (Inl e, w')
      | (Inr ts, w') \<Rightarrow> (Inr (acc @ concat ts), w'))"
  by (induction rs arbitrary: acc w)
     (auto simp: read_server_resources_Cons simp del: read_server_resources.simps(2)
       split: prod.splits sum.splits)

lemma read_all_resources_acc:
  "read_all_resources c servers acc w =
     (case read_each c (resource_pairs servers) w of
        (Inl e, w') \<Rightarrow> (Inl e, w')
      | (Inr ts, w') \<Rightarrow> (Inr (acc @ concat ts), w'))"
  by (induction servers arbitrary: acc w)
     (auto simp: resource_pairs_def read_server_resources_acc read_each_append split: prod.splits sum.splits)

subsection \<open>Sample clients\<close>

definition note_resource :: jsval where
  "note_resource = JObj [(''uri'', JStr ''note://1'')]"

definition text_client :: "jsval \<Rightarrow> unit mcp_client" where
  "text_client contents =
     \<lparr>list_resources = (\<lambda>w. (Inr [(''notes'', [note_resource])], w)),
      read_resource = (\<lambda>srv uri w. (Inr contents, w)),
      get_tools = (\<lambda>w. (Inr [], w)),
      close_client = (\<lambda>w. (Inr (), w))\<rparr>"

subsection \<open>Properties of the resource collection and of the script\<close>

text \<open>
  C16. When every resource is readable and reading has no effect, the system context is
  the concatenation, in server order and then resource order, of the \<open>text\<close> of the first
  content item of every resource.
\<close>

theorem collect_resource_content_concat:
  assumes "list_resources c w = (Inr servers, w0)"
    and "\<And>srv uri w. read_resource c srv uri w = (Inr (rd srv uri), w)"
    and "\<forall>(srv, rs) \<in> set servers. \<forall>r \<in> set rs. readable rd srv r"
  shows "collect_resource_content c w =
           (Inr (concat (map (\<lambda>(srv, rs). concat (map (resource_text rd srv) rs)) servers)), w0)"
  using assms by (simp add: collect_resource_content_def read_all_resources_pure)

theorem collect_resource_content_concat_witness:
  "collect_resource_content (text_client (JArr [JObj [(''text'', JStr ''hello'')]])) () = (Inr ''hello'', ())"
proof -
  have h: "list_resources (text_client (JArr [JObj [(''text'', JStr ''hello'')]])) () = (Inr [(''notes'', [note_resource])], ())"
    "\<And>srv uri w. read_resource (text_client (JArr [JObj [(''text'', JStr ''hello'')]])) srv uri w
        = (Inr ((\<lambda>srv uri. JArr [JObj [(''text'', JStr ''hello'')]]) srv uri), w)"
    "\<forall>(srv, rs) \<in> set [(''notes'', [note_resource])]. \<forall>r \<in> set rs.
        readable (\<lambda>srv uri. JArr [JObj [(''text'', JStr ''hello'')]]) srv r"
    by (simp_all add: text_client_def readable_def note_resource_def)
  show ?thesis
    using collect_resource_content_concat [OF h] by (simp add: resource_text_def)
qed



text \<open>
  C19. The client is closed exactly when the resources were collected, the tools fetched
  and the loop returned normally: every failure before that point leaves the MCP servers
  (child processes and an HTTP session) open.
\<close>

theorem mcp_main_close_called_iff:
  "close_called (mcp_main ch c bind_tools query w) \<longleftrightarrow>
     (\<exists>rc w1 tools w2 v s. collect_resource_content c w = (Inr rc, w1) \<and> get_tools c w1 = (Inr tools, w2) \<and>
        runWithTools ch (bind_tools tools) tools rc query default_max_iterations w2 = (Ok v, s))"
  by (auto simp: mcp_main_def split: prod.splits sum.splits outcome.splits)

text \<open>
  C40. The prefetch, two nested loops that append to \<open>resourceContent\<close> as they go, is
  equivalent to the reference that first lists the resources, then reads the
  (server, resource) pairs one by one in \<open>Object.entries\<close> order, stops at the first
  exception, and concatenates the texts it read: the same text, the same exception and
  the same effects on the world.
\<close>

theorem collect_resource_content_equiv:
  "collect_resource_content c w =
     (case list_resources c w of
        (Inl e, w') \<Rightarrow> (Inl e, w')
      | (Inr res, w') \<Rightarrow>
          (case read_each c (resource_pairs res) w' of
             (Inl e, w'') \<Rightarrow> (Inl e, w'')
           | (Inr ts, w'') \<Rightarrow> (Inr (concat ts), w'')))"
  by (simp add: collect_resource_content_def read_all_resources_acc split: prod.splits sum.splits)

end
