(* ===== verification/RAG_Pipeline.thy ===== *)
theory RAG_Pipeline
  imports JS_Values
begin

text \<open>
  The question loop of src/rag-test/src/loader-and-splitter.mjs (lines 57--107). For each
  question the retriever returns documents (\<open>k = 2\<close>), the vector store returns scored
  documents, every retrieved document is labelled with the score of the first scored
  document of equal page content (\<open>(1 - score).toFixed(4)\<close>, or \<open>N/A\<close>), the
  documents are numbered from 1 and joined into a context, and the model is asked a prompt
  built around the context and the question. Loading, splitting, embedding and the vector
  store are libraries: the retriever, the scored search and the model are parameters that
  act on an external world and may throw. What the loop prints (lines 63--106) goes to
  the console transcript of the script state. The Chinese text of the prompt and of the
  printed labels is kept as its UTF-8 bytes.
\<close>

record document =
  page_content :: string
  metadata :: jsval

text \<open>
  The services the loop calls: \<open>retriever.invoke(q)\<close> (with the \<open>k\<close> it was built
  with), \<open>vectorStore.similaritySearchVectorWithScore(q, k)\<close>, and \<open>model.invoke(p)\<close>
  followed by the read of \<open>.content\<close> on the answer.
\<close>

record 'w rag_services =
  retrieve :: "nat \<Rightarrow> string \<Rightarrow> 'w \<Rightarrow> (js_error + document list) \<times> 'w"
  search_with_score :: "string \<Rightarrow> nat \<Rightarrow> 'w \<Rightarrow> (js_error + (document \<times> rat) list) \<times> 'w"
  ask_model :: "string \<Rightarrow> 'w \<Rightarrow> (js_error + jsval) \<times> 'w"

text \<open>\<open>asRetriever({ k: 2 })\<close> (line 57) and the \<open>2\<close> of line 71.\<close>

definition retrieval_k :: nat where
  "retrieval_k = 2"

subsection \<open>Literal text of the prompt\<close>

text \<open>The word in the fragment label of line 91.\<close>

definition fragment_word :: string where
  "fragment_word =
     [CHR 0xE7, CHR 0x89, CHR 0x87, CHR 0xE6, CHR 0xAE, CHR 0xB5]"

text \<open>The separator of line 92.\<close>

definition fragment_separator :: string where
  "fragment_separator =
     [CHR 0x0A, CHR 0x0A, CHR 0xE2, CHR 0x94, CHR 0x81, CHR 0xE2, CHR 0x94, CHR 0x81,
      CHR 0xE2, CHR 0x94, CHR 0x81, CHR 0xE2, CHR 0x94, CHR 0x81, CHR 0xE2, CHR 0x94,
      CHR 0x81, CHR 0x0A, CHR 0x0A]"

text \<open>The prompt text before the context, lines 94--96.\<close>

definition prompt_head :: string where
  "prompt_head =
     [CHR 0xE4, CHR 0xBD, CHR 0xA0, CHR 0xE6, CHR 0x98, CHR 0xAF, CHR 0xE4, CHR 0xB8,
      CHR 0x80, CHR 0xE4, CHR 0xB8, CHR 0xAA, CHR 0xE6, CHR 0x96, CHR 0x87, CHR 0xE7,
      CHR 0xAB, CHR 0xA0, CHR 0xE8, CHR 0xBE, CHR 0x85, CHR 0xE5, CHR 0x8A, CHR 0xA9,
      CHR 0xE9, CHR 0x98, CHR 0x85, CHR 0xE8, CHR 0xAF, CHR 0xBB, CHR 0xE5, CHR 0x8A,
      CHR 0xA9, CHR 0xE6, CHR 0x89, CHR 0x8B, CHR 0xEF, CHR 0xBC, CHR 0x8C, CHR 0xE6,
      CHR 0xA0, CHR 0xB9, CHR 0xE6, CHR 0x8D, CHR 0xAE, CHR 0xE6, CHR 0x96, CHR 0x87,
      CHR 0xE7, CHR 0xAB, CHR 0xA0, CHR 0xE5, CHR 0x86, CHR 0x85, CHR 0xE5, CHR 0xAE,
      CHR 0xB9, CHR 0xE6, CHR 0x9D, CHR 0xA5, CHR 0xE8, CHR 0xA7, CHR 0xA3, CHR 0xE7,
      CHR 0xAD, CHR 0x94, CHR 0xEF, CHR 0xBC, CHR 0x9A, CHR 0x0A, CHR 0x0A, CHR 0xE6,
      CHR 0x96, CHR 0x87, CHR 0xE7, CHR 0xAB, CHR 0xA0, CHR 0xE5, CHR 0x86, CHR 0x85,
      CHR 0xE5, CHR 0xAE, CHR 0xB9, CHR 0xEF, CHR 0xBC, CHR 0x9A, CHR 0x0A]"

text \<open>The prompt text between context and question, lines 98--99 (with a no-break space after the colon).\<close>

definition prompt_question :: string where
  "prompt_question =
     [CHR 0x0A, CHR 0x0A, CHR 0xE9, CHR 0x97, CHR 0xAE, CHR 0xE9, CHR 0xA2, CHR 0x98,
      CHR '':'', CHR 0xC2, CHR 0xA0]"

text \<open>The prompt text after the question, lines 100--101.\<close>

definition prompt_tail :: string where
  "prompt_tail =
     [CHR 0x0A, CHR 0x0A, CHR 0xE4, CHR 0xBD, CHR 0xA0, CHR 0xE7, CHR 0x9A, CHR 0x84,
      CHR 0xE5, CHR 0x9B, CHR 0x9E, CHR 0xE7, CHR 0xAD, CHR 0x94, CHR '':'']"

text \<open>The one question of line 59.\<close>

definition rag_question :: string where
  "rag_question =
     [CHR 0xE7, CHR 0x88, CHR 0xB6, CHR 0xE4, CHR 0xBA, CHR 0xB2, CHR 0xE7, CHR 0x9A,
      CHR 0x84, CHR 0xE5, CHR 0x8E, CHR 0xBB, CHR 0xE4, CHR 0xB8, CHR 0x96, CHR 0xE5,
      CHR 0xAF, CHR 0xB9, CHR 0xE4, CHR 0xBD, CHR 0x9C, CHR 0xE8, CHR 0x80, CHR 0x85,
      CHR 0xE7, CHR 0x9A, CHR 0x84, CHR 0xE4, CHR 0xBA, CHR 0xBA, CHR 0xE7, CHR 0x94,
      CHR 0x9F, CHR 0xE6, CHR 0x80, CHR 0x81, CHR 0xE5, CHR 0xBA, CHR 0xA6, CHR 0xE4,
      CHR 0xBA, CHR 0xA7, CHR 0xE7, CHR 0x94, CHR 0x9F, CHR 0xE4, CHR 0xBA, CHR 0x86,
      CHR 0xE6, CHR 0x80, CHR 0x8E, CHR 0xE6, CHR 0xA0, CHR 0xB7, CHR 0xE7, CHR 0x9A,
      CHR 0x84, CHR 0xE6, CHR 0xA0, CHR 0xB9, CHR 0xE6, CHR 0x9C, CHR 0xAC, CHR 0xE6,
      CHR 0x80, CHR 0xA7, CHR 0xE9, CHR 0x80, CHR 0x86, CHR 0xE8, CHR 0xBD, CHR 0xAC,
      CHR 0xEF, CHR 0xBC, CHR 0x9F]"

subsection \<open>Scores and labels (lines 75--88)\<close>

text \<open>\<open>scoredResults.find(([scoredDoc]) => scoredDoc.pageContent === doc.pageContent)\<close>.\<close>

definition find_score :: "(document \<times> rat) list \<Rightarrow> document \<Rightarrow> rat option" where
  "find_score scored d = map_option snd (find (\<lambda>(sd, s). page_content sd = page_content d) scored)"

text \<open>Line 81: \<open>score !== null ? (1 - score).toFixed(4) : "N/A"\<close>.\<close>

definition similarity_label :: "(document \<times> rat) list \<Rightarrow> document \<Rightarrow> string" where
  "similarity_label scored d =
     (case find_score scored d of None \<Rightarrow> ''N/A'' | Some s \<Rightarrow> to_fixed 4 (1 - s))"

text \<open>Line 85: \<open>doc.metadata && Object.keys(doc.metadata).length > 0\<close>.\<close>

definition shows_metadata :: "document \<Rightarrow> bool" where
  "shows_metadata d \<longleftrightarrow> truthy (metadata d) \<and> js_keys (metadata d) \<noteq> []"

subsection \<open>Context and prompt (lines 90--101)\<close>

definition fragment :: "nat \<Rightarrow> document \<Rightarrow> string" where
  "fragment i d = ''['' @ fragment_word @ string_of_nat (i + 1) @ '']'' @ newline @ page_content d"

definition rag_context :: "document list \<Rightarrow> string" where
  "rag_context docs = join_with fragment_separator (map (\<lambda>(i, d). fragment i d) (enumerate 0 docs))"

definition rag_prompt :: "string \<Rightarrow> string \<Rightarrow> string" where
  "rag_prompt ctx question = prompt_head @ ctx @ prompt_question @ question @ prompt_tail"

subsection \<open>What the loop prints (lines 63--106)\<close>

text \<open>\<open>"=".repeat(80)\<close>, lines 63 and 65.\<close>

definition rule_line :: string where
  "rule_line = replicate 80 (CHR ''='')"

text \<open>Line 64 before the question: the word for ``question'', a colon and a space.\<close>

definition question_label :: string where
  "question_label =
     [CHR 0xE9, CHR 0x97, CHR 0xAE, CHR 0xE9, CHR 0xA2, CHR 0x98, CHR 0x3A, CHR 0x20]"

text \<open>Line 74, with its leading line break.\<close>

definition scores_heading :: string where
  "scores_heading =
     [CHR 0x0A, CHR 0xE3, CHR 0x80, CHR 0x90, CHR 0xE6, CHR 0xA3, CHR 0x80, CHR 0xE7,
      CHR 0xB4, CHR 0xA2, CHR 0xE5, CHR 0x88, CHR 0xB0, CHR 0xE7, CHR 0x9A, CHR 0x84,
      CHR 0xE6, CHR 0x96, CHR 0x87, CHR 0xE6, CHR 0xA1, CHR 0xA3, CHR 0xE5, CHR 0x92,
      CHR 0x8C, CHR 0xE7, CHR 0x9B, CHR 0xB8, CHR 0xE4, CHR 0xBC, CHR 0xBC, CHR 0xE5,
      CHR 0xBA, CHR 0xA6, CHR 0xE8, CHR 0xAF, CHR 0x84, CHR 0xE5, CHR 0x88, CHR 0x86,
      CHR 0xE3, CHR 0x80, CHR 0x91]"

text \<open>Line 83 before the document number.\<close>

definition doc_label_head :: string where
  "doc_label_head =
     [CHR 0x0A, CHR 0x5B, CHR 0xE6, CHR 0x96, CHR 0x87, CHR 0xE6, CHR 0xA1, CHR 0xA3,
      CHR 0x20]"

text \<open>Line 83 between the document number and the similarity.\<close>

definition doc_label_tail :: string where
  "doc_label_tail =
     [CHR 0x5D, CHR 0x20, CHR 0xE7, CHR 0x9B, CHR 0xB8, CHR 0xE4, CHR 0xBC, CHR 0xBC,
      CHR 0xE5, CHR 0xBA, CHR 0xA6, CHR 0x3A, CHR 0x20]"

text \<open>Line 84 before the page content (a full-width colon).\<close>

definition content_label :: string where
  "content_label =
     [CHR 0xE5, CHR 0x86, CHR 0x85, CHR 0xE5, CHR 0xAE, CHR 0xB9, CHR 0xEF, CHR 0xBC,
      CHR 0x9A]"

text \<open>The first argument of line 86.\<close>

definition metadata_label :: string where
  "metadata_label =
     [CHR 0xE5, CHR 0x85, CHR 0x83, CHR 0xE6, CHR 0x95, CHR 0xB0, CHR 0xE6, CHR 0x8D,
      CHR 0xAE, CHR 0x3A]"

text \<open>Line 103, with its leading line break.\<close>

definition answer_heading :: string where
  "answer_heading =
     [CHR 0x0A, CHR 0xE3, CHR 0x80, CHR 0x90, CHR 0x41, CHR 0x49, CHR 0x20, CHR 0xE5,
      CHR 0x9B, CHR 0x9E, CHR 0xE7, CHR 0xAD, CHR 0x94, CHR 0xE3, CHR 0x80, CHR 0x91]"

text \<open>Lines 63--65: the question between two rules.\<close>

definition question_banner :: "string \<Rightarrow> jsval list list" where
  "question_banner q = [[JStr rule_line], [JStr (question_label @ q)], [JStr rule_line]]"

text \<open>
  Lines 83--87, the \<open>forEach\<close> callback for the document at index \<open>i\<close>: its number and
  similarity, its content, and its metadata when there are any.
\<close>

definition doc_lines :: "(document \<times> rat) list \<Rightarrow> nat \<times> document \<Rightarrow> jsval list list" where
  "doc_lines scored = (\<lambda>(i, d).
     [[JStr (doc_label_head @ string_of_nat (i + 1) @ doc_label_tail @ similarity_label scored d)],
      [JStr (content_label @ page_content d)]] @
     (if shows_metadata d then [[JStr metadata_label, metadata d]] else []))"

text \<open>Lines 74--88: the heading, then \<open>retrievedDocs.forEach(...)\<close>.\<close>

definition retrieval_lines :: "(document \<times> rat) list \<Rightarrow> document list \<Rightarrow> jsval list list" where
  "retrieval_lines scored docs = [JStr scores_heading] # concat (map (doc_lines scored) (enumerate 0 docs))"

subsection \<open>One question, and the loop over the questions\<close>

text \<open>What one round computes and prints: the labels, which metadata are shown, the
  context, the prompt and the model's answer.\<close>

record qa_report =
  report_similarities :: "string list"
  report_metadata_shown :: "bool list"
  report_context :: string
  report_prompt :: string
  report_answer :: jsval

definition answer_question :: "'w rag_services \<Rightarrow> string \<Rightarrow> 'w io \<Rightarrow> (js_error + qa_report) \<times> 'w io" where
  "answer_question svc q s =
     (case io_call (retrieve svc retrieval_k q) (console_logs (question_banner q) s) of
        (Inl e, s1) \<Rightarrow> (Inl e, s1)
      | (Inr docs, s1) \<Rightarrow>
          (case io_call (search_with_score svc q retrieval_k) s1 of
             (Inl e, s2) \<Rightarrow> (Inl e, s2)
           | (Inr scored, s2) \<Rightarrow>
               (let ctx = rag_context docs; p = rag_prompt ctx q;
                    s3 = console_logs (retrieval_lines scored docs @ [[JStr answer_heading]]) s2 in
                case io_call (ask_model svc p) s3 of
                  (Inl e, s4) \<Rightarrow> (Inl e, s4)
                | (Inr a, s4) \<Rightarrow>
                    (Inr \<lparr>report_similarities = map (similarity_label scored) docs,
                          report_metadata_shown = map shows_metadata docs,
                          report_context = ctx, report_prompt = p, report_answer = a\<rparr>,
                     console_logs [[a], [JStr newline]] s4))))"

fun rag_loop :: "'w rag_services \<Rightarrow> string list \<Rightarrow> 'w io \<Rightarrow> (js_error + qa_report list) \<times> 'w io" where
  "rag_loop svc [] s = (Inr [], s)"
| "rag_loop svc (q # qs) s =
     (case answer_question svc q s of
        (Inl e, s') \<Rightarrow> (Inl e, s')
      | (Inr r, s') \<Rightarrow>
          (case rag_loop svc qs s' of
             (Inl e, s'') \<Rightarrow> (Inl e, s'')
           | (Inr rs, s'') \<Rightarrow> (Inr (r # rs), s'')))"

definition rag_questions :: "string list" where
  "rag_questions = [rag_question]"

definition rag_main :: "'w rag_services \<Rightarrow> 'w io \<Rightarrow> (js_error + qa_report list) \<times> 'w io" where
  "rag_main svc s = rag_loop svc rag_questions s"

subsection \<open>Lemmas\<close>

lemma find_score_append:
  "find_score (xs @ ys) d = (case find_score xs d of None \<Rightarrow> find_score ys d | Some s \<Rightarrow> Some s)"
  by (simp add: find_score_def find_append split: option.splits)

lemma find_score_None: "find_score scored d = None \<longleftrightarrow> (\<forall>(e, t) \<in> set scored. page_content e \<noteq> page_content d)"
  by (auto simp: find_score_def find_None_iff)

lemma rag_loop_append:
  "rag_loop svc (xs @ ys) w =
     (case rag_loop svc xs w of
        (Inl e, w') \<Rightarrow> (Inl e, w')
      | (Inr rs, w') \<Rightarrow>
          (case rag_loop svc ys w' of (Inl e, w'') \<Rightarrow> (Inl e, w'') | (Inr rs', w'') \<Rightarrow> (Inr (rs @ rs'), w'')))"
  by (induction xs arbitrary: w) (auto split: prod.splits sum.splits)

text \<open>
  Over a whole retrieval: when the scored documents have distinct contents, each of them is
  labelled with its own score, in order.
\<close>

lemma find_score_distinct:
  assumes "distinct (map (page_content \<circ> fst) scored)" "(d, s) \<in> set scored"
  shows "find_score scored d = Some s"
  using assms
proof (induction scored)
  case Nil
  then show ?case by simp
next
  case (Cons x xs)
  obtain d' s' where x: "x = (d', s')" by fastforce
  show ?case
  proof (cases "(d, s) = x")
    case True
    then show ?thesis by (auto simp: find_score_def)
  next
    case False
    with Cons.prems x have mem: "(d, s) \<in> set xs" by auto
    with Cons.prems x have "page_content d' \<noteq> page_content d" by force
    with Cons.IH mem Cons.prems x show ?thesis by (simp add: find_score_def)
  qed
qed

lemma similarity_labels_own_scores:
  "distinct (map (page_content \<circ> fst) scored) \<Longrightarrow>
   map (similarity_label scored) (map fst scored) = map (\<lambda>(d, s). to_fixed 4 (1 - s)) scored"
  by (auto simp: similarity_label_def find_score_distinct)

subsection \<open>Sample services\<close>

definition doc :: "string \<Rightarrow> document" where
  "doc s = \<lparr>page_content = s, metadata = JObj []\<rparr>"

definition fixed_services :: "document list \<Rightarrow> (document \<times> rat) list \<Rightarrow> jsval \<Rightarrow> unit rag_services" where
  "fixed_services docs scored a =
     \<lparr>retrieve = (\<lambda>k q w. (Inr docs, w)), search_with_score = (\<lambda>q k w. (Inr scored, w)),
      ask_model = (\<lambda>p w. (Inr a, w))\<rparr>"

definition offline_services :: "unit rag_services" where
  "offline_services =
     \<lparr>retrieve = (\<lambda>k q w. (Inl (Thrown (JStr ''ECONNREFUSED'')), w)), search_with_score = (\<lambda>q k w. (Inr [], w)),
      ask_model = (\<lambda>p w. (Inr JUndef, w))\<rparr>"

subsection \<open>Properties of the question loop\<close>

text \<open>
  C23. A retrieved document gets the score of the first scored document with the same
  page content, whatever their metadata: two different documents with equal text cannot
  be told apart.
\<close>

theorem similarity_first_match:
  assumes "\<forall>(e, t) \<in> set before. page_content e \<noteq> page_content d" "page_content d' = page_content d"
  shows "similarity_label (before @ (d', s) # after) d = to_fixed 4 (1 - s)"
proof -
  have "find_score before d = None" using assms(1) by (simp add: find_score_None)
  moreover have "find_score ((d', s) # after) d = Some s" using assms(2) by (simp add: find_score_def)
  ultimately show ?thesis by (simp add: similarity_label_def find_score_append)
qed

theorem similarity_first_match_witness:
  "similarity_label [(doc ''other'', 1 / 2), (doc ''text'', 1 / 5), (doc ''text'', 3 / 5)]
     \<lparr>page_content = ''text'', metadata = JObj [(''source'', JStr ''b'')]\<rparr> = to_fixed 4 (1 - 1 / 5)"
proof -
  have h: "\<forall>(e, t) \<in> set [(doc ''other'', 1 / 2 :: rat)].
             page_content e \<noteq> page_content \<lparr>page_content = ''text'', metadata = JObj [(''source'', JStr ''b'')]\<rparr>"
    "page_content (doc ''text'') = page_content \<lparr>page_content = ''text'', metadata = JObj [(''source'', JStr ''b'')]\<rparr>"
    by (simp_all add: doc_def)
  show ?thesis using similarity_first_match [OF h, of "1 / 5" "[(doc ''text'', 3 / 5)]"] by simp
qed

text \<open>C24. A retrieved document with no scored document of equal content is labelled \<open>N/A\<close>.\<close>

theorem similarity_not_found:
  assumes "\<forall>(e, t) \<in> set scored. page_content e \<noteq> page_content d"
  shows "similarity_label scored d = ''N/A''"
  using assms by (simp add: similarity_label_def find_score_None [THEN iffD2])

theorem similarity_not_found_witness:
  "similarity_label [(doc ''a'', 1 / 3)] (doc ''b'') = ''N/A''"
proof -
  have h: "\<forall>(e, t) \<in> set [(doc ''a'', 1 / 3 :: rat)]. page_content e \<noteq> page_content (doc ''b'')"
    by (simp add: doc_def)
  show ?thesis using similarity_not_found [OF h] .
qed

text \<open>
  C25. A printed similarity reads back as a decimal with four places within \<open>0.00005\<close>
  of \<open>1 - score\<close>.
\<close>

theorem similarity_label_value:
  assumes "find_score scored d = Some s"
  shows "\<exists>v. decimal_value 4 (similarity_label scored d) = Some v \<and> \<bar>v - (1 - s)\<bar> \<le> 1 / 20000"
  using assms to_fixed_decimal_value [of 4 "1 - s"] by (simp add: similarity_label_def)

theorem similarity_label_value_witness:
  "\<exists>v. decimal_value 4 (similarity_label [(doc ''a'', 1 / 3)] (doc ''a'')) = Some v \<and> \<bar>v - (1 - 1 / 3)\<bar> \<le> 1 / 20000"
proof -
  have h: "find_score [(doc ''a'', 1 / 3)] (doc ''a'') = Some (1 / 3)" by (simp add: find_score_def)
  show ?thesis using similarity_label_value [OF h] .
qed

text \<open>
  C26. The questions are answered in order and an exception while answering one ends
  the loop: the questions after it are never asked.
\<close>

theorem rag_loop_abort:
  assumes "rag_loop svc before w = (Inr rs, w1)" "answer_question svc q w1 = (Inl e, w2)"
  shows "rag_loop svc (before @ q # after) w = (Inl e, w2)"
  using assms by (simp add: rag_loop_append)

theorem rag_loop_abort_witness:
  "rag_loop offline_services ([] @ rag_question # [''second question'']) (script_start ()) =
     (Inl (Thrown (JStr ''ECONNREFUSED'')), console_logs (question_banner rag_question) (script_start ()))"
proof -
  have h: "rag_loop offline_services [] (script_start ()) = (Inr [], script_start ())"
    "answer_question offline_services rag_question (script_start ()) =
       (Inl (Thrown (JStr ''ECONNREFUSED'')), console_logs (question_banner rag_question) (script_start ()))"
    by (simp_all add: answer_question_def offline_services_def io_simps script_start_def)
  show ?thesis using rag_loop_abort [OF h] .
qed

text \<open>
  C9. The listing is printed before the model is asked: when the model rejects the prompt,
  the console already holds the question banner, the similarity and content of every
  retrieved document and the heading of the answer, and nothing after it; the exception
  ends the loop, so the questions after it are neither printed nor asked.
\<close>

theorem rag_loop_model_error:
  assumes "retrieve svc retrieval_k q (io_world s) = (Inr docs, w1)"
    and "search_with_score svc q retrieval_k w1 = (Inr scored, w2)"
    and "ask_model svc (rag_prompt (rag_context docs) q) w2 = (Inl e, w3)"
  shows "rag_loop svc (q # qs) s =
           (Inl e, s\<lparr>io_world := w3,
                     io_out := io_out s @ map (Pair Stdout)
                       (question_banner q @ retrieval_lines scored docs @ [[JStr answer_heading]])\<rparr>)"
  using assms by (simp add: answer_question_def Let_def io_simps)

definition failing_model_services :: "document list \<Rightarrow> (document \<times> rat) list \<Rightarrow> unit rag_services" where
  "failing_model_services docs scored =
     \<lparr>retrieve = (\<lambda>k q w. (Inr docs, w)), search_with_score = (\<lambda>q k w. (Inr scored, w)),
      ask_model = (\<lambda>p w. (Inl (Thrown (JStr ''429 Too Many Requests'')), w))\<rparr>"

theorem rag_loop_model_error_witness:
  "rag_loop (failing_model_services [doc ''a''] [(doc ''a'', 1 / 4)]) [rag_question, ''second question''] (script_start ()) =
     (Inl (Thrown (JStr ''429 Too Many Requests'')),
      \<lparr>io_world = (),
       io_out = map (Pair Stdout) (question_banner rag_question @
         [[JStr scores_heading],
          [JStr (doc_label_head @ ''1'' @ doc_label_tail @ similarity_label [(doc ''a'', 1 / 4)] (doc ''a''))],
          [JStr (content_label @ ''a'')],
          [JStr answer_heading]])\<rparr>)"
proof -
  let ?svc = "failing_model_services [doc ''a''] [(doc ''a'', 1 / 4)]"
  have h: "retrieve ?svc retrieval_k rag_question (io_world (script_start ())) = (Inr [doc ''a''], ())"
    "search_with_score ?svc rag_question retrieval_k () = (Inr [(doc ''a'', 1 / 4)], ())"
    "ask_model ?svc (rag_prompt (rag_context [doc ''a'']) rag_question) () =
       (Inl (Thrown (JStr ''429 Too Many Requests'')), ())"
    by (simp_all add: failing_model_services_def)
  have "retrieval_lines [(doc ''a'', 1 / 4)] [doc ''a''] =
          [[JStr scores_heading],
           [JStr (doc_label_head @ ''1'' @ doc_label_tail @ similarity_label [(doc ''a'', 1 / 4)] (doc ''a''))],
           [JStr (content_label @ ''a'')]]"
    by (simp add: retrieval_lines_def doc_lines_def shows_metadata_def doc_def string_of_nat.simps digit_char_def)
  then show ?thesis using rag_loop_model_error [OF h] by (simp add: script_start_def)
qed

text \<open>
  The context numbers the retrieved documents from 1, in retrieval order, each label on its
  own line before the page content, and separates them with the rule line.
\<close>

lemma rag_context_two_docs:
  "rag_context [d1, d2] =
     ''['' @ fragment_word @ ''1]'' @ newline @ page_content d1 @ fragment_separator @
     ''['' @ fragment_word @ ''2]'' @ newline @ page_content d2"
  by (simp add: rag_context_def fragment_def string_of_nat.simps digit_char_def)

text \<open>
  C28. The script asks its one question, and when the services answer it prints, in this
  order: the question between two rules, the heading of the retrieval, for each retrieved
  document its number and similarity, its content and (when it has any) its metadata, the
  heading of the answer, the model's answer and a blank line. The model is sent the prompt
  built from the retrieved documents' context and the question, and the report holds one
  label per retrieved document. The library calls leave the console alone.
\<close>

theorem rag_main_answers:
  assumes "retrieve svc retrieval_k rag_question (io_world s) = (Inr docs, w1)"
    and "search_with_score svc rag_question retrieval_k w1 = (Inr scored, w2)"
    and "ask_model svc (rag_prompt (rag_context docs) rag_question) w2 = (Inr a, w3)"
  shows "rag_main svc s =
           (Inr [\<lparr>report_similarities = map (similarity_label scored) docs,
                  report_metadata_shown = map shows_metadata docs,
                  report_context = rag_context docs,
                  report_prompt = rag_prompt (rag_context docs) rag_question,
                  report_answer = a\<rparr>],
            s\<lparr>io_world := w3,
              io_out := io_out s @ map (Pair Stdout)
                (question_banner rag_question @ retrieval_lines scored docs @
                 [[JStr answer_heading], [a], [JStr newline]])\<rparr>)"
  using assms by (simp add: rag_main_def rag_questions_def answer_question_def Let_def io_simps)

theorem rag_main_answers_witness:
  "rag_main (fixed_services [doc ''a''] [(doc ''a'', 1 / 4)] (JStr ''ok'')) (script_start ()) =
     (Inr [\<lparr>report_similarities = [similarity_label [(doc ''a'', 1 / 4)] (doc ''a'')],
            report_metadata_shown = [shows_metadata (doc ''a'')],
            report_context = rag_context [doc ''a''],
            report_prompt = rag_prompt (rag_context [doc ''a'']) rag_question,
            report_answer = JStr ''ok''\<rparr>],
      \<lparr>io_world = (),
       io_out = map (Pair Stdout) (question_banner rag_question @
         [[JStr scores_heading],
          [JStr (doc_label_head @ ''1'' @ doc_label_tail @ similarity_label [(doc ''a'', 1 / 4)] (doc ''a''))],
          [JStr (content_label @ ''a'')],
          [JStr answer_heading], [JStr ''ok''], [JStr newline]])\<rparr>)"
proof -
  let ?svc = "fixed_services [doc ''a''] [(doc ''a'', 1 / 4)] (JStr ''ok'')"
  have h: "retrieve ?svc retrieval_k rag_question (io_world (script_start ())) = (Inr [doc ''a''], ())"
    "search_with_score ?svc rag_question retrieval_k () = (Inr [(doc ''a'', 1 / 4)], ())"
    "ask_model ?svc (rag_prompt (rag_context [doc ''a'']) rag_question) () = (Inr (JStr ''ok''), ())"
    by (simp_all add: fixed_services_def)
  have "retrieval_lines [(doc ''a'', 1 / 4)] [doc ''a''] =
          [[JStr scores_heading],
           [JStr (doc_label_head @ ''1'' @ doc_label_tail @ similarity_label [(doc ''a'', 1 / 4)] (doc ''a''))],
           [JStr (content_label @ ''a'')]]"
    by (simp add: retrieval_lines_def doc_lines_def shows_metadata_def doc_def string_of_nat.simps digit_char_def)
  then show ?thesis using rag_main_answers [OF h] by (simp add: script_start_def)
qed

end
