(* ===== verification/Loop_Spec.thy ===== *)
theory Loop_Spec
  imports Agent_Loop
begin

text \<open>
  The abstract specification of the tool-calling loop, as the spec's design section states
  it: a machine with two working states, awaiting the model's response and awaiting tool
  results, and three terminal ones (an answer, an exhausted budget, an exception). A step
  is one model invocation or one requested tool call. The machine is an \<open>inductive\<close>
  relation over abstract states; its invariants are proved by rule induction, and the loop
  of \<open>Agent_Loop\<close> is shown to refine it: every run of \<open>runWithTools\<close> is a run of the
  machine that ends in a terminal state with the same result.
\<close>

datatype phase =
    AwaitingModel
  | AwaitingTools "tool_call list"
  | Answered jsval
  | Exhausted
  | Crashed js_error

record 'w spec_state =
  phase :: phase
  conv :: "message list"
  rounds :: nat
  ext :: 'w

inductive spec_step :: "'w chat_model \<Rightarrow> 'w tool list \<Rightarrow> int \<Rightarrow> 'w spec_state \<Rightarrow> 'w spec_state \<Rightarrow> bool"
  for model :: "'w chat_model" and tools :: "'w tool list" and max_iter :: int where
  answer:
    "int n < max_iter \<Longrightarrow> model h w = (Inr r, w') \<Longrightarrow> no_tool_calls r \<Longrightarrow>
     spec_step model tools max_iter
       \<lparr>phase = AwaitingModel, conv = h, rounds = n, ext = w\<rparr>
       \<lparr>phase = Answered (ai_content r), conv = h @ [AIMessage r], rounds = Suc n, ext = w'\<rparr>"
| request:
    "int n < max_iter \<Longrightarrow> model h w = (Inr r, w') \<Longrightarrow> \<not> no_tool_calls r \<Longrightarrow>
     spec_step model tools max_iter
       \<lparr>phase = AwaitingModel, conv = h, rounds = n, ext = w\<rparr>
       \<lparr>phase = AwaitingTools (requested_calls r), conv = h @ [AIMessage r], rounds = Suc n, ext = w'\<rparr>"
| model_fails:
    "int n < max_iter \<Longrightarrow> model h w = (Inl e, w') \<Longrightarrow>
     spec_step model tools max_iter
       \<lparr>phase = AwaitingModel, conv = h, rounds = n, ext = w\<rparr>
       \<lparr>phase = Crashed e, conv = h, rounds = Suc n, ext = w'\<rparr>"
| exhausted:
    "\<not> int n < max_iter \<Longrightarrow>
     spec_step model tools max_iter
       \<lparr>phase = AwaitingModel, conv = h, rounds = n, ext = w\<rparr>
       \<lparr>phase = Exhausted, conv = h, rounds = n, ext = w\<rparr>"
| skip_unknown:
    "\<not> tool_known tools tc \<Longrightarrow>
     spec_step model tools max_iter
       \<lparr>phase = AwaitingTools (tc # cs), conv = h, rounds = n, ext = w\<rparr>
       \<lparr>phase = AwaitingTools cs, conv = h, rounds = n, ext = w\<rparr>"
| tool_answers:
    "find_tool tools tc = Some t \<Longrightarrow> invoke t (tc_args tc) w = (Inr res, w') \<Longrightarrow>
     normalize_result res = Inr c \<Longrightarrow>
     spec_step model tools max_iter
       \<lparr>phase = AwaitingTools (tc # cs), conv = h, rounds = n, ext = w\<rparr>
       \<lparr>phase = AwaitingTools cs, conv = h @ [ToolMessage c (tc_id tc)], rounds = n, ext = w'\<rparr>"
| tool_fails:
    "find_tool tools tc = Some t \<Longrightarrow> invoke t (tc_args tc) w = (Inl e, w') \<Longrightarrow>
     spec_step model tools max_iter
       \<lparr>phase = AwaitingTools (tc # cs), conv = h, rounds = n, ext = w\<rparr>
       \<lparr>phase = Crashed e, conv = h, rounds = n, ext = w'\<rparr>"
| conversion_fails:
    "find_tool tools tc = Some t \<Longrightarrow> invoke t (tc_args tc) w = (Inr res, w') \<Longrightarrow>
     normalize_result res = Inl e \<Longrightarrow>
     spec_step model tools max_iter
       \<lparr>phase = AwaitingTools (tc # cs), conv = h, rounds = n, ext = w\<rparr>
       \<lparr>phase = Crashed e, conv = h, rounds = n, ext = w'\<rparr>"
| tools_done:
    "spec_step model tools max_iter
       \<lparr>phase = AwaitingTools [], conv = h, rounds = n, ext = w\<rparr>
       \<lparr>phase = AwaitingModel, conv = h, rounds = n, ext = w\<rparr>"

inductive_cases spec_step_from_model: "spec_step model tools max_iter \<lparr>phase = AwaitingModel, conv = h, rounds = n, ext = w\<rparr> t"
inductive_cases spec_step_from_tools: "spec_step model tools max_iter \<lparr>phase = AwaitingTools cs, conv = h, rounds = n, ext = w\<rparr> t"

definition spec_init :: "string \<Rightarrow> string \<Rightarrow> 'w \<Rightarrow> 'w spec_state" where
  "spec_init rc q w = \<lparr>phase = AwaitingModel, conv = init_history rc q, rounds = 0, ext = w\<rparr>"

fun terminal :: "phase \<Rightarrow> bool" where
  "terminal (Answered v) = True"
| "terminal Exhausted = True"
| "terminal (Crashed e) = True"
| "terminal _ = False"

text \<open>What the function returns in a terminal state.\<close>

fun spec_result :: "phase \<Rightarrow> message list \<Rightarrow> jsval outcome" where
  "spec_result (Answered v) h = Ok v"
| "spec_result (Crashed e) h = Exc e"
| "spec_result _ h = last_content h"

subsection \<open>The history's answers to tool calls\<close>

text \<open>
  \<open>pending_after p h\<close> reads the history and keeps the calls that may still be answered:
  an assistant message makes its requested calls pending; a tool message must answer one of
  the pending calls, and that call and those before it can no longer be answered; \<open>None\<close>
  when a tool message answers no pending call.
\<close>

fun pending_after :: "tool_call list \<Rightarrow> message list \<Rightarrow> tool_call list option" where
  "pending_after p [] = Some p"
| "pending_after p (AIMessage r # ms) = pending_after (requested_calls r) ms"
| "pending_after p (ToolMessage c i # ms) =
     (case dropWhile (\<lambda>tc. tc_id tc \<noteq> i) p of
        [] \<Rightarrow> None
      | tc # rest \<Rightarrow> pending_after rest ms)"
| "pending_after p (m # ms) = pending_after p ms"

definition answers_ok :: "message list \<Rightarrow> bool" where
  "answers_ok h \<longleftrightarrow> pending_after [] h \<noteq> None"

subsection \<open>The answers invariant\<close>

lemma pending_after_append:
  "pending_after p (xs @ ys) = (case pending_after p xs of None \<Rightarrow> None | Some p' \<Rightarrow> pending_after p' ys)"
proof (induction p xs rule: pending_after.induct)
  case (3 p c i ms)
  then show ?case
    by (cases "dropWhile (\<lambda>tc. tc_id tc \<noteq> i) p") (simp_all del: dropWhile_eq_Nil_conv)
qed simp_all

lemma pending_after_answer:
  "pending_after p [AIMessage r] = Some (requested_calls r)"
  by simp

text \<open>
  Answering a call that is still pending: the search for its id may stop at an earlier
  pending call with the same id, but the calls after it stay pending either way.
\<close>

lemma dropWhile_pending:
  assumes "suffix (tc # cs) p"
  shows "\<exists>x rest. dropWhile (\<lambda>y. tc_id y \<noteq> tc_id tc) p = x # rest \<and> suffix cs rest"
  using assms
proof (induction p)
  case Nil
  then show ?case by simp
next
  case (Cons y ys)
  show ?case
  proof (cases "tc_id y = tc_id tc")
    case True
    from Cons.prems have "tc # cs = y # ys \<or> suffix (tc # cs) ys" by (simp add: suffix_Cons)
    then have "suffix cs ys" by (auto dest: suffix_ConsD)
    with True show ?thesis by simp
  next
    case False
    then have "tc # cs \<noteq> y # ys" by auto
    with Cons.prems have "suffix (tc # cs) ys" by (auto simp: suffix_Cons)
    with Cons.IH False show ?thesis by simp
  qed
qed

definition spec_inv :: "'w spec_state \<Rightarrow> bool" where
  "spec_inv s \<longleftrightarrow>
     (\<exists>p. pending_after [] (conv s) = Some p \<and>
          (case phase s of AwaitingTools cs \<Rightarrow> suffix cs p | _ \<Rightarrow> True))"

lemma spec_step_inv:
  "spec_step model tools max_iter s t \<Longrightarrow> spec_inv s \<Longrightarrow> spec_inv t"
proof (induction rule: spec_step.induct)
  case (tool_answers tc t w res w' c cs h n)
  then obtain p where p: "pending_after [] h = Some p" "suffix (tc # cs) p"
    by (auto simp: spec_inv_def)
  from dropWhile_pending [OF p(2)] obtain x rest where
    "dropWhile (\<lambda>y. tc_id y \<noteq> tc_id tc) p = x # rest" "suffix cs rest"
    by blast
  with p(1) show ?case by (simp add: spec_inv_def pending_after_append)
next
  case (skip_unknown tc cs h n w)
  then show ?case by (auto simp: spec_inv_def dest: suffix_ConsD)
qed (auto simp: spec_inv_def pending_after_append)

lemma reachable_spec_inv:
  "(spec_step model tools max_iter)\<^sup>*\<^sup>* s t \<Longrightarrow> spec_inv s \<Longrightarrow> spec_inv t"
  by (induction rule: rtranclp_induct) (auto intro: spec_step_inv)

lemma spec_inv_init: "spec_inv (spec_init rc q w)"
  by (simp add: spec_inv_def spec_init_def init_history_def)

subsection \<open>Refinement: the loop is a run of the machine\<close>

text \<open>The abstract state of a loop state, given the phase and the number of rounds.\<close>

definition abs_of :: "phase \<Rightarrow> nat \<Rightarrow> 'w loop_state \<Rightarrow> 'w spec_state" where
  "abs_of ph n s = \<lparr>phase = ph, conv = history s, rounds = n, ext = world s\<rparr>"

lemma run_tool_call_refines:
  assumes "run_tool_call tools tc s = (r, s')"
  shows "(spec_step model tools mi)\<^sup>*\<^sup>* (abs_of (AwaitingTools (tc # cs)) n s)
           (abs_of (case r of None \<Rightarrow> AwaitingTools cs | Some e \<Rightarrow> Crashed e) n s')"
proof (cases "find_tool tools tc")
  case None
  then have unk: "\<not> tool_known tools tc" by (simp add: find_tool_None_iff)
  with assms have "r = None" "s' = s" by (simp_all add: run_tool_call_unknown)
  with unk show ?thesis
    by (simp add: abs_of_def) (intro r_into_rtranclp spec_step.skip_unknown)
next
  case (Some t)
  obtain res w where inv: "invoke t (tc_args tc) (world s) = (res, w)" by fastforce
  show ?thesis
  proof (cases res)
    case (Inl e)
    with assms Some inv have "r = Some e" "history s' = history s" "world s' = w"
      by (auto simp: run_tool_call_def Let_def)
    with Some inv Inl show ?thesis
      by (simp add: abs_of_def) (intro r_into_rtranclp spec_step.tool_fails)
  next
    case (Inr v)
    show ?thesis
    proof (cases "normalize_result v")
      case (Inl e)
      with assms Some inv Inr have "r = Some e" "history s' = history s" "world s' = w"
        by (auto simp: run_tool_call_def Let_def)
      with Some inv Inr Inl show ?thesis
        by (simp add: abs_of_def) (intro r_into_rtranclp spec_step.conversion_fails)
    next
      case (Inr c)
      with assms Some inv \<open>res = Inr v\<close> have
        "r = None" "history s' = history s @ [ToolMessage c (tc_id tc)]" "world s' = w"
        by (auto simp: run_tool_call_def Let_def)
      with Some inv \<open>res = Inr v\<close> Inr show ?thesis
        by (simp add: abs_of_def) (intro r_into_rtranclp spec_step.tool_answers)
    qed
  qed
qed

lemma run_tool_calls_refines:
  "run_tool_calls tools cs s = (r, s') \<Longrightarrow>
   (spec_step model tools mi)\<^sup>*\<^sup>* (abs_of (AwaitingTools cs) n s)
     (abs_of (case r of None \<Rightarrow> AwaitingTools [] | Some e \<Rightarrow> Crashed e) n s')"
proof (induction cs arbitrary: s)
  case Nil
  then show ?case by simp
next
  case (Cons tc cs)
  obtain r1 s1 where step: "run_tool_call tools tc s = (r1, s1)" by fastforce
  note first = run_tool_call_refines [OF step, of model mi cs n]
  show ?case
  proof (cases r1)
    case None
    with Cons.prems step have "run_tool_calls tools cs s1 = (r, s')" by simp
    with first None Cons.IH show ?thesis by (auto intro: rtranclp_trans)
  next
    case (Some e)
    with Cons.prems step have "r = Some e" "s' = s1" by simp_all
    with first Some show ?thesis by simp
  qed
qed

text \<open>The phase an iteration's result leaves the machine in.\<close>

fun phase_of :: "iter_result \<Rightarrow> phase" where
  "phase_of Next = AwaitingModel"
| "phase_of (Done v) = Answered v"
| "phase_of (Failed e) = Crashed e"

lemma iteration_refines:
  assumes "int n < mi" "iteration ch model tools s = (x, s')"
  shows "(spec_step model tools mi)\<^sup>*\<^sup>* (abs_of AwaitingModel n s) (abs_of (phase_of x) (Suc n) s')"
proof (cases rule: iteration_cases [of model s])
  case (model_error e w)
  with assms(2) have "x = Failed e"
    "s' = s\<lparr>calls := calls s @ [ModelCall (history s)], world := w, out := out s @ [waiting_line ch]\<rparr>"
    by (simp_all add: iteration_model_error)
  with assms(1) model_error show ?thesis
    by (simp add: abs_of_def) (intro r_into_rtranclp spec_step.model_fails)
next
  case (answer r w)
  let ?s2 = "s\<lparr>calls := calls s @ [ModelCall (history s)], world := w, history := history s @ [AIMessage r],
               out := out s @ waiting_line ch # tool_call_notices ch (requested_calls r)\<rparr>"
  show ?thesis
  proof (cases "no_tool_calls r")
    case True
    with assms(2) answer have "x = Done (ai_content r)"
      "s' = s\<lparr>calls := calls s @ [ModelCall (history s)], world := w, history := history s @ [AIMessage r],
               out := out s @ [waiting_line ch, reply_line (ai_content r)]\<rparr>"
      by (simp_all add: iteration_final_answer)
    with assms(1) answer True show ?thesis
      by (simp add: abs_of_def) (intro r_into_rtranclp spec_step.answer)
  next
    case False
    obtain y s3 where rt: "run_tool_calls tools (requested_calls r) ?s2 = (y, s3)" by fastforce
    have req: "spec_step model tools mi (abs_of AwaitingModel n s)
                 (abs_of (AwaitingTools (requested_calls r)) (Suc n) ?s2)"
      using assms(1) answer False by (simp add: abs_of_def spec_step.request)
    note tools = run_tool_calls_refines [OF rt, of model mi "Suc n"]
    show ?thesis
    proof (cases y)
      case None
      with assms(2) answer False rt have "x = Next" "s' = s3"
        by (simp_all add: iteration_tool_round)
      moreover have "spec_step model tools mi (abs_of (AwaitingTools []) (Suc n) s3)
                       (abs_of AwaitingModel (Suc n) s3)"
        by (simp add: abs_of_def spec_step.tools_done)
      ultimately show ?thesis
        using req tools None by (auto intro: converse_rtranclp_into_rtranclp rtranclp.rtrancl_into_rtrancl)
    next
      case (Some e)
      with assms(2) answer False rt have "x = Failed e" "s' = s3"
        by (simp_all add: iteration_tool_round)
      with req tools Some show ?thesis
        by (auto intro: converse_rtranclp_into_rtranclp)
    qed
  qed
qed

text \<open>
  Every run of the outer loop from round \<open>i\<close> is a run of the machine from round \<open>i\<close>
  that ends in a terminal phase, whose result is what the loop returns.
\<close>

lemma run_loop_refines:
  "\<exists>ph k. (spec_step model tools mi)\<^sup>*\<^sup>* (abs_of AwaitingModel i s)
             (abs_of ph k (snd (run_loop ch model tools mi i s))) \<and>
           terminal ph \<and> spec_result ph (history (snd (run_loop ch model tools mi i s))) = fst (run_loop ch model tools mi i s)"
proof (induction "nat (mi - int i)" arbitrary: i s rule: less_induct)
  case less
  show ?case
  proof (cases "int i < mi")
    case False
    then have "spec_step model tools mi (abs_of AwaitingModel i s) (abs_of Exhausted i s)"
      by (simp add: abs_of_def spec_step.exhausted)
    with False show ?thesis
      by (intro exI [of _ Exhausted] exI [of _ i]) (simp add: run_loop_stop)
  next
    case True
    obtain x s' where it: "iteration ch model tools s = (x, s')" by fastforce
    note first = iteration_refines [OF True it]
    show ?thesis
    proof (cases x)
      case Next
      have "nat (mi - int (Suc i)) < nat (mi - int i)" using True by simp
      from less.hyps [OF this, of s'] obtain ph k where
        "(spec_step model tools mi)\<^sup>*\<^sup>* (abs_of AwaitingModel (Suc i) s')
           (abs_of ph k (snd (run_loop ch model tools mi (Suc i) s')))"
        "terminal ph"
        "spec_result ph (history (snd (run_loop ch model tools mi (Suc i) s'))) = fst (run_loop ch model tools mi (Suc i) s')"
        by blast
      with first Next True it show ?thesis
        by (auto simp: run_loop_next intro: rtranclp_trans)
    next
      case (Done v)
      with first True it show ?thesis
        by (intro exI [of _ "Answered v"] exI [of _ "Suc i"]) (simp add: run_loop_done)
    next
      case (Failed e)
      with first True it show ?thesis
        by (intro exI [of _ "Crashed e"] exI [of _ "Suc i"]) (simp add: run_loop_failed)
    qed
  qed
qed

lemma abs_of_init: "abs_of AwaitingModel 0 (init_state rc q w) = spec_init rc q w"
  by (simp add: abs_of_def init_state_def spec_init_def)

subsection \<open>Properties of the machine\<close>

lemma spec_step_det:
  "spec_step model tools mi s t \<Longrightarrow> spec_step model tools mi s u \<Longrightarrow> t = u"
  by (induction rule: spec_step.induct) (auto elim: spec_step.cases simp: find_tool_None_iff [symmetric])

lemma terminal_stuck:
  "terminal (phase s) \<Longrightarrow> \<not> spec_step model tools mi s t"
  by (auto elim: spec_step.cases)

text \<open>
  The rank of a phase: a step either uses up a round of the budget or, within a round,
  lowers the rank (one requested call fewer, the end of the tool calls, a terminal phase).
\<close>

fun phase_rank :: "phase \<Rightarrow> nat" where
  "phase_rank AwaitingModel = 1"
| "phase_rank (AwaitingTools cs) = length cs + 2"
| "phase_rank _ = 0"

lemma spec_step_decreases:
  "spec_step model tools mi s t \<Longrightarrow>
   (t, s) \<in> measures [\<lambda>x. nat (mi - int (rounds x)), \<lambda>x. phase_rank (phase x)]"
  by (induction rule: spec_step.induct) auto

lemma spec_step_rounds:
  "spec_step model tools mi s t \<Longrightarrow> int (rounds s) \<le> max 0 mi \<Longrightarrow> int (rounds t) \<le> max 0 mi"
  by (induction rule: spec_step.induct) auto

lemma spec_progress_model:
  "\<exists>t. spec_step model tools mi \<lparr>phase = AwaitingModel, conv = h, rounds = n, ext = w\<rparr> t"
proof (cases "int n < mi")
  case False
  then show ?thesis by (blast intro: spec_step.exhausted)
next
  case True
  obtain res w' where m: "model h w = (res, w')" by fastforce
  show ?thesis
  proof (cases res)
    case (Inl e)
    with True m show ?thesis by (blast intro: spec_step.model_fails)
  next
    case (Inr r)
    with True m show ?thesis
      by (cases "no_tool_calls r") (blast intro: spec_step.answer spec_step.request)+
  qed
qed

lemma spec_progress_tools:
  "\<exists>t. spec_step model tools mi \<lparr>phase = AwaitingTools cs, conv = h, rounds = n, ext = w\<rparr> t"
proof (cases cs)
  case Nil
  then show ?thesis by (blast intro: spec_step.tools_done)
next
  case (Cons tc cs')
  show ?thesis
  proof (cases "find_tool tools tc")
    case None
    then have "\<not> tool_known tools tc" by (simp add: find_tool_None_iff)
    with Cons show ?thesis by (blast intro: spec_step.skip_unknown)
  next
    case (Some t)
    obtain res w' where inv: "invoke t (tc_args tc) w = (res, w')" by fastforce
    show ?thesis
    proof (cases res)
      case (Inl e)
      with Cons Some inv show ?thesis by (blast intro: spec_step.tool_fails)
    next
      case (Inr v)
      with Cons Some inv show ?thesis
        by (cases "normalize_result v") (blast intro: spec_step.conversion_fails spec_step.tool_answers)+
    qed
  qed
qed

text \<open>A run of the machine with the sample collaborators: one tool round, then no budget left.\<close>

lemma sample_round_run:
  "(spec_step tool_requesting_model [lookup_tool] 1)\<^sup>*\<^sup>* (spec_init ''r'' ''q'' ())
     \<lparr>phase = Exhausted,
      conv = init_history ''r'' ''q'' @
             [AIMessage \<lparr>ai_content = JStr ''thinking'', tool_calls = Some [lookup_call]\<rparr>,
              ToolMessage (JStr ''found'') ''call_1''],
      rounds = 1, ext = ()\<rparr>"
proof -
  let ?r = "\<lparr>ai_content = JStr ''thinking'', tool_calls = Some [lookup_call]\<rparr>"
  let ?h = "init_history ''r'' ''q'' @ [AIMessage ?r]"
  let ?h' = "?h @ [ToolMessage (JStr ''found'') ''call_1'']"
  let ?step = "spec_step tool_requesting_model [lookup_tool] 1"
  have found: "find_tool [lookup_tool] lookup_call = Some lookup_tool"
    by (simp add: find_tool_def sample_defs)
  have s1: "?step (spec_init ''r'' ''q'' ())
              \<lparr>phase = AwaitingTools [lookup_call], conv = ?h, rounds = 1, ext = ()\<rparr>"
    using spec_step.request [of 0 1 tool_requesting_model "init_history ''r'' ''q''" "()" ?r "()"]
    by (simp add: spec_init_def sample_defs no_tool_calls_def requested_calls_def)
  have s2: "?step \<lparr>phase = AwaitingTools [lookup_call], conv = ?h, rounds = 1, ext = ()\<rparr>
              \<lparr>phase = AwaitingTools [], conv = ?h', rounds = 1, ext = ()\<rparr>"
    using spec_step.tool_answers [OF found, of "()" "JStr ''found''" "()" "JStr ''found''"]
    by (simp add: sample_defs normalize_result_def del: append_assoc)
  have s3: "?step \<lparr>phase = AwaitingTools [], conv = ?h', rounds = 1, ext = ()\<rparr>
              \<lparr>phase = AwaitingModel, conv = ?h', rounds = 1, ext = ()\<rparr>"
    by (rule spec_step.tools_done)
  have s4: "?step \<lparr>phase = AwaitingModel, conv = ?h', rounds = 1, ext = ()\<rparr>
              \<lparr>phase = Exhausted, conv = ?h', rounds = 1, ext = ()\<rparr>"
    by (rule spec_step.exhausted) simp
  from s1 s2 s3 s4 show ?thesis
    by (simp add: converse_rtranclp_into_rtranclp)
qed

subsection \<open>Properties of the specification and of the refinement\<close>

text \<open>
  C31. Every run of \<open>runWithTools\<close> is a run of the abstract machine: from the initial
  state (the system and the human message, round 0), the machine reaches the final history
  and world of the run in a terminal phase, and the result the machine assigns to that
  phase is the value the function returns (or the exception it throws).
\<close>

theorem runWithTools_refines_spec:
  "\<exists>ph k. (spec_step model tools mi)\<^sup>*\<^sup>* (spec_init rc q w)
             \<lparr>phase = ph, conv = history (snd (runWithTools ch model tools rc q mi w)), rounds = k,
              ext = world (snd (runWithTools ch model tools rc q mi w))\<rparr> \<and>
           terminal ph \<and>
           spec_result ph (history (snd (runWithTools ch model tools rc q mi w))) =
             fst (runWithTools ch model tools rc q mi w)"
  using run_loop_refines [of model tools mi 0 "init_state rc q w" ch]
  unfolding runWithTools_def abs_of_init by (simp add: abs_of_def)

text \<open>
  C32. The history \<open>runWithTools\<close> ends with is well formed for the chat API: every tool
  message answers, by its id, a call requested by the latest assistant message and not
  yet passed over, whatever the model and the tools do.
\<close>

theorem runWithTools_answers_ok:
  "answers_ok (history (snd (runWithTools ch model tools rc q mi w)))"
proof -
  from run_loop_refines [of model tools mi 0 "init_state rc q w" ch] obtain ph k where
    "(spec_step model tools mi)\<^sup>*\<^sup>* (spec_init rc q w)
       (abs_of ph k (snd (runWithTools ch model tools rc q mi w)))"
    by (auto simp: runWithTools_def abs_of_init)
  from reachable_spec_inv [OF this spec_inv_init] show ?thesis
    by (auto simp: spec_inv_def answers_ok_def abs_of_def)
qed

text \<open>
  C33. The machine is deterministic and stops only in terminal phases, so the result of
  \<open>runWithTools\<close> is the result of every terminal state the machine reaches: the code
  computes the one answer the specification allows.
\<close>

theorem runWithTools_unique_result:
  assumes "(spec_step model tools mi)\<^sup>*\<^sup>* (spec_init rc q w) t" "terminal (phase t)"
  shows "spec_result (phase t) (conv t) = fst (runWithTools ch model tools rc q mi w)"
proof -
  let ?s = "snd (runWithTools ch model tools rc q mi w)"
  from run_loop_refines [of model tools mi 0 "init_state rc q w" ch] obtain ph k where
    run: "(spec_step model tools mi)\<^sup>*\<^sup>* (spec_init rc q w) (abs_of ph k ?s)" and
    ph: "terminal ph" "spec_result ph (history ?s) = fst (runWithTools ch model tools rc q mi w)"
    by (auto simp: runWithTools_def abs_of_init)
  have "t = abs_of ph k ?s"
  proof (rule deterministic_final_unique [where r = "spec_step model tools mi"])
    show "\<And>u. \<not> spec_step model tools mi t u" using assms(2) by (rule terminal_stuck)
    show "\<And>u. \<not> spec_step model tools mi (abs_of ph k ?s) u"
      using ph(1) by (intro terminal_stuck) (simp add: abs_of_def)
  qed (use assms(1) run spec_step_det in blast)+
  with ph(2) show ?thesis by (simp add: abs_of_def)
qed

theorem runWithTools_unique_result_witness:
  "spec_result Exhausted
     (init_history ''r'' ''q'' @
      [AIMessage \<lparr>ai_content = JStr ''thinking'', tool_calls = Some [lookup_call]\<rparr>,
       ToolMessage (JStr ''found'') ''call_1''])
   = fst (runWithTools plain_chalk tool_requesting_model [lookup_tool] ''r'' ''q'' 1 ())"
  using runWithTools_unique_result [OF sample_round_run] by simp






end
