(* ===== verification/JS_Strings.thy ===== *)
theory JS_Strings
  imports JS_Values
begin

text \<open>
  The piece of the JavaScript runtime that the text-splitter scripts rely on, from the
  language specification (ECMA-262), on strings kept as UTF-8 bytes as elsewhere in the
  development: the cooked value of an untagged template literal (\<open>TV\<close> of the
  \<open>TemplateCharacters\<close>, section 13.2.8.6 of ECMA-262), what \<open>`...`\<close> denotes given the
  characters written between the backticks.
\<close>

subsection \<open>Template literals\<close>

text \<open>
  The single-character escapes \<open>\b \f \n \r \t \v\<close>. Every other character after a
  backslash that is not a digit, \<open>x\<close>, \<open>u\<close> or a line terminator is a
  \<open>NonEscapeCharacter\<close> and stands for itself: \<open>\i\<close> is \<open>i\<close>, \<open>\\\<close> is one backslash,
  \<open>\`\<close> a backtick.
\<close>

definition single_escape :: "char \<Rightarrow> char option" where
  "single_escape d =
     (if d = CHR ''b'' then Some (CHR 0x08)
      else if d = CHR ''f'' then Some (CHR 0x0C)
      else if d = CHR ''n'' then Some (CHR 0x0A)
      else if d = CHR ''r'' then Some (CHR 0x0D)
      else if d = CHR ''t'' then Some (CHR 0x09)
      else if d = CHR ''v'' then Some (CHR 0x0B)
      else None)"

definition is_letter :: "char \<Rightarrow> bool" where
  "is_letter c \<longleftrightarrow>
     (let n = of_char c :: nat in (65 \<le> n \<and> n \<le> 90) \<or> (97 \<le> n \<and> n \<le> 122))"

text \<open>
  \<open>cook_template raw\<close> is the string the literal \<open>`raw`\<close> denotes; \<open>None\<close> where the
  literal is not one this model evaluates: a syntax error (\<open>\1\<close>, \<open>\0\<close> before a digit,
  a trailing backslash), a hexadecimal or Unicode escape (\<open>\x\<close>, \<open>\u\<close>, which the
  repository's literals do not use) or a substitution \<open>${\<close>. A line terminator is a line
  feed or a carriage return: a backslash before it is a line continuation and vanishes,
  and a raw carriage return (alone or before a line feed) is read as one line feed.
\<close>

fun cook_template :: "string \<Rightarrow> string option" where
  "cook_template [] = Some []"
| "cook_template [c] =
     (if c = backslash then None
      else if c = CHR 0x0D then Some [CHR 0x0A]
      else Some [c])"
| "cook_template (c # d # s) =
     (if c = backslash then
        (case single_escape d of
           Some e \<Rightarrow> map_option (Cons e) (cook_template s)
         | None \<Rightarrow>
             if d = CHR 0x0A then cook_template s
             else if d = CHR 0x0D then cook_template (if take 1 s = [CHR 0x0A] then tl s else s)
             else if d = CHR ''0'' \<and> \<not> (s \<noteq> [] \<and> is_digit (hd s))
             then map_option (Cons (CHR 0x00)) (cook_template s)
             else if is_digit d \<or> d = CHR ''x'' \<or> d = CHR ''u'' then None
             else map_option (Cons d) (cook_template s))
      else if c = CHR ''$'' \<and> d = CHR ''{'' then None
      else if c = CHR 0x0D then
        map_option (Cons (CHR 0x0A)) (cook_template (if d = CHR 0x0A then s else d # s))
      else map_option (Cons c) (cook_template (d # s)))"

text \<open>
  \<open>has_command s\<close>: somewhere in \<open>s\<close> a backslash is followed by an ASCII letter, as in
  every LaTeX control word (\<open>\frac\<close>, \<open>\begin\<close>, \<open>\section\<close>).
\<close>

fun has_command :: "string \<Rightarrow> bool" where
  "has_command (c # d # s) \<longleftrightarrow> (c = backslash \<and> is_letter d) \<or> has_command (d # s)"
| "has_command _ \<longleftrightarrow> False"

subsection \<open>Lemmas\<close>

lemma cook_template_plain:
  "\<forall>c \<in> set s. c \<noteq> backslash \<and> c \<noteq> CHR ''$'' \<and> c \<noteq> CHR 0x0D \<Longrightarrow> cook_template s = Some s"
  by (induction s rule: cook_template.induct) auto

end
