(* ===== verification/Splitter_Scripts.thy ===== *)
theory Splitter_Scripts
  imports JS_Strings RAG_Pipeline Config
begin

text \<open>
  The two text-splitter demonstrations, src/rag-test/src/LatexTextSplitter-test.mjs and
  src/rag-test/src/MarkdownTextSplitter-test.mjs. Each writes a text as a template literal,
  wraps it in a \<open>Document\<close>, splits it with a LangChain splitter configured in
  \<open>Config\<close> and prints, for every chunk, the chunk, its \<open>length\<close> and its number of
  \<open>cl100k_base\<close> tokens. The splitter and the tokeniser are library code: they are
  parameters here. The texts are kept as the characters written in the source (UTF-8
  bytes, one source line per line of the definition) and cooked by \<open>cook_template\<close>, so
  that what the splitter receives is what JavaScript makes of them.
\<close>

subsection \<open>The texts as written\<close>

text \<open>LatexTextSplitter-test.mjs, lines 7--11, between the backticks.\<close>

definition latex_raw :: string where
  "latex_raw =
     [backslash] @ ''int x^{'' @ [backslash] @ ''mu}'' @ [backslash] @ ''mathrm{d}x='' @ [backslash] @ ''frac{x^{'' @ [backslash] @ ''mu +1}}{'' @ [backslash] @ ''mu +1}+C, '' @ [backslash] @ ''left({'' @ [backslash] @ ''mu '' @ [backslash] @ ''neq -1}'' @ [backslash] @ ''right) '' @ [backslash] @ ''int '' @ [backslash] @ ''frac{1}{'' @ [backslash] @ ''sqrt{1-x^{2}}}'' @ [backslash] @ ''mathrm{d}x= '' @ [backslash] @ ''arcsin x +C '' @ [backslash] @ ''int '' @ [backslash] @ ''frac{1}{'' @ [backslash] @ ''sqrt{1-x^{2}}}'' @ [backslash] @ ''mathrm{d}x= '' @ [backslash] @ ''arcsin x +C '' @ [backslash] @ ''begin{pmatrix} '' @ [CHR 0xC2, CHR 0xA0] @ [CHR 0x0A] @
     [CHR 0xC2, CHR 0xA0] @ '' a_{11} & a_{12} & a_{13} '' @ [backslash, backslash] @ '' '' @ [CHR 0xC2, CHR 0xA0] @ [CHR 0x0A] @
     [CHR 0xC2, CHR 0xA0] @ '' a_{21} & a_{22} & a_{23} '' @ [backslash, backslash] @ '' '' @ [CHR 0xC2, CHR 0xA0] @ [CHR 0x0A] @
     [CHR 0xC2, CHR 0xA0] @ '' a_{31} & a_{32} & a_{33} '' @ [CHR 0xC2, CHR 0xA0] @ [CHR 0x0A] @
     [backslash] @ ''end{pmatrix} ''"

text \<open>MarkdownTextSplitter-test.mjs, lines 7--67, between the backticks.\<close>

definition readme_raw :: string where
  "readme_raw =
     ''# Project Name'' @ [CHR 0x0A] @
     [CHR 0x0A] @
     ''> A brief description of your project'' @ [CHR 0x0A] @
     [CHR 0x0A] @
     ''[![License](https://img.shields.io/badge/license-MIT-blue.svg)](LICENSE)'' @ [CHR 0x0A] @
     [CHR 0x0A] @
     ''## Features'' @ [CHR 0x0A] @
     [CHR 0x0A] @
     ''- '' @ [CHR 0xE2, CHR 0x9C, CHR 0xA8] @ '' Feature 1'' @ [CHR 0x0A] @
     ''- '' @ [CHR 0xF0, CHR 0x9F, CHR 0x9A, CHR 0x80] @ '' Feature 2'' @ [CHR 0x0A] @
     ''- '' @ [CHR 0xF0, CHR 0x9F, CHR 0x92, CHR 0xA1] @ '' Feature 3'' @ [CHR 0x0A] @
     [CHR 0x0A] @
     ''## Installation'' @ [CHR 0x0A] @
     [CHR 0x0A] @
     [backslash] @ ''`'' @ [backslash] @ ''`'' @ [backslash] @ ''`bash'' @ [CHR 0x0A] @
     ''npm install project-name'' @ [CHR 0x0A] @
     [backslash] @ ''`'' @ [backslash] @ ''`'' @ [backslash] @ ''`'' @ [CHR 0x0A] @
     [CHR 0x0A] @
     ''## Usage'' @ [CHR 0x0A] @
     [CHR 0x0A] @
     ''### Basic Usage'' @ [CHR 0x0A] @
     [CHR 0x0A] @
     [backslash] @ ''`'' @ [backslash] @ ''`'' @ [backslash] @ ''`javascript'' @ [CHR 0x0A] @
     ''import { Project } from '' @ [CHR 0x27] @ ''project-name'' @ [CHR 0x27] @ '';'' @ [CHR 0x0A] @
     [CHR 0x0A] @
     ''const project = new Project();'' @ [CHR 0x0A] @
     ''project.init();'' @ [CHR 0x0A] @
     [backslash] @ ''`'' @ [backslash] @ ''`'' @ [backslash] @ ''`'' @ [CHR 0x0A] @
     [CHR 0x0A] @
     ''### Advanced Usage'' @ [CHR 0x0A] @
     [CHR 0x0A] @
     [backslash] @ ''`'' @ [backslash] @ ''`'' @ [backslash] @ ''`javascript'' @ [CHR 0x0A] @
     ''const project = new Project({'' @ [CHR 0x0A] @
     [CHR 0xC2, CHR 0xA0] @ '' config: {'' @ [CHR 0x0A] @
     [CHR 0xC2, CHR 0xA0] @ '' '' @ [CHR 0xC2, CHR 0xA0] @ '' apiKey: '' @ [CHR 0x27] @ ''your-api-key'' @ [CHR 0x27] @ '','' @ [CHR 0x0A] @
     [CHR 0xC2, CHR 0xA0] @ '' '' @ [CHR 0xC2, CHR 0xA0] @ '' timeout: 5000,'' @ [CHR 0x0A] @
     [CHR 0xC2, CHR 0xA0] @ '' }'' @ [CHR 0x0A] @
     ''});'' @ [CHR 0x0A] @
     [CHR 0x0A] @
     ''await project.run();'' @ [CHR 0x0A] @
     [backslash] @ ''`'' @ [backslash] @ ''`'' @ [backslash] @ ''`'' @ [CHR 0x0A] @
     [CHR 0x0A] @
     ''## API Reference'' @ [CHR 0x0A] @
     [CHR 0x0A] @
     ''### '' @ [backslash] @ ''`Project'' @ [backslash] @ ''`'' @ [CHR 0x0A] @
     [CHR 0x0A] @
     ''Main class for the project.'' @ [CHR 0x0A] @
     [CHR 0x0A] @
     ''#### Methods'' @ [CHR 0x0A] @
     [CHR 0x0A] @
     ''- '' @ [backslash] @ ''`init()'' @ [backslash] @ ''`: Initialize the project'' @ [CHR 0x0A] @
     ''- '' @ [backslash] @ ''`run()'' @ [backslash] @ ''`: Run the project'' @ [CHR 0x0A] @
     ''- '' @ [backslash] @ ''`stop()'' @ [backslash] @ ''`: Stop the project'' @ [CHR 0x0A] @
     [CHR 0x0A] @
     ''## Contributing'' @ [CHR 0x0A] @
     [CHR 0x0A] @
     ''Contributions are welcome! Please read our [contributing guide](CONTRIBUTING.md).'' @ [CHR 0x0A] @
     [CHR 0x0A] @
     ''## License'' @ [CHR 0x0A] @
     [CHR 0x0A] @
     ''MIT License''"

subsection \<open>The texts as JavaScript reads them\<close>

definition latex_text :: string where
  "latex_text = the (cook_template latex_raw)"

definition readme_text :: string where
  "readme_text = the (cook_template readme_raw)"

lemma latex_raw_cooks: "cook_template latex_raw = Some latex_text"
proof -
  have "cook_template latex_raw \<noteq> None" by code_simp
  then show ?thesis by (auto simp: latex_text_def)
qed

lemma readme_raw_cooks: "cook_template readme_raw = Some readme_text"
proof -
  have "cook_template readme_raw \<noteq> None" by code_simp
  then show ?thesis by (auto simp: readme_text_def)
qed

text \<open>
  In the Markdown text the only escapes are the backticks of the code fences, which
  \<open>\`\<close> turns into plain backticks: the text the splitter receives has its three
  fenced blocks and no backslash.
\<close>

lemma readme_text_fences:
  "sublist (''```bash'' @ [CHR 0x0A]) readme_text \<and>
   sublist (''```javascript'' @ [CHR 0x0A]) readme_text \<and> backslash \<notin> set readme_text"
  by code_simp

subsection \<open>The scripts\<close>

text \<open>
  A splitter is \<open>splitter.splitDocuments\<close> for a configuration: it takes the documents
  and the world and returns the chunks, or rejects. The tokeniser is
  \<open>getEncoding("cl100k_base").encode\<close>: a function from a string to its tokens.
\<close>

type_synonym 'w doc_splitter =
  "splitter_config \<Rightarrow> document list \<Rightarrow> 'w \<Rightarrow> (js_error + document list) \<times> 'w"

type_synonym encoder = "string \<Rightarrow> nat list"

text \<open>
  The chunk as \<open>console.log(document)\<close> receives it: a \<open>Document\<close> has the own
  properties \<open>pageContent\<close>, \<open>metadata\<close> and \<open>id\<close> (\<open>undefined\<close> here), in that order;
  its class name, which \<open>util.inspect\<close> prints before the braces, is not a value of
  \<open>jsval\<close>.
\<close>

definition document_value :: "document \<Rightarrow> jsval" where
  "document_value d = JObj [(''pageContent'', JStr (page_content d)), (''metadata'', metadata d), (''id'', JUndef)]"

text \<open>What the \<open>forEach\<close> callback prints for one chunk (lines 28--30 of the LaTeX script, 86--88 of the Markdown one).\<close>

definition chunk_lines :: "encoder \<Rightarrow> document \<Rightarrow> jsval list list" where
  "chunk_lines enc d =
     [[document_value d],
      [JStr ''character length: '', JNum (int (js_length (page_content d)))],
      [JStr ''token length: '', JNum (int (length (enc (page_content d))))]]"

text \<open>
  \<open>new Document({pageContent: text})\<close> (its metadata default to \<open>{}\<close>),
  \<open>splitDocuments([document])\<close>, then the lines of each chunk, in order. A rejected split
  ends the script with nothing printed.
\<close>

definition split_script ::
  "'w doc_splitter \<Rightarrow> encoder \<Rightarrow> splitter_config \<Rightarrow> string \<Rightarrow> 'w io \<Rightarrow> unit outcome \<times> 'w io" where
  "split_script split enc cfg text s =
     (case io_call (split cfg [\<lparr>page_content = text, metadata = JObj []\<rparr>]) s of
        (Inl e, s') \<Rightarrow> (Exc e, s')
      | (Inr docs, s') \<Rightarrow> (Ok (), console_logs (concat (map (chunk_lines enc) docs)) s'))"

definition latex_main :: "'w doc_splitter \<Rightarrow> encoder \<Rightarrow> 'w io \<Rightarrow> unit outcome \<times> 'w io" where
  "latex_main split enc s = split_script split enc latex_splitter latex_text s"

definition markdown_main :: "'w doc_splitter \<Rightarrow> encoder \<Rightarrow> 'w io \<Rightarrow> unit outcome \<times> 'w io" where
  "markdown_main split enc s = split_script split enc markdown_splitter readme_text s"

subsection \<open>Properties of the scripts\<close>


end
