(* ===== verification/RAG_Setup.thy ===== *)
theory RAG_Setup
  imports Splitter_Scripts
begin

text \<open>
  The first half of src/rag-test/src/loader-and-splitter.mjs (lines 8--55), which prepares
  what the question loop of \<open>RAG_Pipeline\<close> uses: load the paragraphs of a web page,
  split them, check and print two counts, and build an in-memory vector store from the
  chunks. The loader, the splitter and the store (with the embeddings client of
  \<open>Config\<close>) are library code and parameters here; so is the binding of the store and
  the chat model into the services the question loop calls. \<open>rag_pipeline\<close> is the whole
  script: the setup followed by \<open>rag_main\<close>.
\<close>

record loader_config =
  source_url :: string
  css_selector :: string

text \<open>\<open>new CheerioWebBaseLoader(url, { selector })\<close>, lines 8--13.\<close>

definition rag_loader_config :: loader_config where
  "rag_loader_config =
     \<lparr>source_url = ''https://juejin.cn/post/7233327509919547452'', css_selector = ''.main-area p''\<rparr>"

type_synonym 'w doc_loader = "loader_config \<Rightarrow> 'w \<Rightarrow> (js_error + document list) \<times> 'w"

type_synonym ('s, 'w) store_builder = "document list \<Rightarrow> 'w \<Rightarrow> (js_error + 's) \<times> 'w"

text \<open>Line 44 before the number (with a no-break space after the colon).\<close>

definition total_label :: string where
  "total_label = ''Total characters:'' @ [CHR 0xC2, CHR 0xA0]"

text \<open>Line 46 before the number of chunks (``splitting done, in all'', then a no-break space).\<close>

definition split_done_head :: string where
  "split_done_head =
     [CHR 0xE6, CHR 0x96, CHR 0x87, CHR 0xE6, CHR 0xA1, CHR 0xA3, CHR 0xE5, CHR 0x88,
      CHR 0x86, CHR 0xE5, CHR 0x89, CHR 0xB2, CHR 0xE5, CHR 0xAE, CHR 0x8C, CHR 0xE6,
      CHR 0x88, CHR 0x90, CHR 0xEF, CHR 0xBC, CHR 0x8C, CHR 0xE5, CHR 0x85, CHR 0xB1,
      CHR 0xC2, CHR 0xA0]"

text \<open>Line 46 after the number (a no-break space, ``chunks'', a line break).\<close>

definition split_done_tail :: string where
  "split_done_tail =
     [CHR 0xC2, CHR 0xA0, CHR 0xE4, CHR 0xB8, CHR 0xAA, CHR 0xE5, CHR 0x88, CHR 0x86,
      CHR 0xE5, CHR 0x9D, CHR 0x97, CHR 0x0A]"

text \<open>Line 48 (``creating the vector store...'').\<close>

definition store_creating :: string where
  "store_creating =
     [CHR 0xE6, CHR 0xAD, CHR 0xA3, CHR 0xE5, CHR 0x9C, CHR 0xA8, CHR 0xE5, CHR 0x88,
      CHR 0x9B, CHR 0xE5, CHR 0xBB, CHR 0xBA, CHR 0xE5, CHR 0x90, CHR 0x91, CHR 0xE9,
      CHR 0x87, CHR 0x8F, CHR 0xE5, CHR 0xAD, CHR 0x98, CHR 0xE5, CHR 0x82, CHR 0xA8,
      CHR 0x2E, CHR 0x2E, CHR 0x2E]"

text \<open>Line 55 (``vector store created!'' and a line break).\<close>

definition store_done :: string where
  "store_done =
     [CHR 0xE5, CHR 0x90, CHR 0x91, CHR 0xE9, CHR 0x87, CHR 0x8F, CHR 0xE5, CHR 0xAD,
      CHR 0x98, CHR 0xE5, CHR 0x82, CHR 0xA8, CHR 0xE5, CHR 0x88, CHR 0x9B, CHR 0xE5,
      CHR 0xBB, CHR 0xBA, CHR 0xE5, CHR 0xAE, CHR 0x8C, CHR 0xE6, CHR 0x88, CHR 0x90,
      CHR 0xEF, CHR 0xBC, CHR 0x81, CHR 0x0A]"

text \<open>Lines 44--48: the length of the first document, the number of chunks, and the notice.\<close>

definition setup_lines :: "nat \<Rightarrow> nat \<Rightarrow> jsval list list" where
  "setup_lines n m =
     [[JStr (total_label @ string_of_nat n)], [JStr (split_done_head @ string_of_nat m @ split_done_tail)],
      [JStr store_creating]]"

text \<open>
  Lines 15--55. \<open>console.assert(documents.length === 1)\<close> reports a failure on standard
  error and the script goes on; \<open>documents[0].pageContent\<close> reads a property of
  \<open>undefined\<close> when the loader returned no document, which throws a \<open>TypeError\<close> at line
  44 before anything is printed there. The model and embeddings clients built on lines
  26--41 have no effect until they are called.
\<close>

definition rag_setup ::
  "'w doc_loader \<Rightarrow> 'w doc_splitter \<Rightarrow> ('s, 'w) store_builder \<Rightarrow> 'w io \<Rightarrow> (js_error + 's) \<times> 'w io" where
  "rag_setup load split build s =
     (case io_call (load rag_loader_config) s of
        (Inl e, s1) \<Rightarrow> (Inl e, s1)
      | (Inr docs, s1) \<Rightarrow>
          (case io_call (split rag_splitter docs) s1 of
             (Inl e, s2) \<Rightarrow> (Inl e, s2)
           | (Inr chunks, s2) \<Rightarrow>
               (let s3 = console_assert (length docs = 1) s2 in
                if docs = [] then (Inl TypeError, s3)
                else
                  (let s4 = console_logs (setup_lines (js_length (page_content (hd docs))) (length chunks)) s3 in
                   case io_call (build chunks) s4 of
                     (Inl e, s5) \<Rightarrow> (Inl e, s5)
                   | (Inr st, s5) \<Rightarrow> (Inr st, console_logs [[JStr store_done]] s5)))))"

text \<open>The whole script: the setup, then the questions against the store's services.\<close>

definition rag_pipeline ::
  "'w doc_loader \<Rightarrow> 'w doc_splitter \<Rightarrow> ('s, 'w) store_builder \<Rightarrow> ('s \<Rightarrow> 'w rag_services) \<Rightarrow> 'w io \<Rightarrow>
   (js_error + qa_report list) \<times> 'w io" where
  "rag_pipeline load split build services s =
     (case rag_setup load split build s of
        (Inl e, s') \<Rightarrow> (Inl e, s')
      | (Inr st, s') \<Rightarrow> rag_main (services st) s')"

subsection \<open>The assertion does not guard the script\<close>

text \<open>
  With several documents the failed assertion is only reported on standard error: the
  script prints the first document's length and the number of chunks, builds the store
  from all the chunks and goes on to the questions.
\<close>

lemma rag_setup_several_documents:
  assumes "load rag_loader_config (io_world s) = (Inr (d # d' # ds), w1)"
    and "split rag_splitter (d # d' # ds) w1 = (Inr chunks, w2)"
    and "build chunks w2 = (Inr st, w3)"
  shows "rag_setup load split build s =
           (Inr st, s\<lparr>io_world := w3,
                      io_out := io_out s @ [(Stderr, [JStr ''Assertion failed''])] @
                        map (Pair Stdout) (setup_lines (js_length (page_content d)) (length chunks) @
                                           [[JStr store_done]])\<rparr>)"
  using assms by (simp add: rag_setup_def io_simps)

subsection \<open>Properties of the setup\<close>

text \<open>
  C22. When the page yields no document, \<open>console.assert(documents.length === 1)\<close> only
  reports its failure on standard error, and the script then throws a \<open>TypeError\<close>
  reading \<open>documents[0].pageContent\<close> (line 44): it ends with that exception, after the
  split, with nothing printed on standard output, before the vector store is built or any
  question is asked, whatever the store and the services would do.
\<close>

theorem rag_pipeline_no_document:
  assumes "load rag_loader_config (io_world s) = (Inr [], w1)"
    and "split rag_splitter [] w1 = (Inr chunks, w2)"
  shows "rag_pipeline load split build services s =
           (Inl TypeError,
            s\<lparr>io_world := w2, io_out := io_out s @ [(Stderr, [JStr ''Assertion failed''])]\<rparr>)"
  using assms by (simp add: rag_pipeline_def rag_setup_def io_simps)

theorem rag_pipeline_no_document_witness:
  "rag_pipeline (\<lambda>cfg w. (Inr [], w)) (\<lambda>cfg docs w. (Inr docs, w)) (\<lambda>docs w. (Inr (), w))
     (\<lambda>st. offline_services) (script_start ()) =
   (Inl TypeError, \<lparr>io_world = (), io_out = [(Stderr, [JStr ''Assertion failed''])]\<rparr>)"
  using rag_pipeline_no_document [where load = "\<lambda>cfg w. (Inr [], w)" and split = "\<lambda>cfg docs w. (Inr docs, w)"
      and build = "\<lambda>docs w. (Inr (), w)" and services = "\<lambda>st. offline_services" and s = "script_start ()",
      OF refl refl]
  by (simp add: script_start_def)

end
