(* ===== verification/Hello_Script.thy ===== *)
theory Hello_Script
  imports Agent_Loop Config
begin

text \<open>
  src/tool-test/src/hello-langchain.mjs after its configuration (which \<open>Config\<close> holds):
  one call of the chat model on a fixed prompt, whose answer's content is printed.
  \<open>model.invoke(s)\<close> on a string sends the one-message conversation
  \<open>[new HumanMessage(s)]\<close>; a rejected call ends the script with that exception.
\<close>

text \<open>The prompt of line 14 (``introduce yourself''), as UTF-8 bytes.\<close>

definition hello_prompt :: string where
  "hello_prompt =
     [CHR 0xE4, CHR 0xBB, CHR 0x8B, CHR 0xE7, CHR 0xBB, CHR 0x8D, CHR 0xE4, CHR 0xB8,
      CHR 0x80, CHR 0xE4, CHR 0xB8, CHR 0x8B, CHR 0xE8, CHR 0x87, CHR 0xAA, CHR 0xE5,
      CHR 0xB7, CHR 0xB1]"

text \<open>
  Lines 14--15: the script prints the answer's content, or ends with the exception of a
  rejected call, having printed nothing.
\<close>

definition hello_main :: "'w chat_model \<Rightarrow> 'w io \<Rightarrow> unit outcome \<times> 'w io" where
  "hello_main model s =
     (case io_call (model [HumanMessage (JStr hello_prompt)]) s of
        (Inl e, s') \<Rightarrow> (Exc e, s')
      | (Inr r, s') \<Rightarrow> (Ok (), console_logs [[ai_content r]] s'))"

end
