(* ===== verification/JSON_Reader.thy ===== *)
theory JSON_Reader
  imports Tool_Result "HOL-Library.Code_Target_Nat"
begin

text \<open>
  A reader for the text \<open>JSON.stringify\<close> produces, following \<open>JSON.parse\<close> (ECMA-404
  grammar, ECMA-262 section 25.5.1), and the round trip between the two. The fallback
  branch of \<open>normalize_result\<close> (mcp-test.mjs, line 94) sends a tool's result to the model
  as \<open>JSON.stringify(toolResult)\<close>; the round trip says that this text denotes the result
  itself, once \<open>undefined\<close> members are dropped and \<open>undefined\<close> array elements read as
  \<open>null\<close>. The reader is a reference for the proofs, not code of the repository.

  Within \<open>jsval\<close> numbers are integers: the reader rejects a number with a fraction or an
  exponent (outside the model), and reads \<open>-0\<close> as \<open>0\<close>. \<open>None\<close> is a syntax error.
\<close>

subsection \<open>Lexical pieces\<close>

definition json_ws :: "char \<Rightarrow> bool" where
  "json_ws c \<longleftrightarrow> c = CHR 0x20 \<or> c = CHR 0x09 \<or> c = CHR 0x0A \<or> c = CHR 0x0D"

definition skip_ws :: "string \<Rightarrow> string" where
  "skip_ws s = dropWhile json_ws s"

definition hex_value :: "char \<Rightarrow> nat option" where
  "hex_value c =
     (let n = of_char c :: nat in
      if 48 \<le> n \<and> n \<le> 57 then Some (n - 48)
      else if 97 \<le> n \<and> n \<le> 102 then Some (n - 87)
      else if 65 \<le> n \<and> n \<le> 70 then Some (n - 55)
      else None)"

text \<open>
  The UTF-8 bytes of a code point written \<open>\uXXXX\<close>; a lone surrogate half (a pair
  written as two escapes) is not modelled.
\<close>

definition utf8_of_cp :: "nat \<Rightarrow> string option" where
  "utf8_of_cp cp =
     (if cp < 128 then Some [char_of cp]
      else if cp < 2048 then Some [char_of (192 + cp div 64), char_of (128 + cp mod 64)]
      else if 55296 \<le> cp \<and> cp \<le> 57343 then None
      else Some [char_of (224 + cp div 4096), char_of (128 + (cp div 64) mod 64), char_of (128 + cp mod 64)])"

text \<open>The two-character escapes \<open>\" \\ \/ \b \f \n \r \t\<close>.\<close>

definition json_short_escape :: "char \<Rightarrow> char option" where
  "json_short_escape e =
     (if e = dquote \<or> e = backslash \<or> e = CHR ''/'' then Some e
      else if e = CHR ''b'' then Some (CHR 0x08)
      else if e = CHR ''f'' then Some (CHR 0x0C)
      else if e = CHR ''n'' then Some (CHR 0x0A)
      else if e = CHR ''r'' then Some (CHR 0x0D)
      else if e = CHR ''t'' then Some (CHR 0x09)
      else None)"

text \<open>
  \<open>json_unquote s\<close> reads a string literal whose opening quote is already consumed: its
  value and the text after the closing quote. A raw control character is an error.
\<close>

fun json_unquote :: "string \<Rightarrow> (string \<times> string) option" where
  "json_unquote [] = None"
| "json_unquote (c # r) =
     (if c = dquote then Some ([], r)
      else if c = backslash then
        (case r of
           [] \<Rightarrow> None
         | e # r' \<Rightarrow>
             if e = CHR ''u'' then
               (case r' of
                  a # b # c' # d # r'' \<Rightarrow>
                    (case (hex_value a, hex_value b, hex_value c', hex_value d) of
                       (Some x1, Some x2, Some x3, Some x4) \<Rightarrow>
                         (case utf8_of_cp (((x1 * 16 + x2) * 16 + x3) * 16 + x4) of
                            None \<Rightarrow> None
                          | Some bs \<Rightarrow> map_option (\<lambda>(t, rest). (bs @ t, rest)) (json_unquote r''))
                     | _ \<Rightarrow> None)
                | _ \<Rightarrow> None)
             else
               (case json_short_escape e of
                  None \<Rightarrow> None
                | Some x \<Rightarrow> map_option (\<lambda>(t, rest). (x # t, rest)) (json_unquote r')))
      else if of_char c < (32::nat) then None
      else map_option (\<lambda>(t, rest). (c # t, rest)) (json_unquote r))"

text \<open>An integer: an optional minus sign and digits without a leading zero.\<close>

definition json_number :: "string \<Rightarrow> (jsval \<times> string) option" where
  "json_number s =
     (let neg = (s \<noteq> [] \<and> hd s = CHR ''-'');
          t = (if neg then tl s else s);
          ds = takeWhile is_digit t;
          r = dropWhile is_digit t in
      if ds = [] \<or> (hd ds = CHR ''0'' \<and> 1 < length ds) then None
      else if r \<noteq> [] \<and> (hd r = CHR ''.'' \<or> hd r = CHR ''e'' \<or> hd r = CHR ''E'') then None
      else Some (JNum (if neg then - int (nat_of_digits ds) else int (nat_of_digits ds)), r))"

subsection \<open>Objects\<close>

text \<open>
  \<open>JSON.parse\<close> creates the members of an object in text order, a repeated key keeping its
  first position and taking its last value; the object then lists its array-index keys
  (canonical decimals below \<open>2^32 - 1\<close>) first, in increasing order.
\<close>

definition is_index_key :: "string \<Rightarrow> bool" where
  "is_index_key k \<longleftrightarrow>
     k \<noteq> [] \<and> (\<forall>c \<in> set k. is_digit c) \<and> (k = ''0'' \<or> hd k \<noteq> CHR ''0'') \<and>
     nat_of_digits k < 4294967295"

definition obj_cons :: "string \<Rightarrow> jsval \<Rightarrow> (string \<times> jsval) list \<Rightarrow> (string \<times> jsval) list" where
  "obj_cons k v kvs =
     (case map_of kvs k of
        None \<Rightarrow> (k, v) # kvs
      | Some v' \<Rightarrow> (k, v') # filter (\<lambda>(k', x). k' \<noteq> k) kvs)"

definition index_first :: "(string \<times> jsval) list \<Rightarrow> (string \<times> jsval) list" where
  "index_first kvs =
     sort_key (\<lambda>(k, x). nat_of_digits k) (filter (\<lambda>(k, x). is_index_key k) kvs) @
     filter (\<lambda>(k, x). \<not> is_index_key k) kvs"

subsection \<open>The reader\<close>

datatype json_mode = JValue | JItems | JMembers

text \<open>
  \<open>json_p JValue s\<close> reads one value at the start of \<open>s\<close> and returns it with the rest;
  \<open>JItems\<close> reads the elements of an array after its \<open>[\<close>, up to and including the
  \<open>]\<close>; \<open>JMembers\<close> the members of an object after its \<open>{\<close>, up to the \<open>}\<close>.
\<close>

partial_function (option) json_p :: "json_mode \<Rightarrow> string \<Rightarrow> (jsval \<times> string) option" where
  "json_p m s =
     (case m of
        JValue \<Rightarrow>
          (case skip_ws s of
             [] \<Rightarrow> None
           | c # r \<Rightarrow>
               if c = CHR ''['' then
                 (if take 1 (skip_ws r) = '']'' then Some (JArr [], drop 1 (skip_ws r))
                  else json_p JItems r)
               else if c = CHR ''{'' then
                 (if take 1 (skip_ws r) = ''}'' then Some (JObj [], drop 1 (skip_ws r))
                  else Option.bind (json_p JMembers r)
                         (\<lambda>(ob, r'). case ob of JObj kvs \<Rightarrow> Some (JObj (index_first kvs), r') | _ \<Rightarrow> None))
               else if c = dquote then map_option (\<lambda>(t, r'). (JStr t, r')) (json_unquote r)
               else if prefix ''null'' (c # r) then Some (JNull, drop 4 (c # r))
               else if prefix ''true'' (c # r) then Some (JBool True, drop 4 (c # r))
               else if prefix ''false'' (c # r) then Some (JBool False, drop 5 (c # r))
               else json_number (c # r))
      | JItems \<Rightarrow>
          Option.bind (json_p JValue s) (\<lambda>(v, r).
            case skip_ws r of
              [] \<Rightarrow> None
            | c # r' \<Rightarrow>
                if c = CHR '','' then
                  Option.bind (json_p JItems r')
                    (\<lambda>(a, r''). case a of JArr vs \<Rightarrow> Some (JArr (v # vs), r'') | _ \<Rightarrow> None)
                else if c = CHR '']'' then Some (JArr [v], r')
                else None)
      | JMembers \<Rightarrow>
          (case skip_ws s of
             [] \<Rightarrow> None
           | c # r \<Rightarrow>
               if c \<noteq> dquote then None
               else
                 Option.bind (json_unquote r) (\<lambda>(k, r1).
                   case skip_ws r1 of
                     [] \<Rightarrow> None
                   | c1 # r2 \<Rightarrow>
                       if c1 \<noteq> CHR '':'' then None
                       else
                         Option.bind (json_p JValue r2) (\<lambda>(v, r3).
                           case skip_ws r3 of
                             [] \<Rightarrow> None
                           | c3 # r4 \<Rightarrow>
                               if c3 = CHR '','' then
                                 Option.bind (json_p JMembers r4)
                                   (\<lambda>(ob, r5). case ob of
                                      JObj kvs \<Rightarrow> Some (JObj (obj_cons k v kvs), r5)
                                    | _ \<Rightarrow> None)
                               else if c3 = CHR ''}'' then Some (JObj [(k, v)], r4)
                               else None))))"

declare json_p.simps [code]

text \<open>\<open>JSON.parse(s)\<close>: one value, then only whitespace.\<close>

definition json_parse :: "string \<Rightarrow> jsval option" where
  "json_parse s =
     (case json_p JValue s of
        None \<Rightarrow> None
      | Some (v, r) \<Rightarrow> if skip_ws r = [] then Some v else None)"

subsection \<open>What the serialisation denotes\<close>

text \<open>
  The value a serialisation reads back as: \<open>undefined\<close> members left out of objects and
  \<open>undefined\<close> array elements replaced by \<open>null\<close>.
\<close>

fun json_canon :: "jsval \<Rightarrow> jsval" where
  "json_canon (JArr xs) = JArr (map (\<lambda>x. if x = JUndef then JNull else json_canon x) xs)"
| "json_canon (JObj kvs) =
     JObj (map (\<lambda>(k, x). (k, json_canon x)) (filter (\<lambda>(k, x). x \<noteq> JUndef) kvs))"
| "json_canon v = v"

text \<open>
  A value as a JavaScript object holds it: no key repeated in an object, and (so that the
  list order is the object's property order) no array-index key.
\<close>

fun json_wf :: "jsval \<Rightarrow> bool" where
  "json_wf (JArr xs) \<longleftrightarrow> (\<forall>x \<in> set xs. json_wf x)"
| "json_wf (JObj kvs) \<longleftrightarrow>
     distinct (map fst kvs) \<and> (\<forall>(k, x) \<in> set kvs. \<not> is_index_key k \<and> json_wf x)"
| "json_wf v \<longleftrightarrow> True"

subsection \<open>Reading back what is written\<close>

text \<open>The text that may follow a value inside a serialisation.\<close>

definition json_follow :: "string \<Rightarrow> bool" where
  "json_follow r \<longleftrightarrow> r = [] \<or> hd r = CHR '','' \<or> hd r = CHR '']'' \<or> hd r = CHR ''}''"

lemma skip_ws_Cons [simp]: "\<not> json_ws c \<Longrightarrow> skip_ws (c # r) = c # r"
  by (simp add: skip_ws_def)

lemma hex_value_hex_char: "d < 16 \<Longrightarrow> hex_value (hex_char d) = Some d"
proof -
  assume "d < 16"
  then have "d \<in> {0..<16}" by simp
  also have "{0..<16} = set [0..<16]" by simp
  finally show ?thesis by (auto simp: hex_value_def hex_char_def upt_rec)
qed

text \<open>Every character written by \<open>json_escape\<close> reads back as itself.\<close>

lemma hex_value_zero [simp]: "hex_value (CHR ''0'') = Some 0"
  by (simp add: hex_value_def)

lemma json_unquote_escape:
  "json_unquote (json_escape c @ s) = map_option (\<lambda>(t, r). (c # t, r)) (json_unquote s)"
proof -
  have bd: "backslash \<noteq> dquote" by (simp add: backslash_def dquote_def)
  define n where "n = (of_char c :: nat)"
  have code: "\<And>d. of_char d = n \<Longrightarrow> c = d" by (simp add: n_def)
  consider "c = dquote" | "c = backslash"
    | "c \<noteq> dquote" "c \<noteq> backslash" "n \<in> {8, 9, 10, 12, 13}"
    | "c \<noteq> dquote" "c \<noteq> backslash" "n \<notin> {8, 9, 10, 12, 13}" "n < 32"
    | "c \<noteq> dquote" "c \<noteq> backslash" "\<not> n < 32"
    by blast
  then show ?thesis
  proof cases
    case 1
    then show ?thesis
      using bd by (simp add: json_escape_def json_short_escape_def dquote_def backslash_def)
  next
    case 2
    then show ?thesis
      using bd by (simp add: json_escape_def json_short_escape_def dquote_def backslash_def)
  next
    case 3
    then have "n = 8 \<and> c = CHR 0x08 \<or> n = 9 \<and> c = CHR 0x09 \<or> n = 10 \<and> c = CHR 0x0A \<or>
               n = 12 \<and> c = CHR 0x0C \<or> n = 13 \<and> c = CHR 0x0D"
      by (auto intro: code)
    with 3 show ?thesis
      by (auto simp: json_escape_def json_short_escape_def Let_def n_def [symmetric]
          backslash_def dquote_def)
  next
    case 4
    then have e: "json_escape c = backslash # ''u00'' @ [hex_char (n div 16), hex_char (n mod 16)]"
      by (simp add: json_escape_def Let_def n_def [symmetric])
    have cp: "((0 * 16 + 0) * 16 + n div 16) * 16 + n mod 16 = n" by simp
    have u: "utf8_of_cp n = Some [c]" using 4 by (simp add: utf8_of_cp_def n_def)
    from 4 have "n div 16 < 16" "n mod 16 < 16" by simp_all
    then show ?thesis
      using bd e cp u by (simp add: hex_value_hex_char backslash_def)
  next
    case 5
    then have "json_escape c = [c]" by (simp add: json_escape_def Let_def n_def [symmetric])
    with 5 show ?thesis by (simp add: n_def)
  qed
qed

lemma json_unquote_quote:
  "json_unquote (concat (map json_escape s) @ dquote # rest) = Some (s, rest)"
  by (induction s) (simp_all add: json_unquote_escape)

lemma string_of_nat_no_leading_zero:
  "string_of_nat n = ''0'' \<or> hd (string_of_nat n) \<noteq> CHR ''0''"
proof (induction n rule: string_of_nat.induct)
  case (1 n)
  show ?case
  proof (cases "n < 10")
    case True
    then have "n \<in> set [0..<10]" by simp
    then show ?thesis by (auto simp: string_of_nat.simps [of n] digit_char_def upt_rec)
  next
    case False
    then have "string_of_nat (n div 10) \<noteq> ''0''"
      using nat_of_digits_string_of_nat [of "n div 10"] by (auto simp: nat_of_digits_def digit_value_def)
    with "1.IH" False show ?thesis by (simp add: string_of_nat.simps [of n])
  qed
qed

lemma json_follow_no_digit:
  "json_follow r \<Longrightarrow>
   takeWhile is_digit r = [] \<and> dropWhile is_digit r = r \<and>
   \<not> (r \<noteq> [] \<and> (hd r = CHR ''.'' \<or> hd r = CHR ''e'' \<or> hd r = CHR ''E''))"
  by (cases r) (auto simp: json_follow_def is_digit_def)

lemma json_number_digits:
  assumes "json_follow r"
  shows "takeWhile is_digit (string_of_nat m @ r) = string_of_nat m \<and>
         dropWhile is_digit (string_of_nat m @ r) = r"
  using assms json_follow_no_digit [OF assms]
  by (simp add: takeWhile_append2 dropWhile_append2 is_digit_string_of_nat)

lemma json_number_string_of_int:
  assumes "json_follow r"
  shows "json_number (string_of_int i @ r) = Some (JNum i, r)"
proof -
  have nz: "\<not> (hd (string_of_nat m) = CHR ''0'' \<and> 1 < length (string_of_nat m))" for m
    using string_of_nat_no_leading_zero [of m] by auto
  have nm: "hd (string_of_nat m) \<noteq> CHR ''-''" for m
    using is_digit_string_of_nat [OF hd_in_set [OF string_of_nat_nonempty [of m]]]
    by (auto simp: is_digit_def)
  note d = json_number_digits [OF assms] json_follow_no_digit [OF assms]
  show ?thesis
  proof (cases "i < 0")
    case True
    with d nz [of "nat (- i)"] show ?thesis
      by (simp add: json_number_def string_of_int_def Let_def)
  next
    case False
    with d nz [of "nat i"] nm [of "nat i"] show ?thesis
      by (simp add: json_number_def string_of_int_def Let_def)
  qed
qed

lemma json_stringify_start:
  "json_stringify v = Some t \<Longrightarrow>
   \<exists>c r. t = c # r \<and> \<not> json_ws c \<and> c \<noteq> CHR '']'' \<and> c \<noteq> CHR ''}'' \<and> c \<noteq> CHR '',''"
proof (cases v)
  case (JNum i)
  assume t: "json_stringify v = Some t"
  obtain d ds where sn: "string_of_nat (nat \<bar>i\<bar>) = d # ds"
    using string_of_nat_nonempty by (cases "string_of_nat (nat \<bar>i\<bar>)") auto
  then have "is_digit d" using is_digit_string_of_nat [of d "nat \<bar>i\<bar>"] by simp
  then have "\<not> json_ws d \<and> d \<noteq> CHR '']'' \<and> d \<noteq> CHR ''}'' \<and> d \<noteq> CHR '',''"
    by (auto simp: is_digit_def json_ws_def)
  with JNum t sn show ?thesis
    by (cases "i < 0") (auto simp: string_of_int_def json_ws_def)
qed (auto simp: json_ws_def json_quote_def dquote_def)

lemma json_p_null: "json_p JValue (''null'' @ r) = Some (JNull, r)"
  by (subst json_p.simps) (simp add: json_ws_def dquote_def)

text \<open>The elements of an array, given that each element reads back.\<close>

lemma json_p_items:
  assumes "xs \<noteq> []"
    and ih: "\<And>x t r. x \<in> set xs \<Longrightarrow> json_stringify x = Some t \<Longrightarrow> json_follow r \<Longrightarrow>
               json_p JValue (t @ r) = Some (json_canon x, r)"
  shows "json_p JItems
           (join_with '','' (map (\<lambda>x. case json_stringify x of None \<Rightarrow> ''null'' | Some s \<Rightarrow> s) xs) @
            CHR '']'' # rest) =
         Some (JArr (map (\<lambda>x. if x = JUndef then JNull else json_canon x) xs), rest)"
  using assms
proof (induction xs)
  case Nil
  then show ?case by simp
next
  case (Cons x xs)
  let ?item = "\<lambda>x. case json_stringify x of None \<Rightarrow> ''null'' | Some s \<Rightarrow> s"
  have read: "json_p JValue (?item x @ r) = Some (if x = JUndef then JNull else json_canon x, r)"
    if "json_follow r" for r
  proof (cases "x = JUndef")
    case True
    then show ?thesis using json_p_null [of r] by simp
  next
    case False
    then obtain t where "json_stringify x = Some t"
      by (cases "json_stringify x") (auto simp: json_stringify_None_iff)
    with False Cons.prems(2) that show ?thesis by simp
  qed
  show ?case
  proof (cases "xs = []")
    case True
    have "json_follow (CHR '']'' # rest)" by (simp add: json_follow_def)
    from read [OF this] True show ?thesis
      by (subst json_p.simps) (simp add: json_ws_def)
  next
    case False
    have f: "json_follow (CHR '','' # join_with '','' (map ?item xs) @ CHR '']'' # rest)"
      by (simp add: json_follow_def)
    have "json_p JItems (join_with '','' (map ?item xs) @ CHR '']'' # rest) =
            Some (JArr (map (\<lambda>x. if x = JUndef then JNull else json_canon x) xs), rest)"
      using False Cons.prems(2) by (intro Cons.IH) auto
    with read [OF f] False show ?thesis
      by (subst json_p.simps) (simp add: json_ws_def)
  qed
qed

lemma json_stringify_members:
  "concat (map (\<lambda>(k, x). case json_stringify x of None \<Rightarrow> [] | Some s \<Rightarrow> [json_quote k @ '':'' @ s]) kvs) =
   map (\<lambda>(k, x). json_quote k @ '':'' @ the (json_stringify x)) (filter (\<lambda>(k, x). x \<noteq> JUndef) kvs)"
  by (induction kvs) (auto split: option.splits simp: json_stringify_None_iff)

text \<open>The members of an object, given that each member's value reads back.\<close>

lemma json_p_members:
  assumes "kvs \<noteq> []" "distinct (map fst kvs)" "\<forall>(k, x) \<in> set kvs. x \<noteq> JUndef"
    and ih: "\<And>k x t r. (k, x) \<in> set kvs \<Longrightarrow> json_stringify x = Some t \<Longrightarrow> json_follow r \<Longrightarrow>
               json_p JValue (t @ r) = Some (json_canon x, r)"
  shows "json_p JMembers
           (join_with '','' (map (\<lambda>(k, x). json_quote k @ '':'' @ the (json_stringify x)) kvs) @
            CHR ''}'' # rest) =
         Some (JObj (map (\<lambda>(k, x). (k, json_canon x)) kvs), rest)"
  using assms
proof (induction kvs)
  case Nil
  then show ?case by simp
next
  case (Cons kx kvs)
  obtain k x where kx: "kx = (k, x)" by fastforce
  let ?mem = "\<lambda>(k, x). json_quote k @ '':'' @ the (json_stringify x)"
  from Cons.prems kx obtain t where t: "json_stringify x = Some t"
    by (cases "json_stringify x") (auto simp: json_stringify_None_iff)
  have read: "json_follow r \<Longrightarrow> json_p JValue (t @ r) = Some (json_canon x, r)" for r
    using Cons.prems(4) [of k x t r] kx t by simp
  have q: "\<not> json_ws dquote" by (simp add: json_ws_def dquote_def)
  show ?case
  proof (cases "kvs = []")
    case True
    have "json_follow (CHR ''}'' # rest)" by (simp add: json_follow_def)
    from read [OF this] True kx t q show ?thesis
      by (subst json_p.simps) (simp add: json_quote_def json_unquote_quote json_ws_def)
  next
    case False
    have f: "json_follow (CHR '','' # join_with '','' (map ?mem kvs) @ CHR ''}'' # rest)"
      by (simp add: json_follow_def)
    have rest: "json_p JMembers (join_with '','' (map ?mem kvs) @ CHR ''}'' # rest) =
                  Some (JObj (map (\<lambda>(k, x). (k, json_canon x)) kvs), rest)"
      using False Cons.prems by (intro Cons.IH) auto
    have new: "map_of (map (\<lambda>(k, x). (k, json_canon x)) kvs) k = None"
      using Cons.prems(2) kx by (force simp: map_of_eq_None_iff)
    from read [OF f] rest new kx t q False show ?thesis
      by (subst json_p.simps) (simp add: json_quote_def json_unquote_quote json_ws_def obj_cons_def)
  qed
qed

lemma index_first_no_index:
  "\<forall>(k, x) \<in> set kvs. \<not> is_index_key k \<Longrightarrow> index_first kvs = kvs"
  by (simp add: index_first_def case_prod_beta filter_empty_conv)

lemma dquote_not_bracket [simp]: "dquote \<noteq> CHR ''['' \<and> dquote \<noteq> CHR ''{'' \<and> dquote \<noteq> CHR ''}''"
  by (simp add: dquote_def)

lemma json_p_number:
  assumes "json_follow rest"
  shows "json_p JValue (string_of_int i @ rest) = Some (JNum i, rest)"
proof -
  obtain d ds where sn: "string_of_nat (nat \<bar>i\<bar>) = d # ds"
    using string_of_nat_nonempty by (cases "string_of_nat (nat \<bar>i\<bar>)") auto
  then have "is_digit d" using is_digit_string_of_nat [of d "nat \<bar>i\<bar>"] by simp
  moreover obtain c r where cr: "string_of_int i @ rest = c # r" "c = CHR ''-'' \<or> c = d"
    using sn by (cases "i < 0") (auto simp: string_of_int_def)
  ultimately have "json_p JValue (c # r) = json_number (c # r)"
    by (subst json_p.simps) (auto simp: is_digit_def json_ws_def dquote_def)
  with cr(1) json_number_string_of_int [OF assms, of i] show ?thesis by simp
qed

lemma json_item_start:
  "\<exists>c r. (case json_stringify x of None \<Rightarrow> ''null'' | Some s \<Rightarrow> s) = c # r \<and>
         \<not> json_ws c \<and> c \<noteq> CHR '']''"
  using json_stringify_start [of x] by (cases "json_stringify x") (auto simp: json_ws_def)

text \<open>Every well-formed value reads back from its serialisation, followed by any text
  that may follow a value.\<close>

lemma json_p_value:
  "json_wf v \<Longrightarrow> json_stringify v = Some t \<Longrightarrow> json_follow rest \<Longrightarrow>
   json_p JValue (t @ rest) = Some (json_canon v, rest)"
proof (induction v arbitrary: t rest rule: jsval.induct)
  case JNull
  then show ?case using json_p_null [of rest] by simp
next
  case (JBool b)
  then have t: "t = (if b then ''true'' else ''false'')" by simp
  show ?case
  proof (cases b)
    case True
    with t show ?thesis by (subst json_p.simps) (simp add: json_ws_def dquote_def)
  next
    case False
    with t show ?thesis by (subst json_p.simps) (simp add: json_ws_def dquote_def)
  qed
next
  case (JNum i)
  then have "t = string_of_int i" by simp
  with JNum.prems(3) show ?case by (simp add: json_p_number)
next
  case (JStr s)
  have q: "\<not> json_ws dquote" by (simp add: json_ws_def dquote_def)
  from JStr.prems(2) have "t = dquote # concat (map json_escape s) @ [dquote]"
    by (simp add: json_quote_def)
  with q show ?case by (subst json_p.simps) (simp add: json_unquote_quote)
next
  case (JArr xs)
  let ?item = "\<lambda>x. case json_stringify x of None \<Rightarrow> ''null'' | Some s \<Rightarrow> s"
  show ?case
  proof (cases xs)
    case Nil
    with JArr.prems(2) have "t = ''[]''" by simp
    then show ?thesis using Nil by (subst json_p.simps) (simp add: json_ws_def)
  next
    case (Cons x xs')
    obtain c r where cr: "?item x = c # r" "\<not> json_ws c" "c \<noteq> CHR '']''"
      using json_item_start [of x] by blast
    have items: "json_p JItems (join_with '','' (map ?item xs) @ CHR '']'' # rest) =
                   Some (JArr (map (\<lambda>x. if x = JUndef then JNull else json_canon x) xs), rest)"
      using Cons JArr.prems(1) by (intro json_p_items JArr.IH) auto
    have t: "t = CHR ''['' # join_with '','' (map ?item xs) @ '']''"
      using JArr.prems(2) by simp
    obtain r' where j: "join_with '','' (map ?item xs) = c # r'"
      using Cons cr by (cases xs') auto
    with t items cr show ?thesis by (subst json_p.simps) (simp add: json_ws_def)
  qed
next
  case (JObj kvs)
  let ?kvs = "filter (\<lambda>(k, x). x \<noteq> JUndef) kvs"
  let ?mem = "\<lambda>(k, x). json_quote k @ '':'' @ the (json_stringify x)"
  have t: "t = CHR ''{'' # join_with '','' (map ?mem ?kvs) @ ''}''"
    using JObj.prems(2) by (simp add: json_stringify_members)
  show ?case
  proof (cases "?kvs = []")
    case True
    with t show ?thesis by (subst json_p.simps) (simp add: json_ws_def)
  next
    case False
    then obtain k x kvs' where kvs: "?kvs = (k, x) # kvs'" by (cases ?kvs) auto
    have q: "\<not> json_ws dquote" by (simp add: json_ws_def dquote_def)
    have wf: "distinct (map fst kvs)" "\<forall>(k, x) \<in> set kvs. \<not> is_index_key k \<and> json_wf x"
      using JObj.prems(1) by simp_all
    have members: "json_p JMembers (join_with '','' (map ?mem ?kvs) @ CHR ''}'' # rest) =
                     Some (JObj (map (\<lambda>(k, x). (k, json_canon x)) ?kvs), rest)"
    proof (rule json_p_members)
      show "distinct (map fst ?kvs)" using wf(1) by (simp add: distinct_map_filter)
      show "\<And>k x t r. (k, x) \<in> set ?kvs \<Longrightarrow> json_stringify x = Some t \<Longrightarrow> json_follow r \<Longrightarrow>
              json_p JValue (t @ r) = Some (json_canon x, r)"
        using wf(2) by (auto intro: JObj.IH)
    qed (use False in auto)
    have order: "index_first (map (\<lambda>(k, x). (k, json_canon x)) ?kvs) = map (\<lambda>(k, x). (k, json_canon x)) ?kvs"
      using wf(2) by (intro index_first_no_index) auto
    from t kvs members order q show ?thesis
      by (subst json_p.simps) (simp add: json_quote_def json_ws_def)
  qed
qed simp

lemma json_parse_stringify:
  "json_wf v \<Longrightarrow> json_stringify v = Some t \<Longrightarrow> json_parse t = Some (json_canon v)"
  using json_p_value [of v t "[]"] by (simp add: json_parse_def json_follow_def skip_ws_def)

subsection \<open>The serialised tool result\<close>

text \<open>
  C27. When a tool returns a value that is not a string, has no array \<open>content\<close> and no
  truthy \<open>text\<close>, the tool message carries \<open>JSON.stringify\<close> of it, and that text reads
  back (\<open>JSON.parse\<close>) as the result itself, with its \<open>undefined\<close> members dropped and its
  \<open>undefined\<close> array elements read as \<open>null\<close>: the model is told the whole result. The
  result must not be \<open>undefined\<close> and must be a proper JSON value (no repeated key, no
  array-index key).
\<close>

theorem normalize_fallback_roundtrip:
  assumes "\<not> is_string r"
    and "\<not> (truthy r \<and> truthy (prop_of r ''content'') \<and> is_array (prop_of r ''content''))"
    and "\<not> (truthy r \<and> truthy (prop_of r ''text''))"
    and "r \<noteq> JUndef" "json_wf r"
  shows "\<exists>s. normalize_result r = Inr (JStr s) \<and> json_parse s = Some (json_canon r)"
proof -
  from assms(4) obtain s where s: "json_stringify r = Some s"
    by (cases "json_stringify r") (auto simp: json_stringify_None_iff)
  with assms(1-3) have "normalize_result r = Inr (JStr s)"
    by (auto simp: normalize_result_def)
  with json_parse_stringify [OF assms(5) s] show ?thesis by blast
qed

definition sample_result :: jsval where
  "sample_result = JObj [(''status'', JStr ''ok''), (''items'', JArr [JNum 1, JUndef]), (''note'', JUndef)]"

theorem normalize_fallback_roundtrip_witness:
  "\<exists>s. normalize_result sample_result = Inr (JStr s) \<and>
       json_parse s = Some (JObj [(''status'', JStr ''ok''), (''items'', JArr [JNum 1, JNull])])"
  using normalize_fallback_roundtrip [of sample_result]
  by (simp add: sample_result_def is_index_key_def is_digit_def)

end
