(* ===== verification/Spec2Isabelle.thy ===== *)
theory Spec2Isabelle
  imports MCP_Script RAG_Context Loop_Spec RAG_Setup Hello_Script JSON_Reader
begin

text \<open>
  \<^bold>\<open>A verification library for the agent-beginer demonstration scripts.\<close>

  \<^bold>\<open>The program.\<close> The repository holds five JavaScript scripts built on LangChain.
  src/tool-test/src/mcp-test.mjs is the one with control logic of its own: it starts an MCP
  client for four servers, reads every server resource into a system prompt, fetches the
  servers' tools, binds them to a chat model and runs \<open>runWithTools\<close>, a bounded loop that
  sends the whole conversation to the model, appends the answer, runs the tools the answer
  requests one after the other (converting each raw result into a string), and stops at the
  first answer without tool calls or after \<open>maxIterations\<close> rounds.
  src/rag-test/src/loader-and-splitter.mjs loads and splits a web page, embeds it into an
  in-memory vector store and, for each question, labels the retrieved documents with their
  scores, builds a numbered context and a prompt and asks the model. The other three
  scripts (hello-langchain.mjs and the two splitter demos) configure a library object and
  print what it returns.

  \<^bold>\<open>How the development models it.\<close> Shallow embedding, one theory per part, state
  passed explicitly:
  \<^item> \<open>Prelude\<close>: the rule collections \<open>js_simps\<close> and \<open>loop_simps\<close>, \<open>join_with\<close>
    (the gluing of \<open>Array.prototype.join\<close>), \<open>map_throw\<close> (a \<open>map\<close> whose callback may
    throw), decimal printing and reading of naturals, and list lemmas shared below.
  \<^item> \<open>JS_Values\<close>: the JavaScript runtime the code relies on, from the language
    specification: the value datatype \<open>jsval\<close>, exceptions \<open>js_error\<close> and completions
    \<open>outcome\<close>, truthiness, property reads that throw on \<open>null\<close>/\<open>undefined\<close>
    (\<open>get_prop\<close>), \<open>String.prototype.length\<close> (\<open>js_length\<close>, UTF-16 code units of a
    UTF-8 byte string), \<open>Object.keys\<close>, \<open>String(v)\<close> (\<open>to_str\<close>), \<open>join\<close> (\<open>js_join\<close>),
    \<open>JSON.stringify\<close> and \<open>Number.prototype.toFixed\<close> (\<open>to_fixed\<close>, on exact rationals,
    with a reader \<open>decimal_value\<close> for its output); and the state of a script, \<open>'w io\<close>:
    the external world the library calls act on (\<open>io_call\<close>) and the console transcript,
    one entry per \<open>console.log\<close> (\<open>console_logs\<close>) or failed \<open>console.assert\<close>
    (\<open>console_assert\<close>, a warning on standard error) with the call's arguments.
  \<^item> \<open>JS_Strings\<close>: one more runtime piece, from the language specification: the
    value of an untagged template literal given the characters between its backticks
    (\<open>cook_template\<close>: single-character escapes, non-escape characters, line
    continuations; \<open>None\<close> for syntax errors, \<open>\x\<close>/\<open>\u\<close> escapes and substitutions,
    which the repository's literals do not use).
  \<^item> \<open>Tool_Result\<close>: \<open>normalize_result\<close>, lines 79--95 of mcp-test.mjs, with
    \<open>text_part\<close> for the callback of line 89.
  \<^item> \<open>Agent_Loop\<close>: \<open>runWithTools\<close> (lines 51--104). The state \<open>loop_state\<close> is the
    \<open>message\<close> array (\<open>history\<close>), the external world \<open>world\<close>, a ghost trace
    \<open>calls\<close> of the model and tool invocations in order, and the console output \<open>out\<close>
    (the waiting notice \<open>waiting_line\<close>, the final reply \<open>reply_line\<close> and the
    tool-call notices \<open>tool_call_notices\<close>, with chalk's two styles as a parameter
    \<open>ch\<close>, since their bytes depend on the terminal's colour support). \<open>run_tool_call\<close> is one pass of the
    inner \<open>for\<close> (lookup with \<open>find_tool\<close>, invoke, normalise, push), \<open>run_tool_calls\<close> the
    inner loop, \<open>iteration\<close> one pass of the outer loop (model call, push, early return,
    tools), \<open>run_loop\<close> the outer loop and \<open>last_content\<close> the final
    \<open>message[message.length - 1].content\<close>. The chat model and the tools are parameters:
    functions of the history (resp. the arguments) and of the world that answer or throw.
  \<^item> \<open>Config\<close>: the client options of the three scripts that build a model, the
    \<open>||\<close> fallback of hello-langchain.mjs, the four MCP server entries (\<open>mcp_servers\<close>,
    with the template-literal URL) and the three splitter configurations.
  \<^item> \<open>MCP_Script\<close>: the MCP client as a record of its four operations, the resource
    prefetch (\<open>read_server_resources\<close>, \<open>read_all_resources\<close>,
    \<open>collect_resource_content\<close>, lines 39--46) and the top level \<open>mcp_main\<close> (lines
    39--49 and 106--112). \<open>read_one\<close> is the inner loop's body and \<open>read_each\<close> a
    reference reading of all (server, resource) pairs that keeps the texts as a list.
  \<^item> \<open>RAG_Pipeline\<close>: the question loop of loader-and-splitter.mjs (lines 57--107): the
    score lookup \<open>find_score\<close>, the label \<open>similarity_label\<close>, the metadata test, the
    context \<open>rag_context\<close>, the prompt \<open>rag_prompt\<close> (its Chinese text kept as UTF-8
    bytes taken from the source), what each question prints (\<open>question_banner\<close>,
    \<open>retrieval_lines\<close> with \<open>doc_lines\<close> for the \<open>forEach\<close> callback, the answer
    heading and the answer), \<open>answer_question\<close>, \<open>rag_loop\<close> and \<open>rag_main\<close> on the
    script state, with the retriever, the scored search and the model as parameters.
  \<^item> \<open>Splitter_Scripts\<close>: LatexTextSplitter-test.mjs and MarkdownTextSplitter-test.mjs.
    The texts are kept exactly as written (\<open>latex_raw\<close>, lines 7--11; \<open>readme_raw\<close>,
    lines 7--67; generated from the source bytes, one source line per line) and cooked into
    \<open>latex_text\<close> and \<open>readme_text\<close>; \<open>split_script\<close> builds the document, calls the
    splitter (a parameter, with the configuration of \<open>Config\<close>) and prints every chunk
    with its \<open>length\<close> and its token count (\<open>chunk_lines\<close>; the tokeniser is a
    parameter);
    \<open>latex_main\<close> and \<open>markdown_main\<close> are the two scripts.
  \<^item> \<open>RAG_Setup\<close>: the first half of loader-and-splitter.mjs (lines 8--55):
    \<open>rag_setup\<close> loads the page (loader configuration \<open>rag_loader_config\<close>), splits it,
    lets \<open>console.assert\<close> warn (it only logs), prints the first document's length
    (throwing when there is none) and the number of chunks (\<open>setup_lines\<close>) and builds
    the vector store; \<open>rag_pipeline\<close>
    is the whole script, the setup followed by \<open>rag_main\<close>. Loader, splitter, store and
    the binding of the store into the services are parameters.
  \<^item> \<open>Hello_Script\<close>: the one model call of hello-langchain.mjs and the content it
    prints (lines 14--15).
  \<^item> \<open>RAG_Context\<close>: a reader for the context of lines 90--92, \<open>read_context\<close>
    (\<open>split_on\<close> of the Prelude, \<open>String.prototype.split\<close> with a non-empty separator,
    then \<open>read_fragment\<close> on each piece's header); a reference reader for the proofs, not
    code of the repository.
  \<^item> \<open>JSON_Reader\<close>: a reference reader for what \<open>JSON.stringify\<close> writes, the
    \<open>JSON.parse\<close> of ECMA-262 (section 25.5.1) on the values \<open>jsval\<close> has:
    \<open>json_p\<close> is a recursive-descent parser over a mode (value, array items, object
    members), a \<open>partial_function (option)\<close> so that it needs neither fuel nor a
    termination argument, with string unescaping (\<open>json_unquote\<close>, \<open>\u\<close> escapes
    re-encoded as UTF-8), integers only, and the object semantics of \<open>JSON.parse\<close>:
    a repeated key keeps its first position and its last value (\<open>obj_cons\<close>), and
    array-index keys come first in ascending order (\<open>index_first\<close>). The theory
    imports \<open>Code_Target_Nat\<close> so that its code evaluates on large numerals. A
    reference for the proofs, not code of the repository.
  \<^item> \<open>Loop_Spec\<close>: the design's abstract machine for \<open>runWithTools\<close>, an \<open>inductive\<close>
    step relation \<open>spec_step\<close> over \<open>spec_state\<close> (phase, conversation, rounds used,
    world) whose steps are one model round or one requested tool call; the phases are
    awaiting the model, awaiting tool results, and the terminal answered, exhausted and
    crashed. \<open>pending_after\<close> reads a history as the chat API does: which tool calls a
    tool message may still answer. \<open>abs_of\<close> maps a loop state to a machine state.
  Every \<open>await\<close> that may reject is a value \<open>Inl e\<close> or \<open>Exc e\<close>; every property read
  that may throw goes through \<open>get_prop\<close> or \<open>js_index\<close>.

  \<^bold>\<open>What is proved.\<close>
  \<^item> The loop: the model is called at most \<open>maxIterations\<close> times (no fuel: \<open>run_loop\<close> is
    a total function whose termination measure is the remaining budget); an immediate
    answer is returned verbatim after one call; a round appends the answer and exactly one
    tool message per call of a registered tool, with that call's id, in order; every model
    call sees the whole, append-only history; unknown tools are skipped; an exception of
    the model or of a tool aborts the run, and a failing tool aborts the remaining calls of
    its round; a non-positive budget returns the query; and two closed scenarios with
    \<open>maxIterations = 2\<close> show that the value returned on exhaustion is the last message,
    a tool output when the tool exists. The final reply is printed exactly when the run
    ends with a tool-free answer (\<open>answered\<close>); on exhaustion or an exception only the
    progress notices are printed, so the content returned on exhaustion is never shown.
  \<^item> The conversion of tool results: its value on each branch, that it throws only a
    \<open>TypeError\<close> for a \<open>null\<close> part, when its result is not a string, and that the
    spec's own example gives \<open>"A\n"\<close> rather than \<open>"A"\<close>. On its fallback branch the
    tool message carries a text that \<open>JSON.parse\<close> reads back to the result itself, up to
    what \<open>JSON.stringify\<close> drops (\<open>undefined\<close> members, read back as absent, and
    \<open>undefined\<close> elements, read back as \<open>null\<close>: \<open>json_canon\<close>), for every result
    with distinct keys none of which is an array index (\<open>json_wf\<close>); the proof runs by
    induction on the value, with a lemma per JSON production that the reader consumes
    exactly what the writer produced and stops at the next delimiter.
  \<^item> The prefetch and the driver: the system prompt is the concatenation of the first
    content texts, a text-less item contributes \<open>undefined\<close>, an empty contents array
    aborts the script, and the client is closed exactly when everything before succeeded;
    the nested accumulating loops are equivalent to the reference \<open>read_each\<close> followed
    by a concatenation (same text, exception and effects; the accumulator is generalised
    as in the \<open>itrev\<close> proof).
  \<^item> The configuration: the unset-key URL, the model-name fallback, the splitter bounds.
  \<^item> The RAG loop: first-match score lookup by page content, \<open>N/A\<close>, each document of a
    search with distinct contents labelled with its own score, a printed similarity
    that reads back within \<open>0.00005\<close> of \<open>1 - score\<close>, abort on the first failing question,
    the numbering of the context, the prompt the model receives, and the whole console
    output of a question, in order; when the model rejects, the listing of the retrieved
    documents and the answer heading are already printed and nothing follows.
  \<^item> The specification (\<open>Loop_Spec\<close>): the machine is deterministic, never stuck in a
    non-terminal phase, has no infinite run (a lexicographic measure: budget left, then
    the phase's rank) and never exceeds the budget; every run of \<open>runWithTools\<close> is a run
    of it (simulation lemmas for one tool call, the inner loop, one iteration and the
    outer loop, by \<open>less_induct\<close> on the budget left), so the function's result is the one
    result the machine allows, and every history it produces is well formed (each tool
    message answers a pending call), an invariant proved by rule induction on the machine.
  \<^item> The RAG context: it reads back to the fragments' numbers and page contents whenever
    no page content contains the separator, and a content that does contain it can make
    one document look like two.
  \<^item> The RAG setup: a page without documents ends the script with a \<open>TypeError\<close> at
    line 44, after the split and the assertion's warning, with nothing printed on standard
    output and before the store; several documents are only reported.
  \<^item> The splitter demonstrations: the Markdown text reaches the splitter with its code
    fences intact, while the LaTeX text reaches it with no LaTeX command left (a closed
    computation by \<open>code_simp\<close> on the cooked text).
  \<^item> Here, across components: the script calls the model at most 30 times, and every call
    it makes starts with the collected resource text and the query.

  \<^bold>\<open>Not modelled.\<close> The text the console makes of its arguments (\<open>util.format\<close>,
  \<open>util.inspect\<close>: the transcript keeps the values) and the bytes \<open>chalk\<close> adds to the
  notices of \<open>runWithTools\<close> (they depend on the terminal's colour support and on a chalk
  version the repository does not pin: a parameter); the libraries the scripts call (the chat-model and embedding clients, the MCP
  servers and their transport, the web loader, the text splitters and tokeniser, the
  vector store): they are parameters or configuration records, so what the splitters and
  the tokeniser return is not determined here; floating-point rounding
  (numbers are integers in \<open>jsval\<close> and rationals in scores); the prototype chain (the
  property names the code reads are not inherited by any value). Beyond these, every
  line of the five scripts but their imports is modelled.
\<close>

subsection \<open>Properties across components\<close>

text \<open>
  C29. The whole MCP script invokes the model at most 30 times, whatever the client, the
  servers, the tools and the model do.
\<close>

theorem mcp_main_model_call_bound:
  "length (filter is_model_call (loop_calls (mcp_main ch c bind_tools query w))) \<le> 30"
proof -
  have bound: "runWithTools ch m ts rc query default_max_iterations w' = (r, s) \<Longrightarrow>
      length (filter is_model_call (calls s)) \<le> 30" for m ts rc w' r s
    using run_loop_model_calls [of ch m ts default_max_iterations 0 "init_state rc query w'"]
    by (simp add: runWithTools_def init_state_def default_max_iterations_def)
  show ?thesis
    by (auto simp: mcp_main_def split: prod.splits sum.splits outcome.splits dest: bound)
qed

text \<open>
  C30. Every model call the MCP script makes is sent a history that begins with the system
  message holding the text collected from the servers' resources and the human message
  holding the query.
\<close>

theorem mcp_main_model_sees_resources:
  assumes "collect_resource_content c w = (Inr rc, w1)" "get_tools c w1 = (Inr tools, w2)"
    and "ModelCall h \<in> set (loop_calls (mcp_main ch c bind_tools query w))"
  shows "prefix [SystemMessage (JStr rc), HumanMessage (JStr query)] h"
proof -
  let ?run = "runWithTools ch (bind_tools tools) tools rc query default_max_iterations w2"
  have "sees_history (init_history rc query) (init_state rc query w2)"
    by (simp add: sees_history_def init_state_def)
  then have sees: "sees_history (init_history rc query) (snd ?run)"
    unfolding runWithTools_def by (rule run_loop_sees_history)
  have "loop_calls (mcp_main ch c bind_tools query w) = calls (snd ?run)"
    using assms(1,2) by (auto simp: mcp_main_def split: prod.splits sum.splits outcome.splits)
  with assms(3) sees show ?thesis
    by (simp add: sees_history_def init_history_def)
qed

definition echo_binding :: "unit tool list \<Rightarrow> unit chat_model" where
  "echo_binding tools h w = (Inr \<lparr>ai_content = JStr ''done'', tool_calls = None\<rparr>, w)"

theorem mcp_main_model_sees_resources_witness:
  "ModelCall [SystemMessage (JStr ''hello''), HumanMessage (JStr ''q'')]
     \<in> set (loop_calls (mcp_main plain_chalk (text_client (JArr [JObj [(''text'', JStr ''hello'')]])) echo_binding ''q'' ()))
   \<and> prefix [SystemMessage (JStr ''hello''), HumanMessage (JStr ''q'')] [SystemMessage (JStr ''hello''), HumanMessage (JStr ''q'')]"
proof -
  let ?c = "text_client (JArr [JObj [(''text'', JStr ''hello'')]])"
  have h1: "collect_resource_content ?c () = (Inr ''hello'', ())"
    by (simp add: collect_resource_content_def text_client_def note_resource_def get_prop_def
        first_text_def js_index_def)
  have h2: "get_tools ?c () = (Inr [], ())" by (simp add: text_client_def)
  have h3: "ModelCall [SystemMessage (JStr ''hello''), HumanMessage (JStr ''q'')]
              \<in> set (loop_calls (mcp_main plain_chalk ?c echo_binding ''q'' ()))"
    using h1 h2
    by (simp add: mcp_main_def runWithTools_first_step default_max_iterations_def iteration_final_answer
        init_state_def init_history_def echo_binding_def no_tool_calls_def text_client_def)
  show ?thesis using h3 mcp_main_model_sees_resources [OF h1 h2 h3] by simp
qed

end
